theory Spec2Isabelle
  imports Complex_Main "HOL-Library.Log_Nat"
begin

section \<open>Numbers, strings and configuration of DefaultTheme.vue\<close>

text \<open>
  JavaScript numbers are modelled as real numbers: every arithmetic step of the source is
  taken exactly, without rounding, and without the values \<open>NaN\<close> and \<open>Infinity\<close>.
  A division by zero, which HOL evaluates to zero, is kept out of every theorem by an
  assumption on the divisor. Strings are lists of characters with codes below 256.

  The types of \<open>@/lib/type\<close> and the constants of \<open>@/lib/constant\<close> are read off
  the way the component uses them. Record fields carry the name of their configuration
  object as a prefix, since field names are global here.
\<close>

record Position =
  pos_x :: real
  pos_y :: real

datatype BACKGROUND_TYPE = COLOR | GRADIENT | IMAGE

datatype GRADIENT_DIRECTION =
    TO_RIGHT | TO_LEFT | TO_BOTTOM | TO_TOP
  | TO_BOTTOM_RIGHT | TO_BOTTOM_LEFT | TO_TOP_RIGHT | TO_TOP_LEFT
  | OTHER_DIRECTION

record Gradient =
  startColor :: string
  endColor :: string
  direction :: GRADIENT_DIRECTION

text \<open>An image object is known by its width and height; \<open>None\<close> is an absent image.\<close>

record BackgroundConfig =
  bg_type :: BACKGROUND_TYPE
  bg_color :: string
  bg_gradient :: Gradient
  bg_imageObj :: "(real \<times> real) option"
  bg_opacity :: real
  bg_blur :: real

record IconConfig =
  icon_svg :: string
  icon_size :: real
  icon_position :: Position
  icon_shadowColor :: string
  icon_shadowSize :: real

record TitleEffects =
  title_bold :: bool
  title_italic :: bool
  title_textShadow :: real

record TitleConfig =
  title_text :: string
  title_color :: string
  title_font :: string
  title_size :: real
  title_position :: Position
  title_effects :: TitleEffects

record WatermarkEffects =
  watermark_bold :: bool
  watermark_italic :: bool
  watermark_uppercase :: bool

record WatermarkConfig =
  watermark_text :: string
  watermark_color :: string
  watermark_font :: string
  watermark_size :: real
  watermark_position :: Position
  watermark_opacity :: real
  watermark_effects :: WatermarkEffects

record Props =
  backgroundConfig :: BackgroundConfig
  iconConfig :: IconConfig
  titleConfig :: TitleConfig
  watermarkConfig :: WatermarkConfig

text \<open>\<open>currentRandomFileName\<close> may be absent: \<open>None\<close> is \<open>undefined\<close>.\<close>

record ExportConfig =
  export_width :: real
  export_height :: real
  export_format :: string
  export_quality :: real
  export_fileName :: string
  export_useRandomFileName :: bool
  export_currentRandomFileName :: "string option"

record Canvas =
  canvas_width :: real
  canvas_height :: real

subsection \<open>String helpers of the JavaScript runtime\<close>

text \<open>\<open>s.slice(b, e)\<close> for constant bounds \<open>0 \<le> b \<le> e\<close>; bounds past the end are clamped.\<close>

definition slice :: "string \<Rightarrow> nat \<Rightarrow> nat \<Rightarrow> string" where
  "slice s b e = take (e - b) (drop b s)"

definition isWhiteSpace :: "char \<Rightarrow> bool" where
  "isWhiteSpace c =
     (let n = (of_char c :: nat) in n = 9 \<or> n = 10 \<or> n = 11 \<or> n = 12 \<or> n = 13 \<or> n = 32 \<or> n = 160)"

definition hexDigitValue :: "char \<Rightarrow> nat option" where
  "hexDigitValue c =
     (let n = (of_char c :: nat) in
      if 48 \<le> n \<and> n \<le> 57 then Some (n - 48)
      else if 97 \<le> n \<and> n \<le> 102 then Some (n - 87)
      else if 65 \<le> n \<and> n \<le> 70 then Some (n - 55)
      else None)"

definition isHexDigit :: "char \<Rightarrow> bool" where
  "isHexDigit c = (case hexDigitValue c of Some d \<Rightarrow> True | None \<Rightarrow> False)"

definition hexDigits :: "string \<Rightarrow> nat" where
  "hexDigits ds =
     foldl (\<lambda>acc c. 16 * acc + (case hexDigitValue c of Some d \<Rightarrow> d | None \<Rightarrow> 0)) 0 ds"

text \<open>
  \<open>parseInt(s, 16)\<close>: leading white space is skipped, then an optional sign and an optional
  prefix \<open>0x\<close> or \<open>0X\<close>; the longest run of hexadecimal digits that follows is the number.
  The result \<open>None\<close> is \<open>NaN\<close>, returned when that run is empty.
\<close>

definition parseInt16 :: "string \<Rightarrow> int option" where
  "parseInt16 s =
     (let s1 = dropWhile isWhiteSpace s;
          (sign, s2) =
            (case s1 of
               [] \<Rightarrow> (1, s1)
             | c # r \<Rightarrow>
                 if c = CHR ''-'' then (- 1, r)
                 else if c = CHR ''+'' then (1, r)
                 else (1, s1));
          s3 =
            (case s2 of
               a # b # r \<Rightarrow>
                 if a = CHR ''0'' \<and> (b = CHR ''x'' \<or> b = CHR ''X'') then r else s2
             | _ \<Rightarrow> s2);
          digits = takeWhile isHexDigit s3
      in if digits = [] then None else Some (sign * int (hexDigits digits)))"

text \<open>\<open>s.toUpperCase()\<close> on the letters \<open>a\<close> to \<open>z\<close>; every other character is kept.\<close>

definition toUpperCase :: "string \<Rightarrow> string" where
  "toUpperCase s =
     map (\<lambda>c. let n = (of_char c :: nat) in if 97 \<le> n \<and> n \<le> 122 then char_of (n - 32) else c) s"

text \<open>
  The font stacks of \<open>getFontFamilyWithFallback\<close>; the Chinese family names are given by
  their UTF-8 bytes.
\<close>

definition getFontFamilyWithFallback :: \<open>string \<Rightarrow> string\<close> where
  \<open>getFontFamilyWithFallback font =
     (if font = ''Maple Mono CN''
        then ''"Maple Mono CN", "Courier New", "Consolas", monospace''
      else if font = ''Fira Code''
        then ''"Fira Code", "Courier New", "Consolas", monospace''
      else if font = ''Lato''
        then ''"Lato", "Helvetica Neue", "Arial", sans-serif''
      else if font = ''Microsoft YaHei''
        then ''"Microsoft YaHei", "'' @ [CHR 0xE5, CHR 0xBE, CHR 0xAE, CHR 0xE8, CHR 0xBD, CHR 0xAF, CHR 0xE9, CHR 0x9B, CHR 0x85, CHR 0xE9, CHR 0xBB, CHR 0x91] @ ''", "SimHei", "Arial Unicode MS", sans-serif''
      else if font = ''PingFang SC''
        then ''"PingFang SC", "'' @ [CHR 0xE8, CHR 0x8B, CHR 0xB9, CHR 0xE6, CHR 0x96, CHR 0xB9] @ ''", "Helvetica Neue", "Arial", sans-serif''
      else if font = ''Source Han Sans CN''
        then ''"Source Han Sans CN", "'' @ [CHR 0xE6, CHR 0x80, CHR 0x9D, CHR 0xE6, CHR 0xBA, CHR 0x90, CHR 0xE9, CHR 0xBB, CHR 0x91, CHR 0xE4, CHR 0xBD, CHR 0x93] @ ''", "Noto Sans CJK SC", "Microsoft YaHei", sans-serif''
      else if font = ''Arial''
        then ''Arial, "Helvetica Neue", Helvetica, sans-serif''
      else if font = ''Helvetica''
        then ''Helvetica, "Helvetica Neue", Arial, sans-serif''
      else if font = ''monospace''
        then ''"Courier New", Consolas, "Liberation Mono", monospace''
      else if font = ''serif''
        then ''"Times New Roman", Times, "Songti SC", serif''
      else ''"'' @ font @ ''", Arial, sans-serif'')\<close>

section \<open>The spring animator\<close>

text \<open>
  The component keeps one \<open>AnimationState\<close> per animated scalar. The field \<open>value\<close> of
  the source is called \<open>value_f\<close> here, since \<open>value\<close> is reserved in theory text.
\<close>

record AnimationState =
  value_f :: real
  target :: real
  velocity :: real

definition createAnimationState :: "real \<Rightarrow> AnimationState" where
  "createAnimationState initialValue =
     \<lparr>value_f = initialValue, target = initialValue, velocity = 0\<rparr>"

record AnimationStates =
  titleSize :: AnimationState
  titleX :: AnimationState
  titleY :: AnimationState
  watermarkSize :: AnimationState
  watermarkX :: AnimationState
  watermarkY :: AnimationState
  iconSize :: AnimationState
  iconX :: AnimationState
  iconY :: AnimationState
  watermarkOpacity :: AnimationState
  backgroundBlur :: AnimationState

text \<open>The table \<open>animationStates\<close> as the module creates it.\<close>

definition animationStates :: AnimationStates where
  "animationStates =
     \<lparr>titleSize = createAnimationState 0,
      titleX = createAnimationState 0,
      titleY = createAnimationState 0,
      watermarkSize = createAnimationState 0,
      watermarkX = createAnimationState 0,
      watermarkY = createAnimationState 0,
      iconSize = createAnimationState 0,
      iconX = createAnimationState 0,
      iconY = createAnimationState 0,
      watermarkOpacity = createAnimationState 0,
      backgroundBlur = createAnimationState 0\<rparr>"

definition SPRING_STIFFNESS :: real where "SPRING_STIFFNESS = 200"
definition SPRING_DAMPING :: real where "SPRING_DAMPING = 20"
definition SPRING_MASS :: real where "SPRING_MASS = 1"
definition SPRING_PRECISION :: real where "SPRING_PRECISION = 0.01"

text \<open>
  \<open>updateSpringAnimation\<close> mutates the state it is given and returns whether the
  animation goes on; the model returns the new state together with that flag.
\<close>

definition updateSpringAnimation :: "AnimationState \<Rightarrow> real \<Rightarrow> AnimationState \<times> bool" where
  "updateSpringAnimation state dt =
     (let displacement = target state - value_f state in
      if \<bar>displacement\<bar> < SPRING_PRECISION \<and> \<bar>velocity state\<bar> < SPRING_PRECISION
      then (state\<lparr>value_f := target state, velocity := 0\<rparr>, False)
      else
        let springForce = SPRING_STIFFNESS * displacement;
            dampingForce = - SPRING_DAMPING * velocity state;
            force = springForce + dampingForce;
            acceleration = force / SPRING_MASS;
            state1 = state\<lparr>velocity := velocity state + acceleration * dt\<rparr>;
            state2 = state1\<lparr>value_f := value_f state1 + velocity state1 * dt\<rparr>
        in (state2, True))"

text \<open>
  \<open>updateAnimationTargets\<close>: the targets are read from the props; when the current value
  of \<open>titleSize\<close> is zero, every state has its value set to its target. The call of
  \<open>startAnimationLoop\<close> that ends the source function schedules frames and changes no
  state of the table.
\<close>

definition updateAnimationTargets :: "Props \<Rightarrow> AnimationStates \<Rightarrow> AnimationStates" where
  "updateAnimationTargets props states =
     (let states1 = states
            \<lparr>titleSize := (titleSize states)\<lparr>target := title_size (titleConfig props)\<rparr>,
             titleX := (titleX states)\<lparr>target := pos_x (title_position (titleConfig props))\<rparr>,
             titleY := (titleY states)\<lparr>target := pos_y (title_position (titleConfig props))\<rparr>,
             watermarkSize := (watermarkSize states)\<lparr>target := watermark_size (watermarkConfig props)\<rparr>,
             watermarkX := (watermarkX states)\<lparr>target := pos_x (watermark_position (watermarkConfig props))\<rparr>,
             watermarkY := (watermarkY states)\<lparr>target := pos_y (watermark_position (watermarkConfig props))\<rparr>,
             watermarkOpacity := (watermarkOpacity states)\<lparr>target := watermark_opacity (watermarkConfig props)\<rparr>,
             iconSize := (iconSize states)\<lparr>target := icon_size (iconConfig props)\<rparr>,
             iconX := (iconX states)\<lparr>target := pos_x (icon_position (iconConfig props))\<rparr>,
             iconY := (iconY states)\<lparr>target := pos_y (icon_position (iconConfig props))\<rparr>,
             backgroundBlur := (backgroundBlur states)\<lparr>target := bg_blur (backgroundConfig props)\<rparr>\<rparr>
      in if value_f (titleSize states1) = 0
         then states1
            \<lparr>titleSize := (titleSize states1)\<lparr>value_f := target (titleSize states1)\<rparr>,
             titleX := (titleX states1)\<lparr>value_f := target (titleX states1)\<rparr>,
             titleY := (titleY states1)\<lparr>value_f := target (titleY states1)\<rparr>,
             watermarkSize := (watermarkSize states1)\<lparr>value_f := target (watermarkSize states1)\<rparr>,
             watermarkX := (watermarkX states1)\<lparr>value_f := target (watermarkX states1)\<rparr>,
             watermarkY := (watermarkY states1)\<lparr>value_f := target (watermarkY states1)\<rparr>,
             iconSize := (iconSize states1)\<lparr>value_f := target (iconSize states1)\<rparr>,
             iconX := (iconX states1)\<lparr>value_f := target (iconX states1)\<rparr>,
             iconY := (iconY states1)\<lparr>value_f := target (iconY states1)\<rparr>,
             watermarkOpacity := (watermarkOpacity states1)\<lparr>value_f := target (watermarkOpacity states1)\<rparr>,
             backgroundBlur := (backgroundBlur states1)\<lparr>value_f := target (backgroundBlur states1)\<rparr>\<rparr>
         else states1)"

text \<open>
  One frame of \<open>animationLoop\<close>: the time stamps are those of \<open>performance.now()\<close>, in
  milliseconds. The result is the new \<open>lastTime\<close>, the table after the tick of every state,
  and \<open>anyActive\<close>, on which the loop asks for another frame.
\<close>

definition animationLoop :: "real \<Rightarrow> real \<Rightarrow> AnimationStates \<Rightarrow> real \<times> AnimationStates \<times> bool" where
  "animationLoop currentTime lastTime states =
     (let deltaTime = min ((currentTime - lastTime) / 1000) 0.1;
          r1 = updateSpringAnimation (titleSize states) deltaTime;
          r2 = updateSpringAnimation (titleX states) deltaTime;
          r3 = updateSpringAnimation (titleY states) deltaTime;
          r4 = updateSpringAnimation (watermarkSize states) deltaTime;
          r5 = updateSpringAnimation (watermarkX states) deltaTime;
          r6 = updateSpringAnimation (watermarkY states) deltaTime;
          r7 = updateSpringAnimation (iconSize states) deltaTime;
          r8 = updateSpringAnimation (iconX states) deltaTime;
          r9 = updateSpringAnimation (iconY states) deltaTime;
          r10 = updateSpringAnimation (watermarkOpacity states) deltaTime;
          r11 = updateSpringAnimation (backgroundBlur states) deltaTime;
          anyActive = (snd r1 \<or> snd r2 \<or> snd r3 \<or> snd r4 \<or> snd r5 \<or> snd r6 \<or> snd r7
                        \<or> snd r8 \<or> snd r9 \<or> snd r10 \<or> snd r11)
      in (currentTime,
          states\<lparr>titleSize := fst r1, titleX := fst r2, titleY := fst r3,
                 watermarkSize := fst r4, watermarkX := fst r5, watermarkY := fst r6,
                 iconSize := fst r7, iconX := fst r8, iconY := fst r9,
                 watermarkOpacity := fst r10, backgroundBlur := fst r11\<rparr>,
          anyActive))"

text \<open>
  One property under a fixed time step: a tick per frame for as long as the update
  reports activity, which is when the loop asks for another frame. The fuel bounds the
  number of frames; \<open>None\<close> means the property was still active when the fuel ran out.
\<close>

fun animate :: "nat \<Rightarrow> real \<Rightarrow> AnimationState \<Rightarrow> AnimationState option" where
  "animate 0 dt state = None"
| "animate (Suc n) dt state =
     (case updateSpringAnimation state dt of
        (state', active) \<Rightarrow> if active then animate n dt state' else Some state')"

text \<open>
  A quadratic form in the distance to the target and the velocity, used to measure the
  progress of the spring under the time step \<open>dt\<close>.
\<close>

definition springEnergy :: "real \<Rightarrow> AnimationState \<Rightarrow> real" where
  "springEnergy dt state =
     200 * (value_f state - target state)\<^sup>2
     + (20 - 200 * dt) * (value_f state - target state) * velocity state
     + (1 - 20 * dt) * (velocity state)\<^sup>2"

section \<open>Drawing: what a render pass puts on its surface\<close>

text \<open>
  A render pass is modelled by the parameters of the drawing calls it makes, in their
  fixed order: the white fill, the background, the icon, the title, the watermark.
  A fill style is either a string taken as it is, or the template
  \<open>rgba(r, g, b, opacity)\<close> kept as its four numbers, a channel \<open>None\<close> being \<open>NaN\<close>.
\<close>

datatype FillStyle =
    CssText string
  | CssRgba "int option" "int option" "int option" real

text \<open>
  \<open>ColorFill style x y w h\<close> is \<open>fillStyle = style\<close> followed by \<open>fillRect(x, y, w, h)\<close>.
  \<open>GradientFill line stop0 stop1 x y w h\<close> fills the rectangle with the linear gradient
  along \<open>line\<close> with the two colour stops at 0 and 1. \<open>ImageDraw blur x y w h\<close> draws the
  background image at that offset and size under the filter \<open>blur\<close> (\<open>None\<close> is the filter
  \<open>none\<close>).
\<close>

datatype BackgroundDraw =
    ColorFill FillStyle real real real real
  | GradientFill "real \<times> real \<times> real \<times> real" FillStyle FillStyle real real real real
  | ImageDraw "real option" real real real real
  | NoBackground

text \<open>The centre and the size handed to the icon drawing.\<close>

record IconLayout =
  iconPosX :: real
  iconPosY :: real
  iconLayoutSize :: real

text \<open>
  The \<open>drawImage\<close> call of the icon: the shadow in force (colour and blur, both offsets
  being zero; \<open>None\<close> when no shadow is set) and the rectangle drawn.
\<close>

record IconDraw =
  iconDraw_shadow :: "(string \<times> real) option"
  iconDraw_x :: real
  iconDraw_y :: real
  iconDraw_width :: real
  iconDraw_height :: real

text \<open>
  The drawing of one text: the font in force, the shadow (colour, blur, offset in x and y),
  the alignment and the anchor handed to \<open>fillText\<close>, whether the shear that stands for
  italics is applied at the anchor, and the \<open>lineWidth\<close> of the \<open>strokeText\<close> call that
  precedes \<open>fillText\<close> (\<open>None\<close> when the text is not stroked).
\<close>

record TextDraw =
  text_content :: string
  text_fillStyle :: string
  text_globalAlpha :: real
  text_fontWeight :: string
  text_fontSize :: real
  text_fontFamily :: string
  text_shadow :: "(string \<times> real \<times> real \<times> real) option"
  text_align :: string
  text_posX :: real
  text_posY :: real
  text_italic :: bool
  text_lineWidth :: "real option"

record Frame =
  frame_clear :: BackgroundDraw
  frame_background :: BackgroundDraw
  frame_icon :: "IconDraw option"
  frame_title :: "TextDraw option"
  frame_watermark :: "TextDraw option"

text \<open>
  \<open>measureText\<close> belongs to the browser: it is a parameter of the passes, giving the
  width of a text under a font (weight, size in pixels, family).
\<close>

type_synonym MeasureText = "string \<times> real \<times> string \<Rightarrow> string \<Rightarrow> real"

subsection \<open>The preview pass \<open>renderFrame\<close>\<close>

definition renderFrame_background :: "Canvas \<Rightarrow> BackgroundConfig \<Rightarrow> BackgroundDraw" where
  "renderFrame_background canvas bg =
     (if bg_type bg = COLOR then
        let opacity = bg_opacity bg / 100;
            color = bg_color bg;
            r = parseInt16 (slice color 1 3);
            g = parseInt16 (slice color 3 5);
            b = parseInt16 (slice color 5 7)
        in ColorFill (CssRgba r g b opacity) 0 0 (canvas_width canvas) (canvas_height canvas)
      else if bg_type bg = GRADIENT then
        let start = startColor (bg_gradient bg);
            end' = endColor (bg_gradient bg);
            opacity = bg_opacity bg / 100;
            gradient =
              (case direction (bg_gradient bg) of
                 TO_RIGHT \<Rightarrow> (0, 0, canvas_width canvas, 0)
               | TO_LEFT \<Rightarrow> (canvas_width canvas, 0, 0, 0)
               | TO_BOTTOM \<Rightarrow> (0, 0, 0, canvas_height canvas)
               | TO_TOP \<Rightarrow> (0, canvas_height canvas, 0, 0)
               | TO_BOTTOM_RIGHT \<Rightarrow> (0, 0, canvas_width canvas, canvas_height canvas)
               | TO_BOTTOM_LEFT \<Rightarrow> (canvas_width canvas, 0, 0, canvas_height canvas)
               | TO_TOP_RIGHT \<Rightarrow> (0, canvas_height canvas, canvas_width canvas, 0)
               | TO_TOP_LEFT \<Rightarrow> (canvas_width canvas, canvas_height canvas, 0, 0)
               | OTHER_DIRECTION \<Rightarrow> (0, 0, canvas_width canvas, canvas_height canvas));
            startR = parseInt16 (slice start 1 3);
            startG = parseInt16 (slice start 3 5);
            startB = parseInt16 (slice start 5 7);
            endR = parseInt16 (slice end' 1 3);
            endG = parseInt16 (slice end' 3 5);
            endB = parseInt16 (slice end' 5 7)
        in GradientFill gradient (CssRgba startR startG startB opacity)
             (CssRgba endR endG endB opacity) 0 0 (canvas_width canvas) (canvas_height canvas)
      else
        (case bg_imageObj bg of
           None \<Rightarrow> NoBackground
         | Some (imgWidth, imgHeight) \<Rightarrow>
             let blur = (if bg_blur bg > 0 then Some (bg_blur bg) else None);
                 imgRatio = imgWidth / imgHeight;
                 canvasRatio = canvas_width canvas / canvas_height canvas
             in if imgRatio > canvasRatio then
                  let drawHeight = canvas_height canvas;
                      drawWidth = drawHeight * imgRatio;
                      offsetX = (canvas_width canvas - drawWidth) / 2
                  in ImageDraw blur offsetX 0 drawWidth drawHeight
                else
                  let drawWidth = canvas_width canvas;
                      drawHeight = drawWidth / imgRatio;
                      offsetY = (canvas_height canvas - drawHeight) / 2
                  in ImageDraw blur 0 offsetY drawWidth drawHeight))"

text \<open>
  \<open>drawIcon\<close>: \<open>img\<close> is the raster of the icon, by width and height, from the cache
  or loaded on the spot; \<open>None\<close> when loading it fails, and then nothing is drawn.
\<close>

definition drawIcon :: "IconConfig \<Rightarrow> (real \<times> real) option \<Rightarrow> real \<Rightarrow> real \<Rightarrow> real \<Rightarrow> IconDraw option" where
  "drawIcon ic img x y size' =
     (if icon_svg ic = [] then None
      else
        (case img of
           None \<Rightarrow> None
         | Some (imgWidth, imgHeight) \<Rightarrow>
             let shadow =
                   (if icon_shadowSize ic > 0
                    then Some (icon_shadowColor ic, icon_shadowSize ic) else None);
                 aspectRatio = imgWidth / imgHeight;
                 drawWidth = (if aspectRatio > 1 then size' else size' * aspectRatio);
                 drawHeight = (if aspectRatio > 1 then size' / aspectRatio else size')
             in Some \<lparr>iconDraw_shadow = shadow,
                      iconDraw_x = x - drawWidth / 2,
                      iconDraw_y = y - drawHeight / 2,
                      iconDraw_width = drawWidth,
                      iconDraw_height = drawHeight\<rparr>))"

definition renderFrame_icon :: "Canvas \<Rightarrow> IconConfig \<Rightarrow> real \<Rightarrow> real \<Rightarrow> real \<Rightarrow> IconLayout option" where
  "renderFrame_icon canvas ic currentIconSize currentIconX currentIconY =
     (if icon_svg ic = [] then None
      else
        let iconSize' = currentIconSize;
            halfIconSize = iconSize' / 2;
            posX =
              (if currentIconX \<le> 0 then halfIconSize
               else if currentIconX \<ge> 100 then canvas_width canvas - halfIconSize
               else
                 let minX = halfIconSize;
                     maxX = canvas_width canvas - halfIconSize
                 in minX + (maxX - minX) * (currentIconX / 100));
            posY =
              (if currentIconY \<le> 0 then halfIconSize
               else if currentIconY \<ge> 100 then canvas_height canvas - halfIconSize
               else
                 let minY = halfIconSize;
                     maxY = canvas_height canvas - halfIconSize
                 in minY + (maxY - minY) * (currentIconY / 100))
        in Some \<lparr>iconPosX = posX, iconPosY = posY, iconLayoutSize = currentIconSize\<rparr>)"

definition renderFrame_title :: "MeasureText \<Rightarrow> Canvas \<Rightarrow> TitleConfig \<Rightarrow> real \<Rightarrow> real \<Rightarrow> TextDraw option" where
  "renderFrame_title measureText canvas tc currentTitleX currentTitleY =
     (if title_text tc = [] then None
      else
        let titleFontFamily = getFontFamilyWithFallback (title_font tc);
            titleFontWeight = (if title_bold (title_effects tc) then ''bold'' else ''normal'');
            shadow =
              (if title_textShadow (title_effects tc) \<noteq> 0 \<and> title_textShadow (title_effects tc) > 0
               then
                 let shadowSize = title_textShadow (title_effects tc);
                     shadowColor = title_color tc
                 in Some (shadowColor, shadowSize * 2, shadowSize, shadowSize)
               else None);
            titleTextWidth = measureText (titleFontWeight, title_size tc, titleFontFamily) (title_text tc);
            titleTextHeight = title_size tc;
            (textAlign, titlePosX) =
              (if currentTitleX \<le> 0 then (''left'', 0)
               else if currentTitleX \<ge> 100 then (''right'', canvas_width canvas)
               else
                 let minX = titleTextWidth / 2;
                     maxX = canvas_width canvas - titleTextWidth / 2
                 in (''center'', minX + (maxX - minX) * (currentTitleX / 100)));
            halfTitleHeight = titleTextHeight / 2;
            titlePosY =
              (if currentTitleY \<le> 0 then halfTitleHeight
               else if currentTitleY \<ge> 100 then canvas_height canvas - halfTitleHeight
               else
                 let minY = halfTitleHeight;
                     maxY = canvas_height canvas - halfTitleHeight
                 in minY + (maxY - minY) * (currentTitleY / 100));
            lineWidth =
              (if title_bold (title_effects tc) \<and> title_font tc = ''Maple Mono CN''
               then Some (title_size tc * 2 * 0.01) else None)
        in Some \<lparr>text_content = title_text tc,
                 text_fillStyle = title_color tc,
                 text_globalAlpha = 1,
                 text_fontWeight = titleFontWeight,
                 text_fontSize = title_size tc,
                 text_fontFamily = titleFontFamily,
                 text_shadow = shadow,
                 text_align = textAlign,
                 text_posX = titlePosX,
                 text_posY = titlePosY,
                 text_italic = title_italic (title_effects tc),
                 text_lineWidth = lineWidth\<rparr>)"

definition renderFrame_watermark :: "MeasureText \<Rightarrow> Canvas \<Rightarrow> WatermarkConfig \<Rightarrow> real \<Rightarrow> real \<Rightarrow> TextDraw option" where
  "renderFrame_watermark measureText canvas wc currentWatermarkX currentWatermarkY =
     (if watermark_text wc = [] then None
      else
        let watermarkOpacity' = watermark_opacity wc / 100;
            displayWatermarkText =
              (if watermark_uppercase (watermark_effects wc)
               then toUpperCase (watermark_text wc) else watermark_text wc);
            watermarkFontFamily = getFontFamilyWithFallback (watermark_font wc);
            watermarkFontWeight = (if watermark_bold (watermark_effects wc) then ''bold'' else ''normal'');
            watermarkTextWidth =
              measureText (watermarkFontWeight, watermark_size wc, watermarkFontFamily) displayWatermarkText;
            watermarkTextHeight = watermark_size wc;
            (textAlign, watermarkPosX) =
              (if currentWatermarkX \<le> 0 then (''left'', 0)
               else if currentWatermarkX \<ge> 100 then (''right'', canvas_width canvas)
               else
                 let minX = watermarkTextWidth / 2;
                     maxX = canvas_width canvas - watermarkTextWidth / 2
                 in (''center'', minX + (maxX - minX) * (currentWatermarkX / 100)));
            halfWatermarkHeight = watermarkTextHeight / 2;
            watermarkPosY =
              (if currentWatermarkY \<le> 0 then halfWatermarkHeight
               else if currentWatermarkY \<ge> 100 then canvas_height canvas - halfWatermarkHeight
               else
                 let minY = halfWatermarkHeight;
                     maxY = canvas_height canvas - halfWatermarkHeight
                 in minY + (maxY - minY) * (currentWatermarkY / 100));
            lineWidth =
              (if watermark_bold (watermark_effects wc) \<and> watermark_font wc = ''Maple Mono CN''
               then Some (watermark_size wc * 0.01) else None)
        in Some \<lparr>text_content = displayWatermarkText,
                 text_fillStyle = watermark_color wc,
                 text_globalAlpha = watermarkOpacity',
                 text_fontWeight = watermarkFontWeight,
                 text_fontSize = watermark_size wc,
                 text_fontFamily = watermarkFontFamily,
                 text_shadow = None,
                 text_align = textAlign,
                 text_posX = watermarkPosX,
                 text_posY = watermarkPosY,
                 text_italic = watermark_italic (watermark_effects wc),
                 text_lineWidth = lineWidth\<rparr>)"

text \<open>
  \<open>renderFrame\<close>: the preview canvas is \<open>None\<close> when the component has no canvas or no
  drawing context yet, and the pass then draws nothing.
\<close>

definition renderFrame ::
  "MeasureText \<Rightarrow> (real \<times> real) option \<Rightarrow> Canvas option \<Rightarrow> Props
     \<Rightarrow> real \<Rightarrow> real \<Rightarrow> real \<Rightarrow> real \<Rightarrow> real \<Rightarrow> real \<Rightarrow> real \<Rightarrow> Frame option" where
  "renderFrame measureText iconImage previewCanvas props currentTitleX currentTitleY
       currentWatermarkX currentWatermarkY currentIconSize currentIconX currentIconY =
     (case previewCanvas of
        None \<Rightarrow> None
      | Some canvas \<Rightarrow>
          Some \<lparr>frame_clear =
                   ColorFill (CssText ''#ffffff'') 0 0 (canvas_width canvas) (canvas_height canvas),
                 frame_background = renderFrame_background canvas (backgroundConfig props),
                 frame_icon =
                   (case renderFrame_icon canvas (iconConfig props)
                           currentIconSize currentIconX currentIconY of
                      None \<Rightarrow> None
                    | Some l \<Rightarrow>
                        drawIcon (iconConfig props) iconImage (iconPosX l) (iconPosY l) currentIconSize),
                 frame_title =
                   renderFrame_title measureText canvas (titleConfig props)
                     currentTitleX currentTitleY,
                 frame_watermark =
                   renderFrame_watermark measureText canvas (watermarkConfig props)
                     currentWatermarkX currentWatermarkY\<rparr>)"

text \<open>
  \<open>renderCurrentFrame\<close> hands the current animated values to \<open>renderFrame\<close>.
\<close>

definition renderCurrentFrame ::
  "MeasureText \<Rightarrow> (real \<times> real) option \<Rightarrow> Canvas option \<Rightarrow> Props \<Rightarrow> AnimationStates \<Rightarrow> Frame option" where
  "renderCurrentFrame measureText iconImage previewCanvas props states =
     renderFrame measureText iconImage previewCanvas props
       (value_f (titleX states)) (value_f (titleY states))
       (value_f (watermarkX states)) (value_f (watermarkY states))
       (value_f (iconSize states)) (value_f (iconX states)) (value_f (iconY states))"

subsection \<open>The export pass \<open>exportImage\<close>\<close>

text \<open>
  The export draws on a canvas of its own, \<open>exportCanvas\<close>, which takes the width and the
  height of the export configuration; \<open>canvas\<close> is the preview canvas, whose width gives
  the scale of the sizes.
\<close>

definition exportImage_background :: "Canvas \<Rightarrow> BackgroundConfig \<Rightarrow> BackgroundDraw" where
  "exportImage_background exportCanvas bg =
     (if bg_type bg = COLOR then
        let opacity = bg_opacity bg / 100;
            color = bg_color bg;
            r = parseInt16 (slice color 1 3);
            g = parseInt16 (slice color 3 5);
            b = parseInt16 (slice color 5 7)
        in ColorFill (CssRgba r g b opacity) 0 0
             (canvas_width exportCanvas) (canvas_height exportCanvas)
      else if bg_type bg = GRADIENT then
        let start = startColor (bg_gradient bg);
            end' = endColor (bg_gradient bg);
            opacity = bg_opacity bg / 100;
            gradient =
              (case direction (bg_gradient bg) of
                 TO_RIGHT \<Rightarrow> (0, 0, canvas_width exportCanvas, 0)
               | TO_LEFT \<Rightarrow> (canvas_width exportCanvas, 0, 0, 0)
               | TO_BOTTOM \<Rightarrow> (0, 0, 0, canvas_height exportCanvas)
               | TO_TOP \<Rightarrow> (0, canvas_height exportCanvas, 0, 0)
               | TO_BOTTOM_RIGHT \<Rightarrow> (0, 0, canvas_width exportCanvas, canvas_height exportCanvas)
               | TO_BOTTOM_LEFT \<Rightarrow> (canvas_width exportCanvas, 0, 0, canvas_height exportCanvas)
               | TO_TOP_RIGHT \<Rightarrow> (0, canvas_height exportCanvas, canvas_width exportCanvas, 0)
               | TO_TOP_LEFT \<Rightarrow> (canvas_width exportCanvas, canvas_height exportCanvas, 0, 0)
               | OTHER_DIRECTION \<Rightarrow> (0, 0, canvas_width exportCanvas, canvas_height exportCanvas));
            startR = parseInt16 (slice start 1 3);
            startG = parseInt16 (slice start 3 5);
            startB = parseInt16 (slice start 5 7);
            endR = parseInt16 (slice end' 1 3);
            endG = parseInt16 (slice end' 3 5);
            endB = parseInt16 (slice end' 5 7)
        in GradientFill gradient (CssRgba startR startG startB opacity)
             (CssRgba endR endG endB opacity) 0 0
             (canvas_width exportCanvas) (canvas_height exportCanvas)
      else
        (case bg_imageObj bg of
           None \<Rightarrow> NoBackground
         | Some (imgWidth, imgHeight) \<Rightarrow>
             let blur = (if bg_blur bg > 0 then Some (bg_blur bg) else None);
                 imgRatio = imgWidth / imgHeight;
                 canvasRatio = canvas_width exportCanvas / canvas_height exportCanvas
             in if imgRatio > canvasRatio then
                  let drawHeight = canvas_height exportCanvas;
                      drawWidth = drawHeight * imgRatio;
                      offsetX = (canvas_width exportCanvas - drawWidth) / 2
                  in ImageDraw blur offsetX 0 drawWidth drawHeight
                else
                  let drawWidth = canvas_width exportCanvas;
                      drawHeight = drawWidth / imgRatio;
                      offsetY = (canvas_height exportCanvas - drawHeight) / 2
                  in ImageDraw blur 0 offsetY drawWidth drawHeight))"

definition exportImage_icon :: "Canvas \<Rightarrow> Canvas \<Rightarrow> IconConfig \<Rightarrow> IconLayout option" where
  "exportImage_icon exportCanvas canvas ic =
     (if icon_svg ic = [] then None
      else
        let iconSize' = icon_size ic * (canvas_width exportCanvas / canvas_width canvas);
            halfIconSize = iconSize' / 2;
            adjustedIconPosX =
              (if pos_x (icon_position ic) \<le> 0 then halfIconSize
               else if pos_x (icon_position ic) \<ge> 100 then canvas_width exportCanvas - halfIconSize
               else
                 let minX = halfIconSize;
                     maxX = canvas_width exportCanvas - halfIconSize
                 in minX + (maxX - minX) * (pos_x (icon_position ic) / 100));
            adjustedIconPosY =
              (if pos_y (icon_position ic) \<le> 0 then halfIconSize
               else if pos_y (icon_position ic) \<ge> 100 then canvas_height exportCanvas - halfIconSize
               else
                 let minY = halfIconSize;
                     maxY = canvas_height exportCanvas - halfIconSize
                 in minY + (maxY - minY) * (pos_y (icon_position ic) / 100))
        in Some \<lparr>iconPosX = adjustedIconPosX, iconPosY = adjustedIconPosY,
                 iconLayoutSize = iconSize'\<rparr>)"

text \<open>
  The \<open>onload\<close> handler of the export's icon image; \<open>img\<close> is \<open>None\<close> when loading fails.
\<close>

definition exportImage_iconDraw ::
  "Canvas \<Rightarrow> Canvas \<Rightarrow> IconConfig \<Rightarrow> (real \<times> real) option \<Rightarrow> IconLayout \<Rightarrow> IconDraw option" where
  "exportImage_iconDraw exportCanvas canvas ic img l =
     (case img of
        None \<Rightarrow> None
      | Some (imgWidth, imgHeight) \<Rightarrow>
          let shadow =
                (if icon_shadowSize ic > 0
                 then Some (icon_shadowColor ic,
                            icon_shadowSize ic * (canvas_width exportCanvas / canvas_width canvas))
                 else None);
              aspectRatio = imgWidth / imgHeight;
              drawWidth =
                (if aspectRatio > 1 then iconLayoutSize l else iconLayoutSize l * aspectRatio);
              drawHeight =
                (if aspectRatio > 1 then iconLayoutSize l / aspectRatio else iconLayoutSize l)
          in Some \<lparr>iconDraw_shadow = shadow,
                   iconDraw_x = iconPosX l - drawWidth / 2,
                   iconDraw_y = iconPosY l - drawHeight / 2,
                   iconDraw_width = drawWidth,
                   iconDraw_height = drawHeight\<rparr>)"

definition exportImage_title :: "MeasureText \<Rightarrow> Canvas \<Rightarrow> Canvas \<Rightarrow> TitleConfig \<Rightarrow> TextDraw option" where
  "exportImage_title measureText exportCanvas canvas tc =
     (if title_text tc = [] then None
      else
        let titleSize' = title_size tc * (canvas_width exportCanvas / canvas_width canvas);
            exportFontFamily = getFontFamilyWithFallback (title_font tc);
            exportTitleFontWeight = (if title_bold (title_effects tc) then ''bold'' else ''normal'');
            textWidth = measureText (exportTitleFontWeight, titleSize', exportFontFamily) (title_text tc);
            textHeight = titleSize';
            (textAlign, adjustedTitlePosX) =
              (if pos_x (title_position tc) \<le> 0 then (''left'', 0)
               else if pos_x (title_position tc) \<ge> 100 then (''right'', canvas_width exportCanvas)
               else
                 let minX = textWidth / 2;
                     maxX = canvas_width exportCanvas - textWidth / 2
                 in (''center'', minX + (maxX - minX) * (pos_x (title_position tc) / 100)));
            halfTextHeight = textHeight / 2;
            adjustedTitlePosY =
              (if pos_y (title_position tc) \<le> 0 then halfTextHeight
               else if pos_y (title_position tc) \<ge> 100 then canvas_height exportCanvas - halfTextHeight
               else
                 let minY = halfTextHeight;
                     maxY = canvas_height exportCanvas - halfTextHeight
                 in minY + (maxY - minY) * (pos_y (title_position tc) / 100));
            shadow =
              (if title_textShadow (title_effects tc) \<noteq> 0 \<and> title_textShadow (title_effects tc) > 0
               then
                 let shadowSize =
                       title_textShadow (title_effects tc)
                         * (canvas_width exportCanvas / canvas_width canvas);
                     shadowColor = title_color tc
                 in Some (shadowColor, shadowSize * 2, shadowSize, shadowSize)
               else None);
            lineWidth =
              (if title_bold (title_effects tc) \<and> title_font tc = ''Maple Mono CN''
               then Some (titleSize' * 0.01) else None)
        in Some \<lparr>text_content = title_text tc,
                 text_fillStyle = title_color tc,
                 text_globalAlpha = 1,
                 text_fontWeight = exportTitleFontWeight,
                 text_fontSize = titleSize',
                 text_fontFamily = exportFontFamily,
                 text_shadow = shadow,
                 text_align = textAlign,
                 text_posX = adjustedTitlePosX,
                 text_posY = adjustedTitlePosY,
                 text_italic = title_italic (title_effects tc),
                 text_lineWidth = lineWidth\<rparr>)"

definition exportImage_watermark :: "MeasureText \<Rightarrow> Canvas \<Rightarrow> Canvas \<Rightarrow> WatermarkConfig \<Rightarrow> TextDraw option" where
  "exportImage_watermark measureText exportCanvas canvas wc =
     (if watermark_text wc = [] then None
      else
        let watermarkSize' = watermark_size wc * (canvas_width exportCanvas / canvas_width canvas);
            watermarkOpacity' = watermark_opacity wc / 100;
            exportDisplayWatermarkText =
              (if watermark_uppercase (watermark_effects wc)
               then toUpperCase (watermark_text wc) else watermark_text wc);
            exportWatermarkFontFamily = getFontFamilyWithFallback (watermark_font wc);
            exportWatermarkFontWeight =
              (if watermark_bold (watermark_effects wc) then ''bold'' else ''normal'');
            watermarkTextWidth =
              measureText (exportWatermarkFontWeight, watermarkSize', exportWatermarkFontFamily)
                exportDisplayWatermarkText;
            watermarkTextHeight = watermarkSize';
            (textAlign, adjustedWatermarkPosX) =
              (if pos_x (watermark_position wc) \<le> 0 then (''left'', 0)
               else if pos_x (watermark_position wc) \<ge> 100 then (''right'', canvas_width exportCanvas)
               else
                 let minX = watermarkTextWidth / 2;
                     maxX = canvas_width exportCanvas - watermarkTextWidth / 2
                 in (''center'', minX + (maxX - minX) * (pos_x (watermark_position wc) / 100)));
            halfWatermarkHeight = watermarkTextHeight / 2;
            adjustedWatermarkPosY =
              (if pos_y (watermark_position wc) \<le> 0 then halfWatermarkHeight
               else if pos_y (watermark_position wc) \<ge> 100
                 then canvas_height exportCanvas - halfWatermarkHeight
               else
                 let minY = halfWatermarkHeight;
                     maxY = canvas_height exportCanvas - halfWatermarkHeight
                 in minY + (maxY - minY) * (pos_y (watermark_position wc) / 100));
            lineWidth =
              (if watermark_bold (watermark_effects wc) \<and> watermark_font wc = ''Maple Mono CN''
               then Some (watermarkSize' * 0.01) else None)
        in Some \<lparr>text_content = exportDisplayWatermarkText,
                 text_fillStyle = watermark_color wc,
                 text_globalAlpha = watermarkOpacity',
                 text_fontWeight = exportWatermarkFontWeight,
                 text_fontSize = watermarkSize',
                 text_fontFamily = exportWatermarkFontFamily,
                 text_shadow = None,
                 text_align = textAlign,
                 text_posX = adjustedWatermarkPosX,
                 text_posY = adjustedWatermarkPosY,
                 text_italic = watermark_italic (watermark_effects wc),
                 text_lineWidth = lineWidth\<rparr>)"

text \<open>
  \<open>getFinalFileName\<close>: a string counts as true when it is present and not empty.
\<close>

definition getFinalFileName :: "ExportConfig \<Rightarrow> string" where
  "getFinalFileName exportConfig =
     (case export_currentRandomFileName exportConfig of
        None \<Rightarrow> export_fileName exportConfig
      | Some currentRandomFileName \<Rightarrow>
          if export_useRandomFileName exportConfig \<and> currentRandomFileName \<noteq> []
          then currentRandomFileName
          else export_fileName exportConfig)"

definition outputFileName :: "ExportConfig \<Rightarrow> string" where
  "outputFileName exportConfig = getFinalFileName exportConfig @ ''.'' @ export_format exportConfig"

text \<open>
  \<open>exportImage\<close>: nothing happens without a preview canvas or without a drawing context
  for the export canvas (\<open>exportCtx\<close>). Otherwise the result is what is drawn and the name
  under which the image is saved or downloaded.
\<close>

definition exportImage ::
  "MeasureText \<Rightarrow> (real \<times> real) option \<Rightarrow> Canvas option \<Rightarrow> bool \<Rightarrow> Props \<Rightarrow> ExportConfig
     \<Rightarrow> (Frame \<times> string) option" where
  "exportImage measureText iconImage previewCanvas exportCtx props exportConfig =
     (case previewCanvas of
        None \<Rightarrow> None
      | Some canvas \<Rightarrow>
          let exportCanvas =
                \<lparr>canvas_width = export_width exportConfig,
                 canvas_height = export_height exportConfig\<rparr>
          in if \<not> exportCtx then None
             else
               Some (\<lparr>frame_clear =
                        ColorFill (CssText ''#ffffff'') 0 0
                          (canvas_width exportCanvas) (canvas_height exportCanvas),
                      frame_background =
                        exportImage_background exportCanvas (backgroundConfig props),
                      frame_icon =
                        (case exportImage_icon exportCanvas canvas (iconConfig props) of
                           None \<Rightarrow> None
                         | Some l \<Rightarrow>
                             exportImage_iconDraw exportCanvas canvas (iconConfig props) iconImage l),
                      frame_title =
                        exportImage_title measureText exportCanvas canvas (titleConfig props),
                      frame_watermark =
                        exportImage_watermark measureText exportCanvas canvas (watermarkConfig props)\<rparr>,
                     outputFileName exportConfig))"

section \<open>Definitions used to state the properties\<close>

text \<open>
  The layout resolver as the specification words it: a percent position, the extent of
  the content and the extent of the container give the pixel coordinate of the centre of
  the content.
\<close>

definition spec_layoutResolver :: "real \<Rightarrow> real \<Rightarrow> real \<Rightarrow> real" where
  "spec_layoutResolver percent contentExtent containerExtent =
     (if percent \<le> 0 then contentExtent / 2
      else if percent \<ge> 100 then containerExtent - contentExtent / 2
      else contentExtent / 2
             + ((containerExtent - contentExtent / 2) - contentExtent / 2) * (percent / 100))"

text \<open>A run of ticks of one state under the given time steps.\<close>

fun springTicks :: "AnimationState \<Rightarrow> real list \<Rightarrow> AnimationState" where
  "springTicks state [] = state"
| "springTicks state (dt # dts) = springTicks (fst (updateSpringAnimation state dt)) dts"

text \<open>
  The animation loop over the frames at the given time stamps: it goes on to the next
  frame while a frame reports \<open>anyActive\<close>. The flag of the result tells whether the loop
  is still running when the time stamps are used up.
\<close>

fun animationFrames :: "real list \<Rightarrow> real \<Rightarrow> AnimationStates \<Rightarrow> AnimationStates \<times> bool" where
  "animationFrames [] lastTime states = (states, True)"
| "animationFrames (currentTime # laterTimes) lastTime states =
     (case animationLoop currentTime lastTime states of
        (lastTime', states', anyActive) \<Rightarrow>
          if anyActive then animationFrames laterTimes lastTime' states' else (states', False))"

text \<open>
  A sample of the browser's text measure for concrete evaluations: every character is
  0.6 times the font size wide, as in a monospaced font.
\<close>

definition monospaceMeasure :: MeasureText where
  "monospaceMeasure font txt = (case font of (weight, px, family) \<Rightarrow> 0.6 * px * real (length txt))"

text \<open>
  A sample configuration for concrete evaluations: the preview canvas of the template
  (1920 by 1080), a bold title in Maple Mono CN, an upper-cased watermark, an icon with a
  shadow, the red background at half opacity, and an export at twice the preview width.
\<close>

definition sampleCanvas :: Canvas where
  "sampleCanvas = \<lparr>canvas_width = 1920, canvas_height = 1080\<rparr>"

definition sampleBackground :: BackgroundConfig where
  "sampleBackground =
     \<lparr>bg_type = COLOR, bg_color = ''#FF0000'',
      bg_gradient = \<lparr>startColor = ''#000000'', endColor = ''#ffffff'', direction = TO_RIGHT\<rparr>,
      bg_imageObj = None, bg_opacity = 50, bg_blur = 0\<rparr>"

definition sampleIcon :: IconConfig where
  "sampleIcon =
     \<lparr>icon_svg = ''<svg/>'', icon_size = 200, icon_position = \<lparr>pos_x = 25, pos_y = 100\<rparr>,
      icon_shadowColor = ''#000000'', icon_shadowSize = 10\<rparr>"

definition sampleTitle :: TitleConfig where
  "sampleTitle =
     \<lparr>title_text = ''Hello'', title_color = ''#333333'', title_font = ''Maple Mono CN'',
      title_size = 100, title_position = \<lparr>pos_x = 0, pos_y = 50\<rparr>,
      title_effects = \<lparr>title_bold = True, title_italic = False, title_textShadow = 4\<rparr>\<rparr>"

definition sampleWatermark :: WatermarkConfig where
  "sampleWatermark =
     \<lparr>watermark_text = ''draft'', watermark_color = ''#666666'', watermark_font = ''Maple Mono CN'',
      watermark_size = 50, watermark_position = \<lparr>pos_x = 50, pos_y = 100\<rparr>,
      watermark_opacity = 80,
      watermark_effects =
        \<lparr>watermark_bold = True, watermark_italic = False, watermark_uppercase = True\<rparr>\<rparr>"

definition sampleProps :: Props where
  "sampleProps =
     \<lparr>backgroundConfig = sampleBackground, iconConfig = sampleIcon,
      titleConfig = sampleTitle, watermarkConfig = sampleWatermark\<rparr>"

definition sampleExport :: ExportConfig where
  "sampleExport =
     \<lparr>export_width = 3840, export_height = 2160, export_format = ''png'', export_quality = 1,
      export_fileName = ''cover'', export_useRandomFileName = True,
      export_currentRandomFileName = Some ''cover-8f3a''\<rparr>"

definition sampleExportCanvas :: Canvas where
  "sampleExportCanvas = \<lparr>canvas_width = 3840, canvas_height = 2160\<rparr>"

section \<open>Binary64 arithmetic\<close>

text \<open>
  The numbers of the program are IEEE 754 binary64 values, and every arithmetic operation
  returns the binary64 value nearest to the exact result, a tie going to the even
  significand. \<open>round64 x\<close> is that value for a real \<open>x\<close>: with \<open>e\<close> the exponent of the binade
  of \<open>x\<close>, the largest \<open>e\<close> with \<open>2 powi e \<le> \<bar>x\<bar>\<close> but no less than -1022, the representable
  values around \<open>x\<close> are the integer multiples of \<open>2 powi (e - 52)\<close>; below \<open>2 powi (-1022)\<close>
  these are the subnormal numbers, spaced \<open>2 powi (-1074)\<close> apart. Overflow is not modelled:
  above the largest finite binary64 value \<open>round64\<close> goes on rounding to 53 bits where the
  engine gives \<open>Infinity\<close>. No statement below lets a magnitude come near that bound.
\<close>

definition roundTiesToEven :: "real \<Rightarrow> int" where
  "roundTiesToEven y =
     (let f = \<lfloor>y\<rfloor>; r = y - of_int f
      in if r < 1/2 then f else if r > 1/2 then f + 1 else if even f then f else f + 1)"

definition binadeExponent :: "real \<Rightarrow> int" where
  "binadeExponent x = max (bitlen \<lfloor>\<bar>x\<bar> * 2 ^ 1022\<rfloor> - 1) 0 - 1022"

definition round64 :: "real \<Rightarrow> real" where
  "round64 x =
     of_int (roundTiesToEven (x / 2 powi (binadeExponent x - 52))) * 2 powi (binadeExponent x - 52)"

text \<open>
  \<open>updateSpringAnimation\<close> with the rounding of every operation written out. The constants
  200, 20 and 1 are binary64 values; the literal \<open>0.01\<close> is not and denotes \<open>round64 0.01\<close>.
  Negation, \<open>Math.abs\<close> and the comparisons are exact.
\<close>

definition updateSpringAnimation64 :: "AnimationState \<Rightarrow> real \<Rightarrow> AnimationState \<times> bool" where
  "updateSpringAnimation64 state dt =
     (let displacement = round64 (target state - value_f state) in
      if \<bar>displacement\<bar> < round64 SPRING_PRECISION \<and> \<bar>velocity state\<bar> < round64 SPRING_PRECISION
      then (state\<lparr>value_f := target state, velocity := 0\<rparr>, False)
      else
        let springForce = round64 (SPRING_STIFFNESS * displacement);
            dampingForce = round64 (- SPRING_DAMPING * velocity state);
            force = round64 (springForce + dampingForce);
            acceleration = round64 (force / SPRING_MASS);
            state1 = state\<lparr>velocity := round64 (velocity state + round64 (acceleration * dt))\<rparr>;
            state2 = state1\<lparr>value_f := round64 (value_f state1 + round64 (velocity state1 * dt))\<rparr>
        in (state2, True))"

text \<open>
  The run of one value towards its target in binary64: \<open>animate\<close> over
  \<open>updateSpringAnimation64\<close>, with the same fuel.
\<close>

fun animate64 :: "nat \<Rightarrow> real \<Rightarrow> AnimationState \<Rightarrow> AnimationState option" where
  "animate64 0 dt state = None"
| "animate64 (Suc n) dt state =
     (case updateSpringAnimation64 state dt of
        (state', active) \<Rightarrow> if active then animate64 n dt state' else Some state')"

text \<open>
  \<open>springEnergy\<close> as a function of the distance \<open>e\<close> from the target and of the velocity
  \<open>v\<close>.
\<close>

definition springForm :: "real \<Rightarrow> real \<Rightarrow> real \<Rightarrow> real" where
  "springForm dt e v = 200 * e\<^sup>2 + (20 - 200 * dt) * e * v + (1 - 20 * dt) * v\<^sup>2"

text \<open>
  The icon, title and watermark sections of both passes with the rounding of every
  operation written out; the branches and the order of the operations are those of
  \<open>renderFrame_icon\<close>, \<open>renderFrame_title\<close>, \<open>renderFrame_watermark\<close>, \<open>exportImage_icon\<close>,
  \<open>exportImage_title\<close> and \<open>exportImage_watermark\<close>. What the browser returns (the canvas
  extents, the measured width) and what the configuration holds is a binary64 value
  already and is not rounded again.
\<close>

definition renderFrame_icon64 :: "Canvas \<Rightarrow> IconConfig \<Rightarrow> real \<Rightarrow> real \<Rightarrow> real \<Rightarrow> IconLayout option" where
  "renderFrame_icon64 canvas ic currentIconSize currentIconX currentIconY =
     (if icon_svg ic = [] then None
      else
        let iconSize' = currentIconSize;
            halfIconSize = round64 (iconSize' / 2);
            posX =
              (if currentIconX \<le> 0 then halfIconSize
               else if currentIconX \<ge> 100 then round64 (canvas_width canvas - halfIconSize)
               else
                 let minX = halfIconSize;
                     maxX = round64 (canvas_width canvas - halfIconSize)
                 in round64 (minX + round64 (round64 (maxX - minX) * round64 (currentIconX / 100))));
            posY =
              (if currentIconY \<le> 0 then halfIconSize
               else if currentIconY \<ge> 100 then round64 (canvas_height canvas - halfIconSize)
               else
                 let minY = halfIconSize;
                     maxY = round64 (canvas_height canvas - halfIconSize)
                 in round64 (minY + round64 (round64 (maxY - minY) * round64 (currentIconY / 100))))
        in Some \<lparr>iconPosX = posX, iconPosY = posY, iconLayoutSize = currentIconSize\<rparr>)"

definition renderFrame_title64 :: "MeasureText \<Rightarrow> Canvas \<Rightarrow> TitleConfig \<Rightarrow> real \<Rightarrow> real \<Rightarrow> TextDraw option" where
  "renderFrame_title64 measureText canvas tc currentTitleX currentTitleY =
     (if title_text tc = [] then None
      else
        let titleFontFamily = getFontFamilyWithFallback (title_font tc);
            titleFontWeight = (if title_bold (title_effects tc) then ''bold'' else ''normal'');
            shadow =
              (if title_textShadow (title_effects tc) \<noteq> 0 \<and> title_textShadow (title_effects tc) > 0
               then
                 let shadowSize = title_textShadow (title_effects tc);
                     shadowColor = title_color tc
                 in Some (shadowColor, round64 (shadowSize * 2), shadowSize, shadowSize)
               else None);
            titleTextWidth = measureText (titleFontWeight, title_size tc, titleFontFamily) (title_text tc);
            titleTextHeight = title_size tc;
            (textAlign, titlePosX) =
              (if currentTitleX \<le> 0 then (''left'', 0)
               else if currentTitleX \<ge> 100 then (''right'', canvas_width canvas)
               else
                 let minX = round64 (titleTextWidth / 2);
                     maxX = round64 (canvas_width canvas - round64 (titleTextWidth / 2))
                 in (''center'',
                     round64 (minX + round64 (round64 (maxX - minX) * round64 (currentTitleX / 100)))));
            halfTitleHeight = round64 (titleTextHeight / 2);
            titlePosY =
              (if currentTitleY \<le> 0 then halfTitleHeight
               else if currentTitleY \<ge> 100 then round64 (canvas_height canvas - halfTitleHeight)
               else
                 let minY = halfTitleHeight;
                     maxY = round64 (canvas_height canvas - halfTitleHeight)
                 in round64 (minY + round64 (round64 (maxY - minY) * round64 (currentTitleY / 100))));
            lineWidth =
              (if title_bold (title_effects tc) \<and> title_font tc = ''Maple Mono CN''
               then Some (round64 (round64 (title_size tc * 2) * round64 0.01)) else None)
        in Some \<lparr>text_content = title_text tc,
                 text_fillStyle = title_color tc,
                 text_globalAlpha = 1,
                 text_fontWeight = titleFontWeight,
                 text_fontSize = title_size tc,
                 text_fontFamily = titleFontFamily,
                 text_shadow = shadow,
                 text_align = textAlign,
                 text_posX = titlePosX,
                 text_posY = titlePosY,
                 text_italic = title_italic (title_effects tc),
                 text_lineWidth = lineWidth\<rparr>)"

definition renderFrame_watermark64 :: "MeasureText \<Rightarrow> Canvas \<Rightarrow> WatermarkConfig \<Rightarrow> real \<Rightarrow> real \<Rightarrow> TextDraw option" where
  "renderFrame_watermark64 measureText canvas wc currentWatermarkX currentWatermarkY =
     (if watermark_text wc = [] then None
      else
        let watermarkOpacity' = round64 (watermark_opacity wc / 100);
            displayWatermarkText =
              (if watermark_uppercase (watermark_effects wc)
               then toUpperCase (watermark_text wc) else watermark_text wc);
            watermarkFontFamily = getFontFamilyWithFallback (watermark_font wc);
            watermarkFontWeight = (if watermark_bold (watermark_effects wc) then ''bold'' else ''normal'');
            watermarkTextWidth =
              measureText (watermarkFontWeight, watermark_size wc, watermarkFontFamily) displayWatermarkText;
            watermarkTextHeight = watermark_size wc;
            (textAlign, watermarkPosX) =
              (if currentWatermarkX \<le> 0 then (''left'', 0)
               else if currentWatermarkX \<ge> 100 then (''right'', canvas_width canvas)
               else
                 let minX = round64 (watermarkTextWidth / 2);
                     maxX = round64 (canvas_width canvas - round64 (watermarkTextWidth / 2))
                 in (''center'',
                     round64 (minX + round64 (round64 (maxX - minX) * round64 (currentWatermarkX / 100)))));
            halfWatermarkHeight = round64 (watermarkTextHeight / 2);
            watermarkPosY =
              (if currentWatermarkY \<le> 0 then halfWatermarkHeight
               else if currentWatermarkY \<ge> 100 then round64 (canvas_height canvas - halfWatermarkHeight)
               else
                 let minY = halfWatermarkHeight;
                     maxY = round64 (canvas_height canvas - halfWatermarkHeight)
                 in round64 (minY + round64 (round64 (maxY - minY) * round64 (currentWatermarkY / 100))));
            lineWidth =
              (if watermark_bold (watermark_effects wc) \<and> watermark_font wc = ''Maple Mono CN''
               then Some (round64 (watermark_size wc * round64 0.01)) else None)
        in Some \<lparr>text_content = displayWatermarkText,
                 text_fillStyle = watermark_color wc,
                 text_globalAlpha = watermarkOpacity',
                 text_fontWeight = watermarkFontWeight,
                 text_fontSize = watermark_size wc,
                 text_fontFamily = watermarkFontFamily,
                 text_shadow = None,
                 text_align = textAlign,
                 text_posX = watermarkPosX,
                 text_posY = watermarkPosY,
                 text_italic = watermark_italic (watermark_effects wc),
                 text_lineWidth = lineWidth\<rparr>)"

definition exportImage_icon64 :: "Canvas \<Rightarrow> Canvas \<Rightarrow> IconConfig \<Rightarrow> IconLayout option" where
  "exportImage_icon64 exportCanvas canvas ic =
     (if icon_svg ic = [] then None
      else
        let iconSize' =
              round64 (icon_size ic * round64 (canvas_width exportCanvas / canvas_width canvas));
            halfIconSize = round64 (iconSize' / 2);
            adjustedIconPosX =
              (if pos_x (icon_position ic) \<le> 0 then halfIconSize
               else if pos_x (icon_position ic) \<ge> 100
                 then round64 (canvas_width exportCanvas - halfIconSize)
               else
                 let minX = halfIconSize;
                     maxX = round64 (canvas_width exportCanvas - halfIconSize)
                 in round64 (minX
                      + round64 (round64 (maxX - minX) * round64 (pos_x (icon_position ic) / 100))));
            adjustedIconPosY =
              (if pos_y (icon_position ic) \<le> 0 then halfIconSize
               else if pos_y (icon_position ic) \<ge> 100
                 then round64 (canvas_height exportCanvas - halfIconSize)
               else
                 let minY = halfIconSize;
                     maxY = round64 (canvas_height exportCanvas - halfIconSize)
                 in round64 (minY
                      + round64 (round64 (maxY - minY) * round64 (pos_y (icon_position ic) / 100))))
        in Some \<lparr>iconPosX = adjustedIconPosX, iconPosY = adjustedIconPosY,
                 iconLayoutSize = iconSize'\<rparr>)"

definition exportImage_title64 :: "MeasureText \<Rightarrow> Canvas \<Rightarrow> Canvas \<Rightarrow> TitleConfig \<Rightarrow> TextDraw option" where
  "exportImage_title64 measureText exportCanvas canvas tc =
     (if title_text tc = [] then None
      else
        let titleSize' =
              round64 (title_size tc * round64 (canvas_width exportCanvas / canvas_width canvas));
            exportFontFamily = getFontFamilyWithFallback (title_font tc);
            exportTitleFontWeight = (if title_bold (title_effects tc) then ''bold'' else ''normal'');
            textWidth = measureText (exportTitleFontWeight, titleSize', exportFontFamily) (title_text tc);
            textHeight = titleSize';
            (textAlign, adjustedTitlePosX) =
              (if pos_x (title_position tc) \<le> 0 then (''left'', 0)
               else if pos_x (title_position tc) \<ge> 100 then (''right'', canvas_width exportCanvas)
               else
                 let minX = round64 (textWidth / 2);
                     maxX = round64 (canvas_width exportCanvas - round64 (textWidth / 2))
                 in (''center'',
                     round64 (minX
                       + round64 (round64 (maxX - minX) * round64 (pos_x (title_position tc) / 100)))));
            halfTextHeight = round64 (textHeight / 2);
            adjustedTitlePosY =
              (if pos_y (title_position tc) \<le> 0 then halfTextHeight
               else if pos_y (title_position tc) \<ge> 100
                 then round64 (canvas_height exportCanvas - halfTextHeight)
               else
                 let minY = halfTextHeight;
                     maxY = round64 (canvas_height exportCanvas - halfTextHeight)
                 in round64 (minY
                      + round64 (round64 (maxY - minY) * round64 (pos_y (title_position tc) / 100))));
            shadow =
              (if title_textShadow (title_effects tc) \<noteq> 0 \<and> title_textShadow (title_effects tc) > 0
               then
                 let shadowSize =
                       round64 (title_textShadow (title_effects tc)
                         * round64 (canvas_width exportCanvas / canvas_width canvas));
                     shadowColor = title_color tc
                 in Some (shadowColor, round64 (shadowSize * 2), shadowSize, shadowSize)
               else None);
            lineWidth =
              (if title_bold (title_effects tc) \<and> title_font tc = ''Maple Mono CN''
               then Some (round64 (titleSize' * round64 0.01)) else None)
        in Some \<lparr>text_content = title_text tc,
                 text_fillStyle = title_color tc,
                 text_globalAlpha = 1,
                 text_fontWeight = exportTitleFontWeight,
                 text_fontSize = titleSize',
                 text_fontFamily = exportFontFamily,
                 text_shadow = shadow,
                 text_align = textAlign,
                 text_posX = adjustedTitlePosX,
                 text_posY = adjustedTitlePosY,
                 text_italic = title_italic (title_effects tc),
                 text_lineWidth = lineWidth\<rparr>)"

definition exportImage_watermark64 :: "MeasureText \<Rightarrow> Canvas \<Rightarrow> Canvas \<Rightarrow> WatermarkConfig \<Rightarrow> TextDraw option" where
  "exportImage_watermark64 measureText exportCanvas canvas wc =
     (if watermark_text wc = [] then None
      else
        let watermarkSize' =
              round64 (watermark_size wc * round64 (canvas_width exportCanvas / canvas_width canvas));
            watermarkOpacity' = round64 (watermark_opacity wc / 100);
            exportDisplayWatermarkText =
              (if watermark_uppercase (watermark_effects wc)
               then toUpperCase (watermark_text wc) else watermark_text wc);
            exportWatermarkFontFamily = getFontFamilyWithFallback (watermark_font wc);
            exportWatermarkFontWeight =
              (if watermark_bold (watermark_effects wc) then ''bold'' else ''normal'');
            watermarkTextWidth =
              measureText (exportWatermarkFontWeight, watermarkSize', exportWatermarkFontFamily)
                exportDisplayWatermarkText;
            watermarkTextHeight = watermarkSize';
            (textAlign, adjustedWatermarkPosX) =
              (if pos_x (watermark_position wc) \<le> 0 then (''left'', 0)
               else if pos_x (watermark_position wc) \<ge> 100 then (''right'', canvas_width exportCanvas)
               else
                 let minX = round64 (watermarkTextWidth / 2);
                     maxX = round64 (canvas_width exportCanvas - round64 (watermarkTextWidth / 2))
                 in (''center'',
                     round64 (minX
                       + round64 (round64 (maxX - minX)
                           * round64 (pos_x (watermark_position wc) / 100)))));
            halfWatermarkHeight = round64 (watermarkTextHeight / 2);
            adjustedWatermarkPosY =
              (if pos_y (watermark_position wc) \<le> 0 then halfWatermarkHeight
               else if pos_y (watermark_position wc) \<ge> 100
                 then round64 (canvas_height exportCanvas - halfWatermarkHeight)
               else
                 let minY = halfWatermarkHeight;
                     maxY = round64 (canvas_height exportCanvas - halfWatermarkHeight)
                 in round64 (minY
                      + round64 (round64 (maxY - minY)
                          * round64 (pos_y (watermark_position wc) / 100))));
            lineWidth =
              (if watermark_bold (watermark_effects wc) \<and> watermark_font wc = ''Maple Mono CN''
               then Some (round64 (watermarkSize' * round64 0.01)) else None)
        in Some \<lparr>text_content = exportDisplayWatermarkText,
                 text_fillStyle = watermark_color wc,
                 text_globalAlpha = watermarkOpacity',
                 text_fontWeight = exportWatermarkFontWeight,
                 text_fontSize = watermarkSize',
                 text_fontFamily = exportWatermarkFontFamily,
                 text_shadow = None,
                 text_align = textAlign,
                 text_posX = adjustedWatermarkPosX,
                 text_posY = adjustedWatermarkPosY,
                 text_italic = watermark_italic (watermark_effects wc),
                 text_lineWidth = lineWidth\<rparr>)"

text \<open>
  Where a text drawn by \<open>fillText\<close> has its horizontal centre, given its measured width:
  under \<open>textAlign = 'left'\<close> the text starts at the coordinate handed to \<open>fillText\<close>, under
  \<open>'right'\<close> it ends there, and under \<open>'center'\<close> it is centred there. \<open>textWidthOf\<close> is the
  width the browser measures for a drawn text under the font it is drawn with, which is
  the font both passes set before they measure.
\<close>

definition textCentreX :: "TextDraw \<Rightarrow> real \<Rightarrow> real" where
  "textCentreX td width =
     (if text_align td = ''left'' then text_posX td + width / 2
      else if text_align td = ''right'' then text_posX td - width / 2
      else text_posX td)"

definition textWidthOf :: "MeasureText \<Rightarrow> TextDraw \<Rightarrow> real" where
  "textWidthOf measureText td =
     measureText (text_fontWeight td, text_fontSize td, text_fontFamily td) (text_content td)"

text \<open>
  The interpolation branch that all six sections share, for a content of extent \<open>extent\<close>
  in a container of extent \<open>container\<close>:
  \<open>minX + (maxX - minX) * (percent / 100)\<close> with \<open>minX = extent / 2\<close> and
  \<open>maxX = container - extent / 2\<close>.
\<close>

definition interpolate64 :: "real \<Rightarrow> real \<Rightarrow> real \<Rightarrow> real" where
  "interpolate64 extent container percent =
     (let minX = round64 (extent / 2);
          maxX = round64 (container - round64 (extent / 2))
      in round64 (minX + round64 (round64 (maxX - minX) * round64 (percent / 100))))"

section \<open>The spring animator: properties\<close>

lemmas spring_consts = SPRING_STIFFNESS_def SPRING_DAMPING_def SPRING_MASS_def SPRING_PRECISION_def

lemmas sample_defs = sampleCanvas_def sampleBackground_def sampleIcon_def sampleTitle_def
  sampleWatermark_def sampleProps_def sampleExport_def sampleExportCanvas_def

lemma settled_tick:
  assumes "\<bar>target s - value_f s\<bar> < 0.01" and "\<bar>velocity s\<bar> < 0.01"
  shows "updateSpringAnimation s dt = (s\<lparr>value_f := target s, velocity := 0\<rparr>, False)"
  using assms by (simp add: updateSpringAnimation_def spring_consts)

lemma rest_tick:
  assumes "value_f s = target s" and "velocity s = 0"
  shows "updateSpringAnimation s dt = (s, False)"
  using assms by (simp add: updateSpringAnimation_def spring_consts)

lemma rest_ticks:
  assumes "value_f s = target s" and "velocity s = 0"
  shows "springTicks s dts = s"
  using assms by (induction dts) (simp_all add: rest_tick)

lemma active_tick:
  assumes "\<bar>target s - value_f s\<bar> \<ge> 0.01 \<or> \<bar>velocity s\<bar> \<ge> 0.01"
  shows "updateSpringAnimation s dt =
     (s\<lparr>velocity := velocity s + (200 * (target s - value_f s) - 20 * velocity s) * dt,
        value_f := value_f s + (velocity s + (200 * (target s - value_f s) - 20 * velocity s) * dt) * dt\<rparr>,
      True)"
  using assms by (auto simp add: updateSpringAnimation_def spring_consts Let_def)

text \<open>
  Claim C9. A spring tick changes only the value and the velocity of the state: for every
  state and every time step the target after the tick is the target before it, whether
  the tick reports settled or still active.
\<close>

theorem updateSpringAnimation_target_unchanged:
  "target (fst (updateSpringAnimation state dt)) = target state"
  by (simp add: updateSpringAnimation_def Let_def)

text \<open>
  Claim C5. The spring animator is idempotent at rest. From a state whose distance to the
  target and whose velocity are both below 0.01 in absolute value, one tick sets the value
  to the target and the velocity to zero and reports settled. Every run of further ticks
  from that state, under any time steps, leaves it as it is, and the tick after such a run
  reports settled again.
\<close>

theorem spring_idempotent_at_rest:
  assumes "\<bar>target s - value_f s\<bar> < 0.01" and "\<bar>velocity s\<bar> < 0.01"
  shows "updateSpringAnimation s dt = (s\<lparr>value_f := target s, velocity := 0\<rparr>, False)
    \<and> (\<forall>dts. springTicks (s\<lparr>value_f := target s, velocity := 0\<rparr>) dts
            = s\<lparr>value_f := target s, velocity := 0\<rparr>)
    \<and> (\<forall>dts dt'.
          updateSpringAnimation (springTicks (s\<lparr>value_f := target s, velocity := 0\<rparr>) dts) dt'
            = (s\<lparr>value_f := target s, velocity := 0\<rparr>, False))"
proof -
  let ?r = "s\<lparr>value_f := target s, velocity := 0\<rparr>"
  have first: "updateSpringAnimation s dt = (?r, False)"
    using assms by (rule settled_tick)
  have rest: "springTicks ?r dts = ?r" for dts
    by (rule rest_ticks) simp_all
  have again: "updateSpringAnimation ?r dt' = (?r, False)" for dt'
    by (rule rest_tick) simp_all
  show ?thesis
    using first rest again by simp
qed

theorem spring_idempotent_at_rest_witness:
  "\<bar>target \<lparr>value_f = 9.995, target = 10, velocity = 0.005\<rparr>
      - value_f \<lparr>value_f = 9.995, target = 10, velocity = 0.005\<rparr>\<bar> < (0.01::real)
   \<and> \<bar>velocity \<lparr>value_f = 9.995, target = 10, velocity = 0.005\<rparr>\<bar> < (0.01::real)
   \<and> updateSpringAnimation \<lparr>value_f = 9.995, target = 10, velocity = 0.005\<rparr> (1/60)
       = (\<lparr>value_f = 10, target = 10, velocity = 0\<rparr>, False)
   \<and> springTicks \<lparr>value_f = 10, target = 10, velocity = 0\<rparr> [1/60, 1/10, 1/30]
       = \<lparr>value_f = 10, target = 10, velocity = 0\<rparr>
   \<and> updateSpringAnimation
         (springTicks \<lparr>value_f = 10, target = 10, velocity = 0\<rparr> [1/60, 1/10, 1/30]) (1/60)
       = (\<lparr>value_f = 10, target = 10, velocity = 0\<rparr>, False)"
  using spring_idempotent_at_rest[of "\<lparr>value_f = 9.995, target = 10, velocity = 0.005\<rparr>" "1/60"]
  by (auto simp del: springTicks.simps)

text \<open>
  Claim C6. A tick of a state that is not settled (distance to the target or velocity at
  least 0.01 in absolute value) adds \<open>((200 * (target - value) - 20 * velocity) / 1) * dt\<close>
  to the velocity, then adds the new velocity times \<open>dt\<close> to the value, and reports
  activity. A frame of the animation loop ticks every state of the table with the time
  elapsed since the last frame, in seconds, capped at 0.1, and takes the current time as
  the new last time.
\<close>

theorem spring_active_tick:
  assumes "\<bar>target s - value_f s\<bar> \<ge> 0.01 \<or> \<bar>velocity s\<bar> \<ge> 0.01"
  shows "updateSpringAnimation s dt =
      (s\<lparr>velocity := velocity s + ((200 * (target s - value_f s) - 20 * velocity s) / 1) * dt,
         value_f := value_f s
            + (velocity s + ((200 * (target s - value_f s) - 20 * velocity s) / 1) * dt) * dt\<rparr>,
       True)
    \<and> (let deltaTime = min ((currentTime - lastTime) / 1000) 0.1;
            states' = fst (snd (animationLoop currentTime lastTime states))
        in titleSize states' = fst (updateSpringAnimation (titleSize states) deltaTime)
         \<and> titleX states' = fst (updateSpringAnimation (titleX states) deltaTime)
         \<and> titleY states' = fst (updateSpringAnimation (titleY states) deltaTime)
         \<and> watermarkSize states' = fst (updateSpringAnimation (watermarkSize states) deltaTime)
         \<and> watermarkX states' = fst (updateSpringAnimation (watermarkX states) deltaTime)
         \<and> watermarkY states' = fst (updateSpringAnimation (watermarkY states) deltaTime)
         \<and> iconSize states' = fst (updateSpringAnimation (iconSize states) deltaTime)
         \<and> iconX states' = fst (updateSpringAnimation (iconX states) deltaTime)
         \<and> iconY states' = fst (updateSpringAnimation (iconY states) deltaTime)
         \<and> watermarkOpacity states' = fst (updateSpringAnimation (watermarkOpacity states) deltaTime)
         \<and> backgroundBlur states' = fst (updateSpringAnimation (backgroundBlur states) deltaTime)
         \<and> fst (animationLoop currentTime lastTime states) = currentTime)"
proof -
  have tick: "updateSpringAnimation s dt =
      (s\<lparr>velocity := velocity s + ((200 * (target s - value_f s) - 20 * velocity s) / 1) * dt,
         value_f := value_f s
            + (velocity s + ((200 * (target s - value_f s) - 20 * velocity s) / 1) * dt) * dt\<rparr>,
       True)"
    using active_tick[OF assms, of dt] by simp
  show ?thesis
    by (rule conjI[OF tick]) (simp add: animationLoop_def Let_def)
qed

theorem spring_active_tick_witness:
  "(\<bar>target \<lparr>value_f = 0, target = 100, velocity = 0\<rparr>
       - value_f \<lparr>value_f = 0, target = 100, velocity = 0\<rparr>\<bar> \<ge> (0.01::real)
     \<or> \<bar>velocity \<lparr>value_f = 0, target = 100, velocity = 0\<rparr>\<bar> \<ge> (0.01::real))
   \<and> updateSpringAnimation \<lparr>value_f = 0, target = 100, velocity = 0\<rparr> (1/10)
       = (\<lparr>value_f = 200, target = 100, velocity = 2000\<rparr>, True)
   \<and> titleSize (fst (snd (animationLoop 1250 1000 (animationStates\<lparr>titleSize := \<lparr>value_f = 0, target = 100, velocity = 0\<rparr>\<rparr>))))
       = \<lparr>value_f = 200, target = 100, velocity = 2000\<rparr>
   \<and> titleSize (fst (snd (animationLoop 1016 1000 (animationStates\<lparr>titleSize := \<lparr>value_f = 0, target = 100, velocity = 0\<rparr>\<rparr>))))
       = \<lparr>value_f = 5.12, target = 100, velocity = 320\<rparr>"
  using spring_active_tick[of "\<lparr>value_f = 0, target = 100, velocity = 0\<rparr>" "1/10" 1250 1000
      "animationStates\<lparr>titleSize := \<lparr>value_f = 0, target = 100, velocity = 0\<rparr>\<rparr>"]
    spring_active_tick[of "\<lparr>value_f = 0, target = 100, velocity = 0\<rparr>" "2/125" 1016 1000
      "animationStates\<lparr>titleSize := \<lparr>value_f = 0, target = 100, velocity = 0\<rparr>\<rparr>"]
  by (simp add: Let_def)

subsection \<open>Convergence under a fixed time step\<close>

text \<open>
  For a time step \<open>dt\<close> the quadratic form \<open>springEnergy dt\<close> shrinks by the factor
  \<open>1 - 20 * dt\<close> at every active tick, and for \<open>0 < dt \<le> 1/25\<close> it bounds the squares of
  the distance and of the velocity.
\<close>

lemma energy_step:
  assumes "snd (updateSpringAnimation s dt)"
  shows "springEnergy dt (fst (updateSpringAnimation s dt)) = (1 - 20 * dt) * springEnergy dt s"
proof -
  have act: "\<bar>target s - value_f s\<bar> \<ge> 0.01 \<or> \<bar>velocity s\<bar> \<ge> 0.01"
    using assms by (auto simp add: updateSpringAnimation_def spring_consts Let_def split: if_splits)
  show ?thesis
    unfolding active_tick[OF act] springEnergy_def
    by (simp add: power2_eq_square algebra_simps)
qed

lemma energy_lower:
  fixes dt e v :: real
  assumes "0 < dt" and "dt \<le> 1/25"
  shows "(e\<^sup>2 + v\<^sup>2) / 100 \<le> 200 * e\<^sup>2 + (20 - 200 * dt) * e * v + (1 - 20 * dt) * v\<^sup>2"
proof -
  define a where "a = 1 - 20 * dt"
  have a_lo: "1 \<le> 5 * a" and a_hi: "a \<le> 1"
    using assms by (simp_all add: a_def)
  have "0 \<le> (5 * a - 1) * (1 - a)"
    using a_lo a_hi by (intro mult_nonneg_nonneg) simp_all
  moreover have "(5 * a - 1) * (1 - a) = 6 * a - 1 - 5 * (a * a)"
    by (simp add: algebra_simps)
  ultimately have sq: "5 * (a * a) \<le> 6 * a - 1"
    by linarith
  have "19999 * (100 * a - 1) - 250000 * (1 + a)\<^sup>2 =
      1499900 * a - 269999 - 250000 * (a * a)"
    by (simp add: power2_eq_square algebra_simps)
  with sq a_lo have disc: "0 \<le> 19999 * (100 * a - 1) - 250000 * (1 + a)\<^sup>2"
    by linarith
  define r where "r = 19999 * e\<^sup>2 + 1000 * (1 + a) * e * v + (100 * a - 1) * v\<^sup>2"
  have "19999 * r =
      (19999 * e + 500 * (1 + a) * v)\<^sup>2 + (19999 * (100 * a - 1) - 250000 * (1 + a)\<^sup>2) * v\<^sup>2"
    by (simp add: r_def power2_eq_square algebra_simps)
  also have "\<dots> \<ge> 0"
    using disc by (intro add_nonneg_nonneg mult_nonneg_nonneg) simp_all
  finally have "0 \<le> r"
    by (simp add: zero_le_mult_iff)
  define w where "w = 200 * e\<^sup>2 + (20 - 200 * dt) * e * v + (1 - 20 * dt) * v\<^sup>2"
  define q where "q = e\<^sup>2 + v\<^sup>2"
  have "r = 100 * w - q"
    by (simp add: r_def a_def w_def q_def algebra_simps)
  with \<open>0 \<le> r\<close> have "q / 100 \<le> w"
    by simp
  then show ?thesis
    by (simp add: w_def q_def)
qed

lemma energy_small_settled:
  assumes "0 < dt" and "dt \<le> 1/25" and "springEnergy dt s < 1/1000000"
  shows "\<bar>target s - value_f s\<bar> < 0.01 \<and> \<bar>velocity s\<bar> < 0.01"
proof -
  define e where "e = value_f s - target s"
  define v where "v = velocity s"
  have "(e\<^sup>2 + v\<^sup>2) / 100 \<le> springEnergy dt s"
    unfolding springEnergy_def e_def v_def by (rule energy_lower[OF assms(1,2)])
  with assms(3) have sum: "e\<^sup>2 + v\<^sup>2 < (1/100)\<^sup>2"
    by (simp add: power2_eq_square)
  have "e\<^sup>2 < (1/100)\<^sup>2"
    using sum zero_le_power2[of v] by linarith
  then have "\<bar>e\<bar>\<^sup>2 < (1/100)\<^sup>2"
    by simp
  then have e_small: "\<bar>e\<bar> < 1/100"
    by (rule power2_less_imp_less) simp
  have "v\<^sup>2 < (1/100)\<^sup>2"
    using sum zero_le_power2[of e] by linarith
  then have "\<bar>v\<bar>\<^sup>2 < (1/100)\<^sup>2"
    by simp
  then have v_small: "\<bar>v\<bar> < 1/100"
    by (rule power2_less_imp_less) simp
  have "\<bar>target s - value_f s\<bar> = \<bar>e\<bar>"
    by (simp add: e_def abs_minus_commute)
  with e_small v_small show ?thesis
    by (simp add: v_def)
qed

lemma active_energy:
  assumes "0 < dt" and "dt \<le> 1/25" and "snd (updateSpringAnimation s dt)"
  shows "1/1000000 \<le> springEnergy dt s"
proof (rule ccontr)
  assume "\<not> 1/1000000 \<le> springEnergy dt s"
  then have "springEnergy dt s < 1/1000000" by simp
  from energy_small_settled[OF assms(1,2) this]
  have "updateSpringAnimation s dt = (s\<lparr>value_f := target s, velocity := 0\<rparr>, False)"
    by (intro settled_tick) simp_all
  with assms(3) show False by simp
qed

lemma animate_None_energy:
  assumes "0 < dt" and "dt \<le> 1/25"
  shows "animate (Suc n) dt s = None \<Longrightarrow> 1/1000000 \<le> (1 - 20 * dt) ^ n * springEnergy dt s"
proof (induction n arbitrary: s)
  case 0
  then have "snd (updateSpringAnimation s dt)"
    by (simp split: prod.splits if_splits)
  from active_energy[OF assms this] show ?case by simp
next
  case (Suc n)
  from Suc.prems have act: "snd (updateSpringAnimation s dt)"
    by (simp split: prod.splits if_splits)
  with Suc.prems have "animate (Suc n) dt (fst (updateSpringAnimation s dt)) = None"
    by (simp split: prod.splits if_splits)
  from Suc.IH[OF this]
  have "1/1000000 \<le> (1 - 20 * dt) ^ n * springEnergy dt (fst (updateSpringAnimation s dt))" .
  then show ?case
    by (simp add: energy_step[OF act] mult_ac)
qed

lemma animate_Some:
  "animate n dt s = Some s' \<Longrightarrow> s' = s\<lparr>value_f := target s, velocity := 0\<rparr>"
proof (induction n arbitrary: s)
  case 0
  then show ?case by simp
next
  case (Suc n)
  show ?case
  proof (cases "\<bar>target s - value_f s\<bar> < 0.01 \<and> \<bar>velocity s\<bar> < 0.01")
    case True
    then have "updateSpringAnimation s dt = (s\<lparr>value_f := target s, velocity := 0\<rparr>, False)"
      by (intro settled_tick) simp_all
    with Suc.prems show ?thesis by simp
  next
    case False
    then have act: "\<bar>target s - value_f s\<bar> \<ge> 0.01 \<or> \<bar>velocity s\<bar> \<ge> 0.01"
      by auto
    from Suc.prems have "animate n dt (fst (updateSpringAnimation s dt)) = Some s'"
      by (simp add: active_tick[OF act])
    from Suc.IH[OF this] show ?thesis
      by (simp add: active_tick[OF act])
  qed
qed

text \<open>
  In exact real arithmetic the run ends from every state: for every fixed time step \<open>dt\<close>
  with \<open>0 < dt \<le> 1/25\<close>, ticking the state while the update reports activity ends after
  finitely many ticks, in the state snapped to its target with velocity zero.
\<close>

lemma spring_converges_exact:
  assumes "0 < dt" and "dt \<le> 1/25"
  shows "\<exists>n. animate n dt s = Some (s\<lparr>value_f := target s, velocity := 0\<rparr>)"
proof -
  define r where "r = 1 - 20 * dt"
  have r0: "0 \<le> r" and r1: "r < 1"
    using assms by (simp_all add: r_def)
  define E where "E = springEnergy dt s"
  have "(((value_f s - target s))\<^sup>2 + (velocity s)\<^sup>2) / 100 \<le> E"
    unfolding E_def springEnergy_def by (rule energy_lower[OF assms])
  then have E0: "0 \<le> E"
    by (smt (verit) zero_le_power2 divide_nonneg_nonneg add_nonneg_nonneg)
  have pos: "0 < E + 1"
    using E0 by simp
  then have "0 < (1/1000000) / (E + 1)"
    by simp
  from real_arch_pow_inv[OF this r1] obtain n where n: "r ^ n < (1/1000000) / (E + 1)"
    by blast
  have "r ^ n * (E + 1) < 1/1000000"
    using n pos_less_divide_eq[OF pos, of "r ^ n" "1/1000000"] by blast
  moreover have "r ^ n * E \<le> r ^ n * (E + 1)"
    using r0 by (intro mult_left_mono) simp_all
  ultimately have small: "r ^ n * E < 1/1000000"
    by linarith
  have "animate (Suc n) dt s \<noteq> None"
  proof
    assume "animate (Suc n) dt s = None"
    from animate_None_energy[OF assms this] small show False
      by (simp add: r_def E_def)
  qed
  then obtain s' where "animate (Suc n) dt s = Some s'"
    by blast
  with animate_Some[OF this] show ?thesis
    by blast
qed

text \<open>
  The bound on the time step is needed: at the cap 0.1 of the animation loop the same
  state moves away from its target, from 0 towards the target 100 to 200, then to -200,
  then to 800.
\<close>

lemma springTicks_at_cap:
  "springTicks \<lparr>value_f = 0, target = 100, velocity = 0\<rparr> [0.1, 0.1, 0.1]
     = \<lparr>value_f = 800, target = 100, velocity = 10000\<rparr>"
  by (simp add: updateSpringAnimation_def spring_consts Let_def)

section \<open>Layout: properties\<close>

lemma layout_low: "p \<le> 0 \<Longrightarrow> spec_layoutResolver p e c = e / 2"
  by (simp add: spec_layoutResolver_def)

lemma layout_high: "p \<ge> 100 \<Longrightarrow> spec_layoutResolver p e c = c - e / 2"
  by (simp add: spec_layoutResolver_def)

lemma layout_mid: "spec_layoutResolver 50 e c = c / 2"
  by (simp add: spec_layoutResolver_def field_simps)

lemma renderFrame_icon_layout:
  assumes "icon_svg ic \<noteq> []"
  shows "renderFrame_icon canvas ic sz px py =
     Some \<lparr>iconPosX = spec_layoutResolver px sz (canvas_width canvas),
           iconPosY = spec_layoutResolver py sz (canvas_height canvas),
           iconLayoutSize = sz\<rparr>"
  using assms by (simp add: renderFrame_icon_def spec_layoutResolver_def Let_def)

lemma exportImage_icon_layout:
  assumes "icon_svg ic \<noteq> []"
  shows "exportImage_icon exportCanvas canvas ic =
     Some \<lparr>iconPosX = spec_layoutResolver (pos_x (icon_position ic))
                        (icon_size ic * (canvas_width exportCanvas / canvas_width canvas))
                        (canvas_width exportCanvas),
           iconPosY = spec_layoutResolver (pos_y (icon_position ic))
                        (icon_size ic * (canvas_width exportCanvas / canvas_width canvas))
                        (canvas_height exportCanvas),
           iconLayoutSize = icon_size ic * (canvas_width exportCanvas / canvas_width canvas)\<rparr>"
  using assms by (simp add: exportImage_icon_def spec_layoutResolver_def Let_def)

text \<open>
  Claim C4. With an icon to draw, both passes resolve the centre of the icon as the
  layout resolver of the specification does: a percent at or below 0 gives half the icon
  size, a percent at or above 100 gives the extent of the canvas minus half the icon size,
  and a percent in between interpolates linearly between these two with the factor
  percent / 100. The preview does so for the percent and the size it is handed (the
  animated values) on the preview canvas. The export does so for the configured percent
  and the configured size times export width over preview width, on the width and the
  height of the export canvas itself.
\<close>

theorem icon_layout_resolution:
  assumes "icon_svg ic \<noteq> []"
  shows "renderFrame_icon canvas ic sz px py =
       Some \<lparr>iconPosX = spec_layoutResolver px sz (canvas_width canvas),
             iconPosY = spec_layoutResolver py sz (canvas_height canvas),
             iconLayoutSize = sz\<rparr>
     \<and> exportImage_icon exportCanvas canvas ic =
       Some \<lparr>iconPosX = spec_layoutResolver (pos_x (icon_position ic))
                          (icon_size ic * (canvas_width exportCanvas / canvas_width canvas))
                          (canvas_width exportCanvas),
             iconPosY = spec_layoutResolver (pos_y (icon_position ic))
                          (icon_size ic * (canvas_width exportCanvas / canvas_width canvas))
                          (canvas_height exportCanvas),
             iconLayoutSize = icon_size ic * (canvas_width exportCanvas / canvas_width canvas)\<rparr>"
  using renderFrame_icon_layout[OF assms] exportImage_icon_layout[OF assms] by simp

theorem icon_layout_resolution_witness:
  "icon_svg sampleIcon \<noteq> []
   \<and> renderFrame_icon sampleCanvas sampleIcon 200 25 100 =
       Some \<lparr>iconPosX = 530, iconPosY = 980, iconLayoutSize = 200\<rparr>
   \<and> exportImage_icon \<lparr>canvas_width = 3840, canvas_height = 1000\<rparr> sampleCanvas sampleIcon =
       Some \<lparr>iconPosX = 1060, iconPosY = 800, iconLayoutSize = 400\<rparr>"
  using icon_layout_resolution[of sampleIcon sampleCanvas 200 25 100
      "\<lparr>canvas_width = 3840, canvas_height = 1000\<rparr>"]
  by (simp add: sample_defs spec_layoutResolver_def)

section \<open>Export at twice the preview width\<close>

text \<open>
  Claim C1, on the code. Take a title in Maple Mono CN with bold on, a watermark and an
  icon, the preview at rest (the animated icon size is the configured one), and an export
  canvas twice as wide as the preview canvas. The export doubles the icon size, the
  rectangle of the icon, the blur of the icon shadow, the font size of the title and of
  the watermark, the blur and both offsets of the text shadow of the title, and the stroke
  width of the watermark. The stroke width of the title is not doubled: the preview
  strokes with \<open>size * 2 * 0.01\<close> and the export with the same width.
\<close>

theorem title_stroke_not_scaled_on_export:
  assumes "title_font tc = ''Maple Mono CN''" and "title_bold (title_effects tc)"
    and "title_text tc \<noteq> []" and "watermark_text wc \<noteq> []" and "icon_svg ic \<noteq> []"
    and "0 < canvas_width canvas"
    and "canvas_width exportCanvas = 2 * canvas_width canvas"
  shows "\<exists>pt et pw ew pl el pd ed.
       renderFrame_title m canvas tc tx ty = Some pt
     \<and> exportImage_title m exportCanvas canvas tc = Some et
     \<and> renderFrame_watermark m canvas wc wx wy = Some pw
     \<and> exportImage_watermark m exportCanvas canvas wc = Some ew
     \<and> renderFrame_icon canvas ic (icon_size ic) ix iy = Some pl
     \<and> exportImage_icon exportCanvas canvas ic = Some el
     \<and> drawIcon ic (Some (imgWidth, imgHeight)) (iconPosX pl) (iconPosY pl) (icon_size ic) = Some pd
     \<and> exportImage_iconDraw exportCanvas canvas ic (Some (imgWidth, imgHeight)) el = Some ed
     \<and> iconLayoutSize el = 2 * iconLayoutSize pl
     \<and> iconDraw_width ed = 2 * iconDraw_width pd
     \<and> iconDraw_height ed = 2 * iconDraw_height pd
     \<and> iconDraw_shadow ed = map_option (\<lambda>(color, blur). (color, 2 * blur)) (iconDraw_shadow pd)
     \<and> text_fontSize et = 2 * text_fontSize pt
     \<and> text_shadow et =
           map_option (\<lambda>(color, blur, offsetX, offsetY). (color, 2 * blur, 2 * offsetX, 2 * offsetY))
             (text_shadow pt)
     \<and> text_fontSize ew = 2 * text_fontSize pw
     \<and> text_lineWidth ew = map_option (\<lambda>w. 2 * w) (text_lineWidth pw)
     \<and> text_lineWidth pt = Some (title_size tc * 2 * 0.01)
     \<and> text_lineWidth et = Some (title_size tc * 2 * 0.01)"
  using assms
  by (simp add: renderFrame_title_def exportImage_title_def renderFrame_watermark_def
      exportImage_watermark_def renderFrame_icon_def exportImage_icon_def drawIcon_def
      exportImage_iconDraw_def Let_def)

theorem title_stroke_not_scaled_on_export_witness:
  "title_font sampleTitle = ''Maple Mono CN'' \<and> title_bold (title_effects sampleTitle)
   \<and> title_text sampleTitle \<noteq> [] \<and> watermark_text sampleWatermark \<noteq> []
   \<and> icon_svg sampleIcon \<noteq> []
   \<and> 0 < canvas_width sampleCanvas
   \<and> canvas_width sampleExportCanvas = 2 * canvas_width sampleCanvas
   \<and> map_option text_fontSize
         (renderFrame_title monospaceMeasure sampleCanvas sampleTitle 0 50) = Some 100
   \<and> map_option text_fontSize
         (exportImage_title monospaceMeasure sampleExportCanvas sampleCanvas sampleTitle) = Some 200
   \<and> map_option text_lineWidth
         (renderFrame_title monospaceMeasure sampleCanvas sampleTitle 0 50) = Some (Some 2)
   \<and> map_option text_lineWidth
         (exportImage_title monospaceMeasure sampleExportCanvas sampleCanvas sampleTitle) = Some (Some 2)
   \<and> map_option text_lineWidth
         (renderFrame_watermark monospaceMeasure sampleCanvas sampleWatermark 50 100) = Some (Some 0.5)
   \<and> map_option text_lineWidth
         (exportImage_watermark monospaceMeasure sampleExportCanvas sampleCanvas sampleWatermark)
       = Some (Some 1)"
  using title_stroke_not_scaled_on_export[of sampleTitle sampleWatermark sampleIcon sampleCanvas sampleExportCanvas
      monospaceMeasure 0 50 50 100 25 100 64 64]
  by (simp add: sample_defs renderFrame_title_def exportImage_title_def renderFrame_watermark_def
      exportImage_watermark_def Let_def)

section \<open>The solid colour background\<close>

lemma hexDigit_facts:
  assumes "hexDigitValue c = Some d"
  shows "isHexDigit c" and "\<not> isWhiteSpace c" and "c \<noteq> CHR ''-''" and "c \<noteq> CHR ''+''"
    and "c \<noteq> CHR ''x''" and "c \<noteq> CHR ''X''"
  using assms
  by (auto simp add: isHexDigit_def isWhiteSpace_def hexDigitValue_def Let_def split: if_splits)

lemma parseInt16_pair:
  assumes "hexDigitValue a = Some x" and "hexDigitValue b = Some y"
  shows "parseInt16 [a, b] = Some (int (16 * x + y))"
  using assms hexDigit_facts[OF assms(1)] hexDigit_facts[OF assms(2)]
  by (simp add: parseInt16_def hexDigits_def Let_def)

text \<open>
  Claim C8. For a background of type colour whose colour is \<open>#\<close> followed by six
  hexadecimal digits, both passes fill the whole surface, from (0, 0) over the width and
  the height of their canvas, with the style \<open>rgba(R, G, B, opacity / 100)\<close>, each channel
  being sixteen times the value of its first digit plus the value of its second. This
  holds of the background step of each pass and of the frame the pass draws, which starts
  from the white fill of the same rectangle.
\<close>

theorem color_background_fill:
  assumes "bg_type (backgroundConfig props) = COLOR"
    and "bg_color (backgroundConfig props) = [CHR ''#'', r1, r2, g1, g2, b1, b2]"
    and "hexDigitValue r1 = Some R1" and "hexDigitValue r2 = Some R2"
    and "hexDigitValue g1 = Some G1" and "hexDigitValue g2 = Some G2"
    and "hexDigitValue b1 = Some B1" and "hexDigitValue b2 = Some B2"
  shows "renderFrame_background canvas (backgroundConfig props) =
       ColorFill (CssRgba (Some (int (16 * R1 + R2))) (Some (int (16 * G1 + G2)))
                    (Some (int (16 * B1 + B2))) (bg_opacity (backgroundConfig props) / 100))
         0 0 (canvas_width canvas) (canvas_height canvas)
     \<and> exportImage_background exportCanvas (backgroundConfig props) =
       ColorFill (CssRgba (Some (int (16 * R1 + R2))) (Some (int (16 * G1 + G2)))
                    (Some (int (16 * B1 + B2))) (bg_opacity (backgroundConfig props) / 100))
         0 0 (canvas_width exportCanvas) (canvas_height exportCanvas)
     \<and> map_option frame_clear
         (renderFrame m iconImage (Some canvas) props tx ty wx wy isz ix iy) =
       Some (ColorFill (CssText ''#ffffff'') 0 0 (canvas_width canvas) (canvas_height canvas))
     \<and> map_option frame_background
         (renderFrame m iconImage (Some canvas) props tx ty wx wy isz ix iy) =
       Some (ColorFill (CssRgba (Some (int (16 * R1 + R2))) (Some (int (16 * G1 + G2)))
                    (Some (int (16 * B1 + B2))) (bg_opacity (backgroundConfig props) / 100))
         0 0 (canvas_width canvas) (canvas_height canvas))
     \<and> map_option (\<lambda>r. frame_clear (fst r))
         (exportImage m iconImage (Some canvas) True props exportConfig) =
       Some (ColorFill (CssText ''#ffffff'') 0 0
               (export_width exportConfig) (export_height exportConfig))
     \<and> map_option (\<lambda>r. frame_background (fst r))
         (exportImage m iconImage (Some canvas) True props exportConfig) =
       Some (ColorFill (CssRgba (Some (int (16 * R1 + R2))) (Some (int (16 * G1 + G2)))
                    (Some (int (16 * B1 + B2))) (bg_opacity (backgroundConfig props) / 100))
         0 0 (export_width exportConfig) (export_height exportConfig))"
proof -
  let ?bg = "backgroundConfig props"
  have r: "parseInt16 (slice (bg_color ?bg) 1 3) = Some (int (16 * R1 + R2))"
    using parseInt16_pair[OF assms(3,4)] by (simp add: assms(2) slice_def)
  have g: "parseInt16 (slice (bg_color ?bg) 3 5) = Some (int (16 * G1 + G2))"
    using parseInt16_pair[OF assms(5,6)] by (simp add: assms(2) slice_def)
  have b: "parseInt16 (slice (bg_color ?bg) 5 7) = Some (int (16 * B1 + B2))"
    using parseInt16_pair[OF assms(7,8)] by (simp add: assms(2) slice_def)
  have preview: "renderFrame_background c ?bg =
       ColorFill (CssRgba (Some (int (16 * R1 + R2))) (Some (int (16 * G1 + G2)))
                    (Some (int (16 * B1 + B2))) (bg_opacity ?bg / 100))
         0 0 (canvas_width c) (canvas_height c)" for c
    using r g b by (simp add: renderFrame_background_def assms(1) Let_def)
  have export: "exportImage_background c ?bg =
       ColorFill (CssRgba (Some (int (16 * R1 + R2))) (Some (int (16 * G1 + G2)))
                    (Some (int (16 * B1 + B2))) (bg_opacity ?bg / 100))
         0 0 (canvas_width c) (canvas_height c)" for c
    using r g b by (simp add: exportImage_background_def assms(1) Let_def)
  show ?thesis
    by (simp add: preview export renderFrame_def exportImage_def Let_def)
qed

theorem color_background_fill_witness:
  "bg_type (backgroundConfig sampleProps) = COLOR
   \<and> bg_color (backgroundConfig sampleProps)
       = [CHR ''#'', CHR ''F'', CHR ''F'', CHR ''0'', CHR ''0'', CHR ''0'', CHR ''0'']
   \<and> hexDigitValue (CHR ''F'') = Some 15 \<and> hexDigitValue (CHR ''0'') = Some 0
   \<and> bg_opacity (backgroundConfig sampleProps) = 50
   \<and> renderFrame_background sampleCanvas (backgroundConfig sampleProps) =
       ColorFill (CssRgba (Some 255) (Some 0) (Some 0) 0.5) 0 0 1920 1080
   \<and> exportImage_background sampleExportCanvas (backgroundConfig sampleProps) =
       ColorFill (CssRgba (Some 255) (Some 0) (Some 0) 0.5) 0 0 3840 2160
   \<and> map_option frame_background
         (renderFrame monospaceMeasure None (Some sampleCanvas) sampleProps 0 50 50 100 200 25 100) =
       Some (ColorFill (CssRgba (Some 255) (Some 0) (Some 0) 0.5) 0 0 1920 1080)
   \<and> map_option (\<lambda>r. frame_background (fst r))
         (exportImage monospaceMeasure None (Some sampleCanvas) True sampleProps sampleExport) =
       Some (ColorFill (CssRgba (Some 255) (Some 0) (Some 0) 0.5) 0 0 3840 2160)"
  using color_background_fill[where props = sampleProps and canvas = sampleCanvas
      and exportCanvas = sampleExportCanvas and exportConfig = sampleExport
      and m = monospaceMeasure and iconImage = None
      and ?r1.0 = "CHR ''F''" and ?r2.0 = "CHR ''F''" and ?g1.0 = "CHR ''0''" and ?g2.0 = "CHR ''0''"
      and ?b1.0 = "CHR ''0''" and ?b2.0 = "CHR ''0''"
      and ?R1.0 = 15 and ?R2.0 = 15 and ?G1.0 = 0 and ?G2.0 = 0 and ?B1.0 = 0 and ?B2.0 = 0
      and tx = 0 and ty = 50 and wx = 50 and wy = 100 and isz = 200 and ix = 25 and iy = 100]
  by (simp add: sample_defs hexDigitValue_def)

section \<open>The name of the exported file\<close>

text \<open>
  Claim C10. The exported file takes the random name exactly when \<open>useRandomFileName\<close>
  is on and \<open>currentRandomFileName\<close> is present and not empty; when the flag is off, or
  the random name is absent or empty, it takes \<open>fileName\<close>. In both cases the name is
  followed by a dot and the format.
\<close>

theorem export_file_name:
  "(export_useRandomFileName ec \<and> export_currentRandomFileName ec = Some n \<and> n \<noteq> []
      \<longrightarrow> outputFileName ec = n @ ''.'' @ export_format ec)
   \<and> (\<not> export_useRandomFileName ec \<or> export_currentRandomFileName ec = None
        \<or> export_currentRandomFileName ec = Some []
      \<longrightarrow> outputFileName ec = export_fileName ec @ ''.'' @ export_format ec)"
  by (auto simp add: outputFileName_def getFinalFileName_def split: option.splits)

theorem export_file_name_witness:
  "export_useRandomFileName sampleExport
   \<and> export_currentRandomFileName sampleExport = Some ''cover-8f3a''
   \<and> ''cover-8f3a'' \<noteq> []
   \<and> outputFileName sampleExport = ''cover-8f3a.png''
   \<and> export_currentRandomFileName (sampleExport\<lparr>export_currentRandomFileName := Some []\<rparr>) = Some []
   \<and> outputFileName (sampleExport\<lparr>export_currentRandomFileName := Some []\<rparr>) = ''cover.png''
   \<and> outputFileName (sampleExport\<lparr>export_currentRandomFileName := None\<rparr>) = ''cover.png''
   \<and> outputFileName (sampleExport\<lparr>export_useRandomFileName := False, export_format := ''jpeg''\<rparr>)
       = ''cover.jpeg''"
  using export_file_name[of sampleExport "''cover-8f3a''"]
    export_file_name[of "sampleExport\<lparr>export_currentRandomFileName := Some []\<rparr>" "[]"]
    export_file_name[of "sampleExport\<lparr>export_currentRandomFileName := None\<rparr>" "[]"]
    export_file_name[of "sampleExport\<lparr>export_useRandomFileName := False, export_format := ''jpeg''\<rparr>" "[]"]
  by (simp add: sample_defs)

section \<open>The snap of the first update\<close>

text \<open>
  Claim C3, on the code. The first update of the fresh table, with a title of size 100
  and an icon of size 200, snaps every value to its target. An update that only changes
  the icon size to 400 then leaves the value 200 in place, to be animated. But once the
  title size has been set to 0 and the animation has settled (19 frames, 50 milliseconds
  apart, after which the loop stops with the title size at exactly 0), the next update,
  which sets the icon size to 400, snaps the icon size from 200 to 400 at once: a later
  update snaps again, because the test for the first update is that the current value of
  the title size is 0.
\<close>

theorem snap_repeats_when_title_size_is_zero:
  "iconSize (updateAnimationTargets sampleProps animationStates)
       = \<lparr>value_f = 200, target = 200, velocity = 0\<rparr>
   \<and> titleSize (updateAnimationTargets sampleProps animationStates)
       = \<lparr>value_f = 100, target = 100, velocity = 0\<rparr>
   \<and> iconSize
        (updateAnimationTargets (sampleProps\<lparr>iconConfig := sampleIcon\<lparr>icon_size := 400\<rparr>\<rparr>)
           (updateAnimationTargets sampleProps animationStates))
       = \<lparr>value_f = 200, target = 400, velocity = 0\<rparr>
   \<and> animationFrames [50, 100, 150, 200, 250, 300, 350, 400, 450, 500,
                       550, 600, 650, 700, 750, 800, 850, 900, 950] 0
        (updateAnimationTargets (sampleProps\<lparr>titleConfig := sampleTitle\<lparr>title_size := 0\<rparr>\<rparr>)
           (updateAnimationTargets sampleProps animationStates))
       = (updateAnimationTargets sampleProps animationStates
            \<lparr>titleSize := \<lparr>value_f = 0, target = 0, velocity = 0\<rparr>\<rparr>, False)
   \<and> iconSize
        (updateAnimationTargets
           (sampleProps\<lparr>titleConfig := sampleTitle\<lparr>title_size := 0\<rparr>,
                          iconConfig := sampleIcon\<lparr>icon_size := 400\<rparr>\<rparr>)
           (updateAnimationTargets sampleProps animationStates
              \<lparr>titleSize := \<lparr>value_f = 0, target = 0, velocity = 0\<rparr>\<rparr>))
       = \<lparr>value_f = 400, target = 400, velocity = 0\<rparr>"
  by (simp add: sample_defs updateAnimationTargets_def animationStates_def createAnimationState_def
      animationLoop_def updateSpringAnimation_def spring_consts Let_def)

section \<open>Binary64 rounding: properties\<close>

text \<open>
  Rounding to the nearest integer is off by at most one half; hence \<open>round64\<close> is off by at
  most half the spacing of its binade, which is at most \<open>\<bar>x\<bar> / 2 ^ 53\<close> for a normal number
  and \<open>1 / 2 ^ 1075\<close> for a subnormal one.
\<close>

lemma roundTiesToEven_error: "\<bar>of_int (roundTiesToEven y) - y\<bar> \<le> 1/2"
proof -
  have "of_int \<lfloor>y\<rfloor> \<le> y" and "y < of_int \<lfloor>y\<rfloor> + 1"
    by linarith+
  then show ?thesis
    by (auto simp add: roundTiesToEven_def Let_def)
qed

lemma bitlen_eqI:
  assumes "2 ^ j \<le> n" and "n < 2 ^ Suc j"
  shows "bitlen n = int j + 1"
proof -
  have pos: "0 < n"
    using assms(1) by (smt (verit) zero_less_power)
  from bitlen_bounds[OF pos]
  have lo: "2 ^ nat (bitlen n - 1) \<le> n" and hi: "n < 2 ^ nat (bitlen n)"
    by simp_all
  have b1: "1 \<le> bitlen n"
    using pos by (simp add: bitlen_alt_def)
  have "(2::int) ^ nat (bitlen n - 1) < 2 ^ Suc j"
    using lo assms(2) by linarith
  then have "nat (bitlen n - 1) < Suc j"
    by (simp only: power_strict_increasing_iff[of 2] one_less_numeral_iff semiring_norm)
  moreover have "(2::int) ^ j < 2 ^ nat (bitlen n)"
    using hi assms(1) by linarith
  then have "j < nat (bitlen n)"
    by (simp only: power_strict_increasing_iff[of 2] one_less_numeral_iff semiring_norm)
  ultimately show ?thesis
    using b1 by linarith
qed

lemma binadeExponent_normal:
  assumes "2 powi e \<le> \<bar>x\<bar>" and "\<bar>x\<bar> < 2 powi (e + 1)" and "- 1022 \<le> e"
  shows "binadeExponent x = e"
proof -
  define j where "j = nat (e + 1022)"
  have e: "e = int j - 1022"
    using assms(3) by (simp add: j_def)
  have p1: "(2::real) powi e * 2 ^ 1022 = 2 ^ j"
    unfolding e by (simp add: power_int_diff)
  have p2: "(2::real) powi (e + 1) * 2 ^ 1022 = 2 ^ Suc j"
    unfolding e by (simp add: power_int_diff power_int_add)
  have "2 ^ j \<le> \<bar>x\<bar> * 2 ^ 1022"
    using assms(1) p1 by (smt (verit) mult_right_mono zero_le_power)
  then have "real_of_int (2 ^ j) \<le> \<bar>x\<bar> * 2 ^ 1022"
    by simp
  then have lo: "2 ^ j \<le> \<lfloor>\<bar>x\<bar> * 2 ^ 1022\<rfloor>"
    by (simp only: le_floor_iff)
  have "\<bar>x\<bar> * 2 ^ 1022 < 2 ^ Suc j"
    using assms(2) p2 by (smt (verit) mult_strict_right_mono zero_less_power)
  then have "\<bar>x\<bar> * 2 ^ 1022 < real_of_int (2 ^ Suc j)"
    by simp
  then have hi: "\<lfloor>\<bar>x\<bar> * 2 ^ 1022\<rfloor> < 2 ^ Suc j"
    by (simp only: floor_less_iff)
  show ?thesis
    unfolding binadeExponent_def bitlen_eqI[OF lo hi] e by simp
qed

lemma binadeExponent_subnormal:
  assumes "\<bar>x\<bar> < 2 powi (- 1022)"
  shows "binadeExponent x = - 1022"
proof -
  have "\<bar>x\<bar> * 2 ^ 1022 < 2 powi (- 1022) * 2 ^ 1022"
    using assms by (rule mult_strict_right_mono) simp
  then have "\<bar>x\<bar> * 2 ^ 1022 < 1"
    by (simp add: power_int_minus)
  then have "\<lfloor>\<bar>x\<bar> * 2 ^ 1022\<rfloor> \<le> 0"
    by (simp add: floor_le_iff)
  then have "bitlen \<lfloor>\<bar>x\<bar> * 2 ^ 1022\<rfloor> = 0"
    by (simp add: bitlen_eq_zero_iff)
  then show ?thesis
    by (simp add: binadeExponent_def)
qed

lemma round64_spacing:
  "\<bar>round64 x - x\<bar> \<le> 2 powi (binadeExponent x - 52) / 2"
proof -
  define k where "k = binadeExponent x - 52"
  have pos: "0 < (2::real) powi k"
    by (simp add: zero_less_power_int)
  have "round64 x - x = (of_int (roundTiesToEven (x / 2 powi k)) - x / 2 powi k) * 2 powi k"
    using pos by (simp add: round64_def k_def algebra_simps)
  then have "\<bar>round64 x - x\<bar> = \<bar>of_int (roundTiesToEven (x / 2 powi k)) - x / 2 powi k\<bar> * 2 powi k"
    using pos by (simp add: abs_mult)
  also have "\<dots> \<le> (1/2) * 2 powi k"
    using roundTiesToEven_error[of "x / 2 powi k"] pos by (intro mult_right_mono) simp_all
  finally show ?thesis
    by (simp add: k_def)
qed

lemma binadeExponent_bound:
  "2 powi (binadeExponent x) \<le> max \<bar>x\<bar> (2 powi (- 1022))"
proof (cases "\<lfloor>\<bar>x\<bar> * 2 ^ 1022\<rfloor> > 0")
  case True
  define n where "n = \<lfloor>\<bar>x\<bar> * 2 ^ 1022\<rfloor>"
  have pos: "0 < n" using True by (simp add: n_def)
  have b1: "1 \<le> bitlen n"
    using pos by (simp add: bitlen_alt_def)
  from bitlen_bounds[OF pos] have "2 ^ nat (bitlen n - 1) \<le> n"
    by simp
  then have "real_of_int (2 ^ nat (bitlen n - 1)) \<le> real_of_int n"
    by (simp only: of_int_le_iff)
  also have "\<dots> \<le> \<bar>x\<bar> * 2 ^ 1022"
    by (simp add: n_def)
  finally have "(2::real) ^ nat (bitlen n - 1) \<le> \<bar>x\<bar> * 2 ^ 1022"
    by simp
  then have "(2::real) ^ nat (bitlen n - 1) / 2 ^ 1022 \<le> \<bar>x\<bar>"
    by (simp add: pos_divide_le_eq)
  moreover have "(2::real) powi (bitlen n - 1 - 1022) = 2 ^ nat (bitlen n - 1) / 2 ^ 1022"
  proof -
    define m where "m = nat (bitlen n - 1)"
    have bm: "bitlen n - 1 = int m"
      using b1 by (simp add: m_def)
    have "(2::real) powi (int m - 1022) = 2 ^ m / 2 ^ 1022"
      by (simp add: power_int_diff)
    then show ?thesis
      unfolding bm by simp
  qed
  moreover have "binadeExponent x = bitlen n - 1 - 1022"
    using b1 by (simp add: binadeExponent_def n_def)
  ultimately show ?thesis
    by simp
next
  case False
  then have "bitlen \<lfloor>\<bar>x\<bar> * 2 ^ 1022\<rfloor> = 0"
    by (simp add: bitlen_eq_zero_iff)
  then have "binadeExponent x = - 1022"
    by (simp add: binadeExponent_def)
  then show ?thesis
    by simp
qed

lemma round64_error:
  "\<bar>round64 x - x\<bar> \<le> \<bar>x\<bar> / 2 ^ 53 + 1 / 2 ^ 1075"
proof -
  have "2 powi (binadeExponent x - 52) / 2 = 2 powi (binadeExponent x) / (2::real) ^ 53"
    by (simp add: power_int_diff)
  also have "\<dots> \<le> max \<bar>x\<bar> (2 powi (- 1022)) / 2 ^ 53"
    using binadeExponent_bound[of x] by (intro divide_right_mono) simp_all
  also have "\<dots> \<le> \<bar>x\<bar> / 2 ^ 53 + 2 powi (- 1022) / 2 ^ 53"
    by (simp add: max_def add_divide_distrib[symmetric] divide_right_mono)
  also have "(2::real) powi (- 1022) / 2 ^ 53 = 1 / 2 ^ 1075"
    by (simp add: power_int_minus field_simps)
  finally show ?thesis
    using round64_spacing[of x] by linarith
qed

lemma round64_near:
  assumes "\<bar>x\<bar> \<le> 2 ^ 30"
  shows "\<bar>round64 x - x\<bar> \<le> 1 / 2 ^ 22"
proof -
  have "\<bar>x\<bar> / 2 ^ 53 \<le> 2 ^ 30 / (2::real) ^ 53"
    using assms by (intro divide_right_mono) simp_all
  moreover have "(2::real) ^ 30 / 2 ^ 53 + 1 / 2 ^ 1075 \<le> 1 / 2 ^ 22"
    by simp
  ultimately show ?thesis
    using round64_error[of x] by linarith
qed

text \<open>
  Once the binade of \<open>x\<close> is known, \<open>round64 x\<close> is computed by one rounding to an integer.
\<close>

lemma round64_eval:
  assumes "2 powi e \<le> \<bar>x\<bar>" and "\<bar>x\<bar> < 2 powi (e + 1)" and "- 1022 \<le> e"
  shows "round64 x = of_int (roundTiesToEven (x / 2 powi (e - 52))) * 2 powi (e - 52)"
  by (simp add: round64_def binadeExponent_normal[OF assms])

lemma round64_zero: "round64 0 = 0"
  by (simp add: round64_def roundTiesToEven_def)

lemma round64_sixtieth: "round64 (1/60) = 4803839602528529 / 288230376151711744"
  using round64_eval[of "-6" "1/60"] by (simp add: roundTiesToEven_def)

lemma round64_hundredth: "round64 (1/100) = 5764607523034235 / 576460752303423488"
  using round64_eval[of "-7" "1/100"] by (simp add: roundTiesToEven_def)

lemma round64_half: "round64 (1 / 2) = 1 / 2"
  using round64_eval[of "-1" "1 / 2"] by (simp add: roundTiesToEven_def)

lemma round64_rel:
  assumes "\<bar>y\<bar> \<le> 8 * S" and "1 \<le> S"
  shows "\<bar>round64 y - y\<bar> \<le> 9 * S / 2 ^ 53"
proof -
  have "\<bar>y\<bar> / 2 ^ 53 \<le> 8 * S / 2 ^ 53"
    using assms(1) by (intro divide_right_mono) simp_all
  moreover have "(1::real) / 2 ^ 1075 \<le> 1 / 2 ^ 53"
    by simp
  moreover have "(1::real) / 2 ^ 53 \<le> S / 2 ^ 53"
    using assms(2) by (intro divide_right_mono) simp_all
  moreover have "8 * S / 2 ^ 53 + S / 2 ^ 53 = 9 * S / 2 ^ 53"
    by simp
  ultimately show ?thesis
    using round64_error[of y] by linarith
qed

text \<open>
  Integers below \<open>2 ^ 53\<close> in magnitude are binary64 values.
\<close>

lemma roundTiesToEven_of_int: "roundTiesToEven (of_int j) = j"
  by (simp add: roundTiesToEven_def)

lemma round64_of_int:
  assumes "\<bar>k\<bar> < 2 ^ 53"
  shows "round64 (of_int k) = of_int k"
proof (cases "k = 0")
  case True
  then show ?thesis by (simp add: round64_zero)
next
  case False
  then have pos: "0 < \<bar>k\<bar>" by simp
  define e where "e = bitlen \<bar>k\<bar> - 1"
  from bitlen_bounds[OF pos] have lo: "2 ^ nat e \<le> \<bar>k\<bar>" and hi: "\<bar>k\<bar> < 2 ^ nat (bitlen \<bar>k\<bar>)"
    by (simp_all add: e_def)
  have bl: "0 < bitlen \<bar>k\<bar>"
    using pos bitlen_eq_zero_iff[of "\<bar>k\<bar>"] bitlen_nonneg[of "\<bar>k\<bar>"] by linarith
  then have e0: "0 \<le> e" by (simp add: e_def)
  have "(2::int) ^ nat e < 2 ^ 53" using lo assms by linarith
  then have "nat e < 53" by (rule power_less_imp_less_exp[of "2::int", rotated]) simp
  then have e52: "e \<le> 52" by simp
  define n where "n = nat (52 - e)"
  have en: "e - 52 = - int n" using e52 by (simp add: n_def)
  have p: "(2::real) powi (e - 52) = 1 / 2 ^ n"
    unfolding en by (simp add: power_int_minus field_simps)
  have a: "(2::real) powi e \<le> \<bar>of_int k\<bar>"
  proof -
    have "(2::real) powi e = of_int (2 ^ nat e)" using e0 by (simp add: power_int_def)
    also have "\<dots> \<le> of_int \<bar>k\<bar>" using lo by (simp only: of_int_le_iff)
    finally show ?thesis by simp
  qed
  have b: "\<bar>of_int k :: real\<bar> < 2 powi (e + 1)"
  proof -
    have "nat (bitlen \<bar>k\<bar>) = nat (e + 1)" by (simp add: e_def)
    then have "\<bar>k\<bar> < 2 ^ nat (e + 1)" using hi by simp
    then have "(of_int \<bar>k\<bar> :: real) < of_int (2 ^ nat (e + 1))" by (simp only: of_int_less_iff)
    also have "\<dots> = 2 powi (e + 1)" using e0 by (simp add: power_int_def)
    finally show ?thesis by simp
  qed
  have c: "- 1022 \<le> e" using e0 by simp
  have q: "of_int k / (2::real) powi (e - 52) = of_int (k * 2 ^ n)"
    by (simp add: p)
  have r: "roundTiesToEven (of_int (k * 2 ^ n)) = k * 2 ^ n"
    by (rule roundTiesToEven_of_int)
  show ?thesis
    unfolding round64_eval[OF a b c] q r by (simp add: p)
qed

lemma round64_numeral:
  "numeral n < (2::int) ^ 53 \<Longrightarrow> round64 (numeral n) = numeral n"
  using round64_of_int[of "numeral n"] by simp

text \<open>
  Halving is exact on the binary64 values that are at least \<open>2 powi (-1021)\<close> in magnitude:
  the half has the same significand one binade below.
\<close>

lemma binade_bounds:
  assumes "2 powi (- 1022) \<le> \<bar>x\<bar>"
  shows "2 powi binadeExponent x \<le> \<bar>x\<bar>" and "\<bar>x\<bar> < 2 powi (binadeExponent x + 1)"
proof -
  define n where "n = \<lfloor>\<bar>x\<bar> * 2 ^ 1022\<rfloor>"
  have "2 powi (- 1022) * 2 ^ 1022 \<le> \<bar>x\<bar> * 2 ^ 1022"
    using assms by (rule mult_right_mono) simp
  then have one: "1 \<le> \<bar>x\<bar> * 2 ^ 1022"
    by (simp add: power_int_minus)
  then have "real_of_int 1 \<le> \<bar>x\<bar> * 2 ^ 1022"
    by simp
  then have "1 \<le> n"
    unfolding n_def by (simp only: le_floor_iff)
  then have pos: "0 < n"
    by simp
  from bitlen_bounds[OF pos]
  have lo: "2 ^ nat (bitlen n - 1) \<le> n" and hi: "n < 2 ^ nat (bitlen n)"
    by simp_all
  have b1: "1 \<le> bitlen n"
    using pos by (simp add: bitlen_alt_def)
  define m where "m = nat (bitlen n - 1)"
  have bm: "bitlen n = int m + 1"
    using b1 by (simp add: m_def)
  have sm: "nat (bitlen n) = Suc m"
    using b1 by (simp add: m_def)
  have be: "binadeExponent x = int m - 1022"
    unfolding binadeExponent_def n_def[symmetric] bm by simp
  have p1: "(2::real) powi (int m - 1022) = 2 ^ m / 2 ^ 1022"
    by (simp add: power_int_diff)
  have p2: "(2::real) powi (int m - 1022 + 1) = 2 ^ Suc m / 2 ^ 1022"
    by (simp add: power_int_diff power_int_add)
  have "real_of_int (2 ^ m) \<le> real_of_int n"
    using lo unfolding m_def by (simp only: of_int_le_iff)
  also have "\<dots> \<le> \<bar>x\<bar> * 2 ^ 1022"
    unfolding n_def by (rule of_int_floor_le)
  finally have "2 ^ m \<le> \<bar>x\<bar> * 2 ^ 1022"
    by simp
  then have "2 ^ m / 2 ^ 1022 \<le> \<bar>x\<bar>"
    by (simp add: pos_divide_le_eq)
  then show "2 powi binadeExponent x \<le> \<bar>x\<bar>"
    unfolding be p1 .
  have "n < 2 ^ Suc m"
    using hi unfolding sm .
  then have "\<bar>x\<bar> * 2 ^ 1022 < real_of_int (2 ^ Suc m)"
    unfolding n_def by (simp only: floor_less_iff)
  then have "\<bar>x\<bar> * 2 ^ 1022 < 2 ^ Suc m"
    by simp
  then have "\<bar>x\<bar> < 2 ^ Suc m / 2 ^ 1022"
    by (simp add: pos_less_divide_eq)
  then show "\<bar>x\<bar> < 2 powi (binadeExponent x + 1)"
    unfolding be p2 .
qed

lemma round64_halve:
  assumes rx: "round64 x = x" and normal: "2 powi (- 1021) \<le> \<bar>x\<bar>"
  shows "round64 (x / 2) = x / 2"
proof -
  define e where "e = binadeExponent x"
  define k where "k = roundTiesToEven (x / 2 powi (e - 52))"
  have "(2::real) powi (- 1022) \<le> 2 powi (- 1021)"
    by (rule power_int_increasing) simp_all
  then have n2: "2 powi (- 1022) \<le> \<bar>x\<bar>"
    using normal by linarith
  have lo: "2 powi e \<le> \<bar>x\<bar>" and hi: "\<bar>x\<bar> < 2 powi (e + 1)"
    using binade_bounds[OF n2] by (simp_all add: e_def)
  have "(2::real) powi (- 1021) < 2 powi (e + 1)"
    using normal hi by linarith
  have "- 1021 < e + 1"
  proof (rule ccontr)
    assume "\<not> - 1021 < e + 1"
    then have "e + 1 \<le> - 1021" by simp
    then have "(2::real) powi (e + 1) \<le> 2 powi (- 1021)"
      by (rule power_int_increasing) simp
    with \<open>(2::real) powi (- 1021) < 2 powi (e + 1)\<close> show False by linarith
  qed
  then have e1: "- 1022 \<le> e - 1" and e0: "- 1022 \<le> e"
    by simp_all
  have x: "x = of_int k * 2 powi (e - 52)"
    using round64_eval[OF lo hi e0] rx by (simp add: k_def)
  have h: "(2::real) powi (e - 1) = 2 powi e / 2"
    by (simp add: power_int_diff)
  have lo': "2 powi (e - 1) \<le> \<bar>x / 2\<bar>"
    using lo by (simp add: h)
  have hi': "\<bar>x / 2\<bar> < 2 powi (e - 1 + 1)"
    using hi by (simp add: power_int_add)
  have s: "(2::real) powi (e - 1 - 52) = 2 powi (e - 52) / 2"
    by (simp add: power_int_diff)
  have pos: "0 < (2::real) powi (e - 52)"
    by (simp add: zero_less_power_int)
  have "x / 2 / (2 powi (e - 52) / 2) = x / 2 powi (e - 52)"
    by simp
  also have "\<dots> = of_int k"
    using pos by (subst x) simp
  finally have q: "x / 2 / (2 powi (e - 52) / 2) = of_int k" .
  have "round64 (x / 2) = of_int k * (2 powi (e - 52) / 2)"
    unfolding round64_eval[OF lo' hi' e1] s q roundTiesToEven_of_int ..
  also have "\<dots> = x / 2"
    by (subst x) simp
  finally show ?thesis .
qed

section \<open>The spring animator in binary64\<close>

subsection \<open>A state that never settles\<close>

lemma fixed_point_tick:
  "updateSpringAnimation64 \<lparr>value_f = 2 ^ 47 + 1/16, target = 2 ^ 47, velocity = - 5/8\<rparr>
      (4803839602528529 / 288230376151711744)
   = (\<lparr>value_f = 2 ^ 47 + 1/16, target = 2 ^ 47, velocity = - 5/8\<rparr>, True)"
proof -
  have d: "round64 (- (1 / 16)) = - (1 / 16)"
    using round64_eval[of "-4" "- 1/16"] by (simp add: roundTiesToEven_def)
  have sf: "round64 (- (25 / 2)) = - (25 / 2)"
    using round64_eval[of 3 "- 25/2"] by (simp add: roundTiesToEven_def)
  have df: "round64 (25 / 2) = 25 / 2"
    using round64_eval[of 3 "25/2"] by (simp add: roundTiesToEven_def)
  have v: "round64 (- (5 / 8)) = - (5 / 8)"
    using round64_eval[of "-1" "- 5/8"] by (simp add: roundTiesToEven_def)
  have vdt: "round64 (- (24019198012642645 / 2305843009213693952))
      = - (6004799503160661 / 576460752303423488)"
    using round64_eval[of "-7" "- 24019198012642645 / 2305843009213693952"]
    by (simp add: roundTiesToEven_def)
  have x: "round64 (81129638414606711719786520947371 / 576460752303423488)
      = 2251799813685249 / 16"
    using round64_eval[of 47 "81129638414606711719786520947371 / 576460752303423488"]
    by (simp add: roundTiesToEven_def)
  show ?thesis
    by (simp add: updateSpringAnimation64_def spring_consts round64_zero round64_hundredth Let_def
        d sf df v vdt x)
qed

lemma stuck_forever:
  assumes "updateSpringAnimation64 s dt = (s, True)"
  shows "animate64 n dt s = None"
  by (induction n) (simp_all add: assms)

text \<open>
  Claim C7, as stated, fails on the binary64 numbers of the program. Take the target
  \<open>2 ^ 47\<close>, the value \<open>2 ^ 47 + 1/16\<close> and the velocity \<open>- 5/8\<close>, all binary64 values, and
  the frame time \<open>1/60\<close> as the program has it, \<open>round64 (1/60)\<close>. The displacement is
  \<open>- 1/16\<close>, so the state is not settled; the spring force \<open>- 25/2\<close> and the damping force
  \<open>25/2\<close> cancel, so the velocity stays; and the step \<open>velocity * dt\<close> of about \<open>- 1/96\<close> is
  less than half the spacing \<open>1/32\<close> of the binary64 values around \<open>2 ^ 47\<close>, so the value
  stays. The tick returns the state it was given and reports activity, and no number of
  ticks settles it.
\<close>

theorem spring_binary64_stuck_counterexample:
  "round64 (1/60) = 4803839602528529 / 288230376151711744
   \<and> updateSpringAnimation64 \<lparr>value_f = 2 ^ 47 + 1/16, target = 2 ^ 47, velocity = - 5/8\<rparr>
        (4803839602528529 / 288230376151711744)
     = (\<lparr>value_f = 2 ^ 47 + 1/16, target = 2 ^ 47, velocity = - 5/8\<rparr>, True)
   \<and> (\<forall>n. animate64 n (4803839602528529 / 288230376151711744)
        \<lparr>value_f = 2 ^ 47 + 1/16, target = 2 ^ 47, velocity = - 5/8\<rparr> = None)"
  by (intro conjI allI, rule round64_sixtieth, rule fixed_point_tick,
      rule stuck_forever[OF fixed_point_tick])

subsection \<open>Convergence for moderate magnitudes\<close>

text \<open>
  In terms of the distance and the velocity, an exact active tick multiplies \<open>springForm\<close>
  by \<open>1 - 20 * dt\<close>. A binary64 tick differs from the exact one by at most \<open>11 / 2 ^ 22\<close> in
  the velocity and \<open>3 / 2 ^ 22\<close> in the distance while the magnitudes stay below 3200000,
  which the form guarantees once it is at most \<open>10 ^ 11\<close>. So for \<open>1/240 \<le> dt \<le> 1/25\<close> an
  active binary64 tick takes the form \<open>W\<close> to at most \<open>(77/80) * W + 54201 / 2 ^ 44\<close>, the
  form falls below \<open>8 / 10 ^ 7\<close> after finitely many ticks, and there the state is settled.
\<close>

lemma springEnergy_form:
  "springEnergy dt s = springForm dt (value_f s - target s) (velocity s)"
  by (simp add: springEnergy_def springForm_def)

lemma springForm_lower:
  assumes "0 < dt" and "dt \<le> 1/25"
  shows "(e\<^sup>2 + v\<^sup>2) / 100 \<le> springForm dt e v"
  unfolding springForm_def by (rule energy_lower[OF assms])

lemma springForm_nonneg:
  assumes "0 < dt" and "dt \<le> 1/25"
  shows "0 \<le> springForm dt e v"
proof -
  have "0 \<le> (e\<^sup>2 + v\<^sup>2) / 100"
    by simp
  with springForm_lower[OF assms, of e v] show ?thesis
    by linarith
qed

lemma springForm_step:
  "springForm dt (e + dt * (v + (- 200 * e - 20 * v) * dt)) (v + (- 200 * e - 20 * v) * dt)
     = (1 - 20 * dt) * springForm dt e v"
  by (simp add: springForm_def power2_eq_square algebra_simps)

lemma springForm_scale:
  "springForm dt (k * e) (k * v) = k\<^sup>2 * springForm dt e v"
  by (simp add: springForm_def power2_eq_square algebra_simps)

lemma springForm_perturb_eq:
  "springForm dt (20 * c1 + b1) (20 * c2 + b2) + 20 * springForm dt (c1 - b1) (c2 - b2)
     = 420 * springForm dt c1 c2 + 21 * springForm dt b1 b2"
  by (simp add: springForm_def power2_eq_square algebra_simps)

lemma springForm_perturb:
  assumes "0 < dt" and "dt \<le> 1/25"
  shows "springForm dt (a1 + b1) (a2 + b2)
     \<le> (21/20) * springForm dt a1 a2 + 21 * springForm dt b1 b2"
proof -
  have "springForm dt a1 a2 = 400 * springForm dt (a1 / 20) (a2 / 20)"
    using springForm_scale[of dt 20 "a1 / 20" "a2 / 20"] by simp
  moreover have "springForm dt (a1 + b1) (a2 + b2)
       + 20 * springForm dt (a1 / 20 - b1) (a2 / 20 - b2)
     = 420 * springForm dt (a1 / 20) (a2 / 20) + 21 * springForm dt b1 b2"
    using springForm_perturb_eq[of dt "a1 / 20" b1 "a2 / 20" b2] by simp
  ultimately show ?thesis
    using springForm_nonneg[OF assms, of "a1 / 20 - b1" "a2 / 20 - b2"] by linarith
qed

lemma abs_mult_step:
  fixes p dt P :: real
  assumes "\<bar>p\<bar> \<le> P" and "0 \<le> dt" and "dt \<le> 1/25"
  shows "\<bar>p * dt\<bar> \<le> P / 25"
proof -
  have "\<bar>p * dt\<bar> = \<bar>p\<bar> * dt"
    using assms(2) by (simp add: abs_mult)
  also have "\<dots> \<le> P * (1/25)"
    using assms by (intro mult_mono) auto
  finally show ?thesis by simp
qed

lemma tick64_arith:
  fixes x t v dt :: real
  assumes e: "\<bar>x - t\<bar> \<le> 3200000" and v: "\<bar>v\<bar> \<le> 3200000" and t: "\<bar>t\<bar> \<le> 10000"
    and dt0: "0 \<le> dt" and dt1: "dt \<le> 1/25"
  defines "d \<equiv> round64 (t - x)"
  defines "sf \<equiv> round64 (200 * d)"
  defines "df \<equiv> round64 (- 20 * v)"
  defines "f \<equiv> round64 (sf + df)"
  defines "a \<equiv> round64 (f / 1)"
  defines "adt \<equiv> round64 (a * dt)"
  defines "v' \<equiv> round64 (v + adt)"
  defines "vdt \<equiv> round64 (v' * dt)"
  defines "x' \<equiv> round64 (x + vdt)"
  defines "v1 \<equiv> v + (- 200 * (x - t) - 20 * v) * dt"
  shows "\<bar>v' - v1\<bar> \<le> 11 / 2 ^ 22"
    and "\<bar>(x' - t) - ((x - t) + dt * v1)\<bar> \<le> 3 / 2 ^ 22"
proof -
  let ?\<delta> = "1 / (2::real) ^ 22"
  have \<delta>1: "?\<delta> \<le> 1" by simp
  have y1: "\<bar>t - x\<bar> \<le> 2 ^ 30"
    using e by (simp add: abs_minus_commute)
  have e1: "\<bar>d - (t - x)\<bar> \<le> ?\<delta>"
    unfolding d_def by (rule round64_near[OF y1])
  have d_b: "\<bar>d\<bar> \<le> 3200001"
    using e1 e \<delta>1 by linarith
  have y2: "\<bar>200 * d\<bar> \<le> 2 ^ 30"
    using d_b by simp
  have e2: "\<bar>sf - 200 * d\<bar> \<le> ?\<delta>"
    unfolding sf_def by (rule round64_near[OF y2])
  have y3: "\<bar>- 20 * v\<bar> \<le> 2 ^ 30"
    using v by simp
  have e3: "\<bar>df - (- 20 * v)\<bar> \<le> ?\<delta>"
    unfolding df_def by (rule round64_near[OF y3])
  have sf_b: "\<bar>sf\<bar> \<le> 640000201"
    using e2 d_b \<delta>1 by linarith
  have df_b: "\<bar>df\<bar> \<le> 64000001"
    using e3 v \<delta>1 by linarith
  have y4: "\<bar>sf + df\<bar> \<le> 2 ^ 30"
    using sf_b df_b by simp
  have e4: "\<bar>f - (sf + df)\<bar> \<le> ?\<delta>"
    unfolding f_def by (rule round64_near[OF y4])
  have f_b: "\<bar>f\<bar> \<le> 704000203"
    using e4 sf_b df_b \<delta>1 by linarith
  have y5: "\<bar>f / 1\<bar> \<le> 2 ^ 30"
    using f_b by simp
  have e5: "\<bar>a - f\<bar> \<le> ?\<delta>"
    using round64_near[OF y5] by (simp add: a_def)
  have a_b: "\<bar>a\<bar> \<le> 704000204"
    using e5 f_b \<delta>1 by linarith
  have adt_b0: "\<bar>a * dt\<bar> \<le> 704000204 / 25"
    by (rule abs_mult_step[OF a_b dt0 dt1])
  then have y6: "\<bar>a * dt\<bar> \<le> 2 ^ 30"
    by simp
  have e6: "\<bar>adt - a * dt\<bar> \<le> ?\<delta>"
    unfolding adt_def by (rule round64_near[OF y6])
  have adt_b: "\<bar>adt\<bar> \<le> 28160010"
    using e6 adt_b0 \<delta>1 by linarith
  have y7: "\<bar>v + adt\<bar> \<le> 2 ^ 30"
    using v adt_b by simp
  have e7: "\<bar>v' - (v + adt)\<bar> \<le> ?\<delta>"
    unfolding v'_def by (rule round64_near[OF y7])
  have v'_b: "\<bar>v'\<bar> \<le> 31360011"
    using e7 v adt_b \<delta>1 by linarith
  have vdt_b0: "\<bar>v' * dt\<bar> \<le> 31360011 / 25"
    by (rule abs_mult_step[OF v'_b dt0 dt1])
  then have y8: "\<bar>v' * dt\<bar> \<le> 2 ^ 30"
    by simp
  have e8: "\<bar>vdt - v' * dt\<bar> \<le> ?\<delta>"
    unfolding vdt_def by (rule round64_near[OF y8])
  have vdt_b: "\<bar>vdt\<bar> \<le> 1254402"
    using e8 vdt_b0 \<delta>1 by linarith
  have x_b: "\<bar>x\<bar> \<le> 3210000"
    using e t by linarith
  have y9: "\<bar>x + vdt\<bar> \<le> 2 ^ 30"
    using x_b vdt_b by simp
  have e9: "\<bar>x' - (x + vdt)\<bar> \<le> ?\<delta>"
    unfolding x'_def by (rule round64_near[OF y9])
  define a1 where "a1 = - 200 * (x - t) - 20 * v"
  define \<delta> :: real where "\<delta> = 1 / 2 ^ 22"
  note errs = e1 e2 e3 e4 e5 e6 e7 e8 e9
  note two_sided = errs[THEN abs_le_D1, folded \<delta>_def] errs[THEN abs_le_D2, folded \<delta>_def]
  have a_err: "\<bar>a - a1\<bar> \<le> 204 * \<delta>"
    unfolding a1_def by (rule abs_leI) (use two_sided in \<open>smt (verit)\<close>)+
  have \<delta>0: "0 \<le> \<delta>"
    by (simp add: \<delta>_def)
  define p6 where "p6 = (a - a1) * dt"
  define r6 where "r6 = adt - a * dt"
  define r7 where "r7 = v' - (v + adt)"
  have "\<bar>p6\<bar> \<le> 204 * \<delta> / 25"
    unfolding p6_def by (rule abs_mult_step[OF a_err dt0 dt1])
  then have s6: "p6 \<le> 204 * \<delta> / 25" "- p6 \<le> 204 * \<delta> / 25"
    by (simp_all add: abs_le_iff)
  have r6: "r6 \<le> \<delta>" "- r6 \<le> \<delta>" and r7: "r7 \<le> \<delta>" "- r7 \<le> \<delta>"
    using two_sided by (simp_all add: r6_def r7_def)
  have v_split: "v' - v1 = p6 + r6 + r7"
    by (simp add: v1_def a1_def p6_def r6_def r7_def algebra_simps)
  have "\<bar>v' - v1\<bar> \<le> 11 * \<delta>"
    unfolding v_split by (rule abs_leI) (use s6 r6 r7 \<delta>0 in linarith)+
  then show v_err: "\<bar>v' - v1\<bar> \<le> 11 / 2 ^ 22"
    by (simp add: \<delta>_def)
  define p8 where "p8 = (v' - v1) * dt"
  define r8 where "r8 = vdt - v' * dt"
  define r9 where "r9 = x' - (x + vdt)"
  have "\<bar>p8\<bar> \<le> (11 / 2 ^ 22) / 25"
    unfolding p8_def by (rule abs_mult_step[OF v_err dt0 dt1])
  then have s8: "p8 \<le> 11 * \<delta> / 25" "- p8 \<le> 11 * \<delta> / 25"
    by (simp_all add: abs_le_iff \<delta>_def)
  have r8: "r8 \<le> \<delta>" "- r8 \<le> \<delta>" and r9: "r9 \<le> \<delta>" "- r9 \<le> \<delta>"
    using two_sided by (simp_all add: r8_def r9_def)
  have x_split: "(x' - t) - ((x - t) + dt * v1) = p8 + r8 + r9"
    by (simp add: p8_def r8_def r9_def algebra_simps)
  have "\<bar>(x' - t) - ((x - t) + dt * v1)\<bar> \<le> 3 * \<delta>"
    unfolding x_split by (rule abs_leI) (use s8 r8 r9 \<delta>0 in linarith)+
  then show "\<bar>(x' - t) - ((x - t) + dt * v1)\<bar> \<le> 3 / 2 ^ 22"
    by (simp add: \<delta>_def)
qed

lemma springForm_small:
  fixes dt be bv :: real
  assumes "0 < dt" and "dt \<le> 1/25"
    and be: "\<bar>be\<bar> \<le> 3 / 2 ^ 22" and bv: "\<bar>bv\<bar> \<le> 11 / 2 ^ 22"
  shows "springForm dt be bv \<le> 2581 / 2 ^ 44"
proof -
  have "\<bar>be\<bar>\<^sup>2 \<le> (3 / 2 ^ 22)\<^sup>2"
    using be by (intro power_mono) simp_all
  then have sq_e: "be\<^sup>2 \<le> 9 / 2 ^ 44"
    by (simp add: power2_eq_square)
  have "\<bar>bv\<bar>\<^sup>2 \<le> (11 / 2 ^ 22)\<^sup>2"
    using bv by (intro power_mono) simp_all
  then have sq_v: "bv\<^sup>2 \<le> 121 / 2 ^ 44"
    by (simp add: power2_eq_square)
  have "\<bar>be * bv\<bar> = \<bar>be\<bar> * \<bar>bv\<bar>"
    by (simp add: abs_mult)
  also have "\<dots> \<le> (3 / 2 ^ 22) * (11 / 2 ^ 22)"
    using be bv by (intro mult_mono) simp_all
  finally have prod: "\<bar>be * bv\<bar> \<le> 33 / 2 ^ 44"
    by simp
  define c where "c = 20 - 200 * dt"
  define p where "p = be * bv"
  have c: "0 \<le> c" "c \<le> 20"
    using assms(1,2) by (simp_all add: c_def)
  have "c * p \<le> c * \<bar>p\<bar>"
    using c(1) by (intro mult_left_mono) simp_all
  also have "\<dots> \<le> 20 * (33 / 2 ^ 44)"
    using c prod by (intro mult_mono) (simp_all add: p_def)
  finally have cross: "c * p \<le> 660 / 2 ^ 44"
    by simp
  define k where "k = 1 - 20 * dt"
  have k: "0 \<le> k" "k \<le> 1"
    using assms(1,2) by (simp_all add: k_def)
  have "k * bv\<^sup>2 \<le> 1 * (121 / 2 ^ 44)"
    using k sq_v by (intro mult_mono) simp_all
  then have last: "k * bv\<^sup>2 \<le> 121 / 2 ^ 44"
    by simp
  have "springForm dt be bv = 200 * be\<^sup>2 + c * p + k * bv\<^sup>2"
    by (simp add: springForm_def c_def p_def k_def algebra_simps)
  then show ?thesis
    using sq_e cross last by linarith
qed

lemma energy_bounds_state:
  assumes "0 < dt" and "dt \<le> 1/25" and "springEnergy dt s \<le> 10 ^ 11"
  shows "\<bar>value_f s - target s\<bar> \<le> 3200000" and "\<bar>velocity s\<bar> \<le> 3200000"
proof -
  define e where "e = value_f s - target s"
  define v where "v = velocity s"
  have "(e\<^sup>2 + v\<^sup>2) / 100 \<le> springEnergy dt s"
    unfolding springEnergy_form e_def v_def by (rule springForm_lower[OF assms(1,2)])
  with assms(3) have sum: "e\<^sup>2 + v\<^sup>2 \<le> 3200000\<^sup>2"
    by simp
  have "e\<^sup>2 \<le> 3200000\<^sup>2"
    using sum zero_le_power2[of v] by linarith
  then have "\<bar>e\<bar>\<^sup>2 \<le> 3200000\<^sup>2"
    by simp
  then have "\<bar>e\<bar> \<le> 3200000"
    by (rule power2_le_imp_le) simp
  then show "\<bar>value_f s - target s\<bar> \<le> 3200000"
    by (simp add: e_def)
  have "v\<^sup>2 \<le> 3200000\<^sup>2"
    using sum zero_le_power2[of e] by linarith
  then have "\<bar>v\<bar>\<^sup>2 \<le> 3200000\<^sup>2"
    by simp
  then have "\<bar>v\<bar> \<le> 3200000"
    by (rule power2_le_imp_le) simp
  then show "\<bar>velocity s\<bar> \<le> 3200000"
    by (simp add: v_def)
qed

lemma tick64_active:
  assumes "snd (updateSpringAnimation64 s dt)"
  shows "updateSpringAnimation64 s dt =
     (s\<lparr>velocity :=
           round64 (velocity s
             + round64 (round64 (round64 (round64 (200 * round64 (target s - value_f s))
                                   + round64 (- 20 * velocity s)) / 1) * dt)),
        value_f :=
           round64 (value_f s
             + round64 (round64 (velocity s
                 + round64 (round64 (round64 (round64 (200 * round64 (target s - value_f s))
                                       + round64 (- 20 * velocity s)) / 1) * dt)) * dt))\<rparr>,
      True)"
  using assms
  by (auto simp add: updateSpringAnimation64_def spring_consts Let_def split: if_splits)

lemma energy64_step:
  assumes t: "\<bar>target s\<bar> \<le> 10000" and W: "springEnergy dt s \<le> 10 ^ 11"
    and dt0: "1/240 \<le> dt" and dt1: "dt \<le> 1/25"
    and act: "snd (updateSpringAnimation64 s dt)"
  shows "springEnergy dt (fst (updateSpringAnimation64 s dt))
           \<le> (77/80) * springEnergy dt s + 54201 / 2 ^ 44"
    and "target (fst (updateSpringAnimation64 s dt)) = target s"
proof -
  have dtp: "0 < dt" "0 \<le> dt"
    using dt0 by simp_all
  define x where "x = value_f s"
  define tg where "tg = target s"
  define v where "v = velocity s"
  define v' where "v' = round64 (v
             + round64 (round64 (round64 (round64 (200 * round64 (tg - x))
                                   + round64 (- 20 * v)) / 1) * dt))"
  define x' where "x' = round64 (x + round64 (v' * dt))"
  define v1 where "v1 = v + (- 200 * (x - tg) - 20 * v) * dt"
  define e1 where "e1 = (x - tg) + dt * v1"
  have st: "updateSpringAnimation64 s dt = (s\<lparr>velocity := v', value_f := x'\<rparr>, True)"
    using tick64_active[OF act] by (simp add: v'_def x'_def x_def tg_def v_def)
  show "target (fst (updateSpringAnimation64 s dt)) = target s"
    by (simp add: st)
  have eb: "\<bar>x - tg\<bar> \<le> 3200000" and vb: "\<bar>v\<bar> \<le> 3200000"
    using energy_bounds_state[OF dtp(1) dt1 W] by (simp_all add: x_def tg_def v_def)
  have tb: "\<bar>tg\<bar> \<le> 10000"
    using t by (simp add: tg_def)
  have bv: "\<bar>v' - v1\<bar> \<le> 11 / 2 ^ 22"
    unfolding v'_def v1_def by (rule tick64_arith(1)[OF eb vb tb dtp(2) dt1])
  have be: "\<bar>(x' - tg) - e1\<bar> \<le> 3 / 2 ^ 22"
    unfolding x'_def v'_def e1_def v1_def by (rule tick64_arith(2)[OF eb vb tb dtp(2) dt1])
  have W0: "0 \<le> springEnergy dt s"
    unfolding springEnergy_form by (rule springForm_nonneg[OF dtp(1) dt1])
  have "springEnergy dt (fst (updateSpringAnimation64 s dt)) = springForm dt (x' - tg) v'"
    by (simp add: st springEnergy_form tg_def)
  also have "\<dots> = springForm dt (e1 + ((x' - tg) - e1)) (v1 + (v' - v1))"
    by simp
  also have "\<dots> \<le> (21/20) * springForm dt e1 v1 + 21 * springForm dt ((x' - tg) - e1) (v' - v1)"
    by (rule springForm_perturb[OF dtp(1) dt1])
  also have "springForm dt e1 v1 = (1 - 20 * dt) * springEnergy dt s"
    unfolding e1_def v1_def springEnergy_form
    using springForm_step[of dt "x - tg" v] by (simp add: x_def tg_def v_def)
  finally have step: "springEnergy dt (fst (updateSpringAnimation64 s dt))
      \<le> (21/20) * ((1 - 20 * dt) * springEnergy dt s)
        + 21 * springForm dt ((x' - tg) - e1) (v' - v1)" .
  have small: "springForm dt ((x' - tg) - e1) (v' - v1) \<le> 2581 / 2 ^ 44"
    by (rule springForm_small[OF dtp(1) dt1 be bv])
  have "(1 - 20 * dt) * springEnergy dt s \<le> (11/12) * springEnergy dt s"
    using dt0 W0 by (intro mult_right_mono) simp_all
  with step small show "springEnergy dt (fst (updateSpringAnimation64 s dt))
           \<le> (77/80) * springEnergy dt s + 54201 / 2 ^ 44"
    by linarith
qed

lemma tick64_settled:
  assumes "\<not> snd (updateSpringAnimation64 s dt)"
  shows "updateSpringAnimation64 s dt = (s\<lparr>value_f := target s, velocity := 0\<rparr>, False)"
  using assms
  by (auto simp add: updateSpringAnimation64_def Let_def split: if_splits)

lemma settle64:
  assumes "0 < dt" and "dt \<le> 1/25" and "springEnergy dt s < 8 / 10 ^ 7"
  shows "updateSpringAnimation64 s dt = (s\<lparr>value_f := target s, velocity := 0\<rparr>, False)"
proof -
  define e where "e = value_f s - target s"
  define v where "v = velocity s"
  have "(e\<^sup>2 + v\<^sup>2) / 100 \<le> springEnergy dt s"
    unfolding springEnergy_form e_def v_def by (rule springForm_lower[OF assms(1,2)])
  with assms(3) have sum: "e\<^sup>2 + v\<^sup>2 < (9/1000)\<^sup>2"
    by (simp add: power2_eq_square)
  have "e\<^sup>2 < (9/1000)\<^sup>2"
    using sum zero_le_power2[of v] by linarith
  then have "\<bar>e\<bar>\<^sup>2 < (9/1000)\<^sup>2"
    by simp
  then have e_small: "\<bar>e\<bar> < 9/1000"
    by (rule power2_less_imp_less) simp
  have "v\<^sup>2 < (9/1000)\<^sup>2"
    using sum zero_le_power2[of e] by linarith
  then have "\<bar>v\<bar>\<^sup>2 < (9/1000)\<^sup>2"
    by simp
  then have v_small: "\<bar>v\<bar> < 9/1000"
    by (rule power2_less_imp_less) simp
  have te: "target s - value_f s = - e"
    by (simp add: e_def)
  have "\<bar>target s - value_f s\<bar> \<le> 2 ^ 30"
    using e_small unfolding te by simp
  from round64_near[OF this]
  have "\<bar>round64 (target s - value_f s) - (target s - value_f s)\<bar> \<le> 1 / 2 ^ 22" .
  moreover have "(1::real) / 2 ^ 22 \<le> 5/10000"
    by simp
  ultimately have d_small: "\<bar>round64 (target s - value_f s)\<bar> < 95/10000"
    using e_small unfolding te by linarith
  have prec: "round64 SPRING_PRECISION = 5764607523034235 / 576460752303423488"
    using round64_hundredth by (simp add: SPRING_PRECISION_def)
  have "\<bar>round64 (target s - value_f s)\<bar> < round64 SPRING_PRECISION"
    using d_small unfolding prec by simp
  moreover have "\<bar>velocity s\<bar> < round64 SPRING_PRECISION"
    using v_small unfolding prec v_def by simp
  ultimately show ?thesis
    by (simp add: updateSpringAnimation64_def Let_def)
qed

lemma active64_energy:
  assumes "0 < dt" and "dt \<le> 1/25" and "snd (updateSpringAnimation64 s dt)"
  shows "8 / 10 ^ 7 \<le> springEnergy dt s"
proof (rule ccontr)
  assume "\<not> 8 / 10 ^ 7 \<le> springEnergy dt s"
  then have "springEnergy dt s < 8 / 10 ^ 7" by simp
  from settle64[OF assms(1,2) this] assms(3) show False by simp
qed

lemma animate64_None_energy:
  assumes dt0: "1/240 \<le> dt" and dt1: "dt \<le> 1/25"
    and C: "C = 1445360 / 2 ^ 44" and T: "T = 8 / 10 ^ 7"
  shows "\<bar>target s\<bar> \<le> 10000 \<Longrightarrow> springEnergy dt s \<le> 10 ^ 11
    \<Longrightarrow> animate64 (Suc n) dt s = None
    \<Longrightarrow> T - C \<le> (77/80) ^ n * (springEnergy dt s - C)"
proof (induction n arbitrary: s)
  case 0
  then have "snd (updateSpringAnimation64 s dt)"
    by (simp split: prod.splits if_splits)
  from active64_energy[OF _ dt1 this] dt0 show ?case by (simp add: T)
next
  case (Suc n)
  have dtp: "0 < dt" using dt0 by simp
  from Suc.prems(3) have act: "snd (updateSpringAnimation64 s dt)"
    by (simp split: prod.splits if_splits)
  define s' where "s' = fst (updateSpringAnimation64 s dt)"
  from Suc.prems(3) act have rest: "animate64 (Suc n) dt s' = None"
    by (simp add: s'_def split: prod.splits if_splits)
  note step = energy64_step[OF Suc.prems(1,2) dt0 dt1 act, folded s'_def]
  have t': "\<bar>target s'\<bar> \<le> 10000"
    using step(2) Suc.prems(1) by simp
  have W': "springEnergy dt s' \<le> 10 ^ 11"
    using step(1) Suc.prems(2) by simp
  define q :: real where "q = (77/80) ^ n"
  define D where "D = springEnergy dt s - C"
  define D' where "D' = springEnergy dt s' - C"
  have q0: "0 \<le> q" by (simp add: q_def)
  have ih: "T - C \<le> q * D'"
    using Suc.IH[OF t' W' rest] by (simp add: q_def D'_def)
  have "D' \<le> (77/80) * D"
    using step(1) by (simp add: D_def D'_def C)
  then have "q * D' \<le> q * ((77/80) * D)"
    using q0 by (rule mult_left_mono)
  with ih have "T - C \<le> q * ((77/80) * D)"
    by linarith
  moreover have "(77/80) ^ Suc n * (springEnergy dt s - C) = q * ((77/80) * D)"
    by (simp add: q_def D_def)
  ultimately show ?case
    by (simp only:)
qed

lemma animate64_Some:
  "animate64 n dt s = Some s' \<Longrightarrow> s' = s\<lparr>value_f := target s, velocity := 0\<rparr>"
proof (induction n arbitrary: s)
  case 0
  then show ?case by simp
next
  case (Suc n)
  show ?case
  proof (cases "snd (updateSpringAnimation64 s dt)")
    case False
    from tick64_settled[OF False] Suc.prems show ?thesis by simp
  next
    case True
    note st = tick64_active[OF True]
    from Suc.prems have "animate64 n dt (fst (updateSpringAnimation64 s dt)) = Some s'"
      using True by (simp split: prod.splits)
    from Suc.IH[OF this] show ?thesis
      by (simp add: st)
  qed
qed

lemma springForm_upper:
  fixes dt e v :: real
  assumes "0 < dt" and "dt \<le> 1/25" and e: "\<bar>e\<bar> \<le> 20000" and v: "\<bar>v\<bar> \<le> 10000"
  shows "springForm dt e v \<le> 10 ^ 11"
proof -
  have "\<bar>e\<bar>\<^sup>2 \<le> 20000\<^sup>2"
    using e by (intro power_mono) simp_all
  then have sq_e: "e\<^sup>2 \<le> 400000000"
    by simp
  have "\<bar>v\<bar>\<^sup>2 \<le> 10000\<^sup>2"
    using v by (intro power_mono) simp_all
  then have sq_v: "v\<^sup>2 \<le> 100000000"
    by simp
  have "\<bar>e * v\<bar> = \<bar>e\<bar> * \<bar>v\<bar>"
    by (simp add: abs_mult)
  also have "\<dots> \<le> 20000 * 10000"
    using e v by (intro mult_mono) simp_all
  finally have prod: "\<bar>e * v\<bar> \<le> 200000000"
    by simp
  define c where "c = 20 - 200 * dt"
  define p where "p = e * v"
  have c: "0 \<le> c" "c \<le> 20"
    using assms(1,2) by (simp_all add: c_def)
  have "c * p \<le> c * \<bar>p\<bar>"
    using c(1) by (intro mult_left_mono) simp_all
  also have "\<dots> \<le> 20 * 200000000"
    using c prod by (intro mult_mono) (simp_all add: p_def)
  finally have cross: "c * p \<le> 4000000000"
    by simp
  define k where "k = 1 - 20 * dt"
  have k: "0 \<le> k" "k \<le> 1"
    using assms(1,2) by (simp_all add: k_def)
  have "k * v\<^sup>2 \<le> 1 * 100000000"
    using k sq_v by (intro mult_mono) simp_all
  then have last: "k * v\<^sup>2 \<le> 100000000"
    by simp
  have "springForm dt e v = 200 * e\<^sup>2 + c * p + k * v\<^sup>2"
    by (simp add: springForm_def c_def p_def k_def algebra_simps)
  moreover have "(10::real) ^ 11 = 100000000000"
    by simp
  ultimately show ?thesis
    using sq_e cross last by linarith
qed

text \<open>
  Claim C7, amended. On the binary64 numbers of the program the spring animator
  converges when the magnitudes are moderate: for every state whose target, value and
  velocity are at most 10000 in magnitude and every fixed time step \<open>dt\<close> with
  \<open>1/240 \<le> dt \<le> 1/25\<close>, which covers the frame time \<open>round64 (1/60)\<close>, ticking the state
  while the update reports activity ends after finitely many ticks: with enough fuel
  \<open>animate64\<close> returns, and it returns the state snapped to its target with velocity zero.
  The percents, sizes and opacities that the component animates are far below 10000.
\<close>

theorem spring_converges_binary64:
  assumes "\<bar>target s\<bar> \<le> 10000" and "\<bar>value_f s\<bar> \<le> 10000" and "\<bar>velocity s\<bar> \<le> 10000"
    and "1/240 \<le> dt" and "dt \<le> 1/25"
  shows "\<exists>n. animate64 n dt s = Some (s\<lparr>value_f := target s, velocity := 0\<rparr>)"
proof -
  have dtp: "0 < dt"
    using assms(4) by simp
  have "\<bar>value_f s - target s\<bar> \<le> 20000"
    using assms(1,2) by linarith
  then have W: "springEnergy dt s \<le> 10 ^ 11"
    unfolding springEnergy_form by (rule springForm_upper[OF dtp assms(5) _ assms(3)])
  define C :: real where "C = 1445360 / 2 ^ 44"
  define T :: real where "T = 8 / 10 ^ 7"
  have gap: "0 < T - C"
    by (simp add: T_def C_def)
  then have "0 < (T - C) / 10 ^ 11"
    by simp
  from real_arch_pow_inv[OF this, of "77/80"] obtain n
    where n: "(77/80) ^ n < (T - C) / 10 ^ 11"
    by auto
  define q :: real where "q = (77/80) ^ n"
  have q0: "0 \<le> q" by (simp add: q_def)
  have "q * 10 ^ 11 < T - C"
    using n by (simp add: q_def pos_less_divide_eq)
  moreover have "q * (springEnergy dt s - C) \<le> q * 10 ^ 11"
    using q0 W by (intro mult_left_mono) (simp_all add: C_def)
  ultimately have small: "q * (springEnergy dt s - C) < T - C"
    by linarith
  have "animate64 (Suc n) dt s \<noteq> None"
  proof
    assume "animate64 (Suc n) dt s = None"
    from animate64_None_energy[OF assms(4,5) C_def T_def assms(1) W this] small
    show False
      by (simp add: q_def)
  qed
  then obtain s' where "animate64 (Suc n) dt s = Some s'"
    by blast
  with animate64_Some[OF this] show ?thesis
    by blast
qed

theorem spring_converges_binary64_witness:
  "\<bar>target \<lparr>value_f = 0, target = 100, velocity = 0\<rparr>\<bar> \<le> (10000::real)
   \<and> \<bar>value_f \<lparr>value_f = 0, target = 100, velocity = 0\<rparr>\<bar> \<le> (10000::real)
   \<and> \<bar>velocity \<lparr>value_f = 0, target = 100, velocity = 0\<rparr>\<bar> \<le> (10000::real)
   \<and> (1/240::real) \<le> 4803839602528529 / 288230376151711744
   \<and> (4803839602528529 / 288230376151711744 :: real) \<le> 1/25
   \<and> round64 (1/60) = 4803839602528529 / 288230376151711744
   \<and> (\<exists>n. animate64 n (4803839602528529 / 288230376151711744)
              \<lparr>value_f = 0, target = 100, velocity = 0\<rparr>
            = Some \<lparr>value_f = 100, target = 100, velocity = 0\<rparr>)"
  using spring_converges_binary64[of "\<lparr>value_f = 0, target = 100, velocity = 0\<rparr>"
      "4803839602528529 / 288230376151711744"]
  by (simp add: round64_sixtieth)

section \<open>Layout in binary64\<close>

text \<open>
  At 50 percent the interpolation rounds six times, each time by at most \<open>2 powi (-53)\<close> of
  a magnitude bounded by the two extents, and in exact arithmetic it gives half the extent
  of the container. So its binary64 result is within
  \<open>(\<bar>extent\<bar> + \<bar>container\<bar> + 1) / 2 ^ 48\<close> of that half.
\<close>

lemma interpolate64_mid:
  fixes ext W :: real
  defines "lo \<equiv> round64 (ext / 2)"
  defines "hi \<equiv> round64 (W - lo)"
  shows "\<bar>round64 (lo + round64 (round64 (hi - lo) * round64 (50 / 100))) - W / 2\<bar>
           \<le> (\<bar>ext\<bar> + \<bar>W\<bar> + 1) / 2 ^ 48"
proof -
  define S where "S = \<bar>ext\<bar> + \<bar>W\<bar> + 1"
  define u where "u = 9 * S / 2 ^ 53"
  have S1: "1 \<le> S" and Se: "\<bar>ext\<bar> \<le> S" and SW: "\<bar>W\<bar> \<le> S"
    by (simp_all add: S_def)
  have u0: "0 \<le> u" and uS: "u \<le> S"
    using S1 by (simp_all add: u_def)
  define d where "d = round64 (hi - lo)"
  define m where "m = round64 (d * (1 / 2))"
  define p where "p = round64 (lo + m)"
  have y1: "\<bar>ext / 2\<bar> \<le> 8 * S"
    using Se S1 by simp
  have e1: "\<bar>lo - ext / 2\<bar> \<le> u"
    unfolding lo_def u_def by (rule round64_rel[OF y1 S1])
  have lo_b: "\<bar>lo\<bar> \<le> 2 * S"
    using e1 Se uS S1 by linarith
  have y2: "\<bar>W - lo\<bar> \<le> 8 * S"
    using lo_b SW S1 by linarith
  have e2: "\<bar>hi - (W - lo)\<bar> \<le> u"
    unfolding hi_def u_def by (rule round64_rel[OF y2 S1])
  have hi_b: "\<bar>hi\<bar> \<le> 4 * S"
    using e2 lo_b SW uS by linarith
  have y3: "\<bar>hi - lo\<bar> \<le> 8 * S"
    using hi_b lo_b S1 by linarith
  have e3: "\<bar>d - (hi - lo)\<bar> \<le> u"
    unfolding d_def u_def by (rule round64_rel[OF y3 S1])
  have d_b: "\<bar>d\<bar> \<le> 7 * S"
    using e3 hi_b lo_b uS by linarith
  have y4: "\<bar>d * (1 / 2)\<bar> \<le> 8 * S"
    using d_b S1 by simp
  have e4: "\<bar>m - d * (1 / 2)\<bar> \<le> u"
    unfolding m_def u_def by (rule round64_rel[OF y4 S1])
  have m_b: "\<bar>m\<bar> \<le> 5 * S"
    using e4 d_b uS S1 by linarith
  have y5: "\<bar>lo + m\<bar> \<le> 8 * S"
    using lo_b m_b S1 by linarith
  have e5: "\<bar>p - (lo + m)\<bar> \<le> u"
    unfolding p_def u_def by (rule round64_rel[OF y5 S1])
  define r2 where "r2 = hi - (W - lo)"
  define r3 where "r3 = d - (hi - lo)"
  define r4 where "r4 = m - d * (1 / 2)"
  define r5 where "r5 = p - (lo + m)"
  have split: "p - W / 2 = r5 + r4 + r3 / 2 + r2 / 2"
    by (simp add: r2_def r3_def r4_def r5_def field_simps)
  have rs: "\<bar>r2\<bar> \<le> u" "\<bar>r3\<bar> \<le> u" "\<bar>r4\<bar> \<le> u" "\<bar>r5\<bar> \<le> u"
    using e2 e3 e4 e5 by (simp_all add: r2_def r3_def r4_def r5_def)
  have "\<bar>p - W / 2\<bar> \<le> 3 * u"
    unfolding split using rs u0 by linarith
  also have "3 * u \<le> S / 2 ^ 48"
    using S1 by (simp add: u_def)
  finally have "\<bar>p - W / 2\<bar> \<le> (\<bar>ext\<bar> + \<bar>W\<bar> + 1) / 2 ^ 48"
    by (simp add: S_def)
  moreover have "round64 (lo + round64 (round64 (hi - lo) * round64 (50 / 100))) = p"
    by (simp add: p_def m_def d_def round64_half)
  ultimately show ?thesis
    by simp
qed

lemma interpolate64_half:
  "\<bar>interpolate64 ext W 50 - W / 2\<bar> \<le> (\<bar>ext\<bar> + \<bar>W\<bar> + 1) / 2 ^ 48"
  unfolding interpolate64_def Let_def by (rule interpolate64_mid)

lemma centre64_cases:
  assumes "pos =
     (if p \<le> 0 then round64 (ext / 2)
      else if p \<ge> 100 then round64 (W - round64 (ext / 2))
      else interpolate64 ext W p)"
  shows "(p \<le> 0 \<longrightarrow> pos = round64 (ext / 2))
       \<and> (p \<ge> 100 \<longrightarrow> pos = round64 (W - round64 (ext / 2)))
       \<and> (p = 50 \<longrightarrow> \<bar>pos - W / 2\<bar> \<le> (\<bar>ext\<bar> + \<bar>W\<bar> + 1) / 2 ^ 48)"
  using assms interpolate64_half[of ext W] by simp

lemma anchor64_cases:
  assumes "(text_align td, text_posX td) =
     (if p \<le> 0 then (''left'', 0)
      else if p \<ge> 100 then (''right'', W)
      else (''center'', interpolate64 w W p))"
  shows "(p \<le> 0 \<longrightarrow> textCentreX td w = w / 2)
       \<and> (p \<ge> 100 \<longrightarrow> textCentreX td w = W - w / 2)
       \<and> (p = 50 \<longrightarrow> \<bar>textCentreX td w - W / 2\<bar> \<le> (\<bar>w\<bar> + \<bar>W\<bar> + 1) / 2 ^ 48)"
  using assms interpolate64_half[of w W] by (auto simp add: textCentreX_def split: if_splits)

lemma renderFrame_icon64_cases:
  assumes "icon_svg ic \<noteq> []"
  shows "\<exists>il. renderFrame_icon64 canvas ic sz ix iy = Some il
     \<and> iconLayoutSize il = sz
     \<and> (ix \<le> 0 \<longrightarrow> iconPosX il = round64 (iconLayoutSize il / 2))
     \<and> (ix \<ge> 100 \<longrightarrow> iconPosX il = round64 (canvas_width canvas - round64 (iconLayoutSize il / 2)))
     \<and> (ix = 50 \<longrightarrow> \<bar>iconPosX il - canvas_width canvas / 2\<bar>
            \<le> (\<bar>iconLayoutSize il\<bar> + \<bar>canvas_width canvas\<bar> + 1) / 2 ^ 48)
     \<and> (iy \<le> 0 \<longrightarrow> iconPosY il = round64 (iconLayoutSize il / 2))
     \<and> (iy \<ge> 100 \<longrightarrow> iconPosY il = round64 (canvas_height canvas - round64 (iconLayoutSize il / 2)))
     \<and> (iy = 50 \<longrightarrow> \<bar>iconPosY il - canvas_height canvas / 2\<bar>
            \<le> (\<bar>iconLayoutSize il\<bar> + \<bar>canvas_height canvas\<bar> + 1) / 2 ^ 48)"
proof -
  define il where "il = \<lparr>iconPosX =
      (if ix \<le> 0 then round64 (sz / 2)
       else if ix \<ge> 100 then round64 (canvas_width canvas - round64 (sz / 2))
       else interpolate64 sz (canvas_width canvas) ix),
     iconPosY =
      (if iy \<le> 0 then round64 (sz / 2)
       else if iy \<ge> 100 then round64 (canvas_height canvas - round64 (sz / 2))
       else interpolate64 sz (canvas_height canvas) iy),
     iconLayoutSize = sz\<rparr>"
  have r: "renderFrame_icon64 canvas ic sz ix iy = Some il"
    using assms by (simp add: renderFrame_icon64_def il_def interpolate64_def Let_def)
  have sz: "iconLayoutSize il = sz"
    by (simp add: il_def)
  have x: "iconPosX il =
      (if ix \<le> 0 then round64 (iconLayoutSize il / 2)
       else if ix \<ge> 100 then round64 (canvas_width canvas - round64 (iconLayoutSize il / 2))
       else interpolate64 (iconLayoutSize il) (canvas_width canvas) ix)"
    by (simp add: il_def)
  have y: "iconPosY il =
      (if iy \<le> 0 then round64 (iconLayoutSize il / 2)
       else if iy \<ge> 100 then round64 (canvas_height canvas - round64 (iconLayoutSize il / 2))
       else interpolate64 (iconLayoutSize il) (canvas_height canvas) iy)"
    by (simp add: il_def)
  show ?thesis
    apply (rule exI[of _ il])
    using r sz centre64_cases[OF x] centre64_cases[OF y] by (elim conjE) (intro conjI; assumption)
qed

lemma renderFrame_title64_layout:
  assumes "title_text tc \<noteq> []"
  shows "\<exists>td. renderFrame_title64 m canvas tc tx ty = Some td
     \<and> (text_align td, text_posX td) =
         (if tx \<le> 0 then (''left'', 0)
          else if tx \<ge> 100 then (''right'', canvas_width canvas)
          else (''center'', interpolate64 (textWidthOf m td) (canvas_width canvas) (tx)))
     \<and> text_posY td =
         (if ty \<le> 0 then round64 (text_fontSize td / 2)
          else if ty \<ge> 100 then round64 (canvas_height canvas - round64 (text_fontSize td / 2))
          else interpolate64 (text_fontSize td) (canvas_height canvas) (ty))"
  using assms by (simp add: renderFrame_title64_def textWidthOf_def interpolate64_def Let_def)

lemma renderFrame_title64_cases:
  assumes "title_text tc \<noteq> []"
  shows "\<exists>td. renderFrame_title64 m canvas tc tx ty = Some td
     \<and> (tx \<le> 0 \<longrightarrow> textCentreX td (textWidthOf m td) = textWidthOf m td / 2)
     \<and> (tx \<ge> 100 \<longrightarrow> textCentreX td (textWidthOf m td) = canvas_width canvas - textWidthOf m td / 2)
     \<and> (tx = 50 \<longrightarrow> \<bar>textCentreX td (textWidthOf m td) - canvas_width canvas / 2\<bar>
            \<le> (\<bar>textWidthOf m td\<bar> + \<bar>canvas_width canvas\<bar> + 1) / 2 ^ 48)
     \<and> (ty \<le> 0 \<longrightarrow> text_posY td = round64 (text_fontSize td / 2))
     \<and> (ty \<ge> 100 \<longrightarrow> text_posY td = round64 (canvas_height canvas - round64 (text_fontSize td / 2)))
     \<and> (ty = 50 \<longrightarrow> \<bar>text_posY td - canvas_height canvas / 2\<bar>
            \<le> (\<bar>text_fontSize td\<bar> + \<bar>canvas_height canvas\<bar> + 1) / 2 ^ 48)"
proof -
  from renderFrame_title64_layout[OF assms, of m canvas tx ty]
  obtain td where td: "renderFrame_title64 m canvas tc tx ty = Some td"
    and tdx: "(text_align td, text_posX td) =
         (if tx \<le> 0 then (''left'', 0)
          else if tx \<ge> 100 then (''right'', canvas_width canvas)
          else (''center'', interpolate64 (textWidthOf m td) (canvas_width canvas) (tx)))"
    and tdy: "text_posY td =
         (if ty \<le> 0 then round64 (text_fontSize td / 2)
          else if ty \<ge> 100 then round64 (canvas_height canvas - round64 (text_fontSize td / 2))
          else interpolate64 (text_fontSize td) (canvas_height canvas) (ty))"
    by blast
  show ?thesis
    apply (rule exI[of _ td])
    using td anchor64_cases[OF tdx] centre64_cases[OF tdy]
    by (elim conjE) (intro conjI; assumption)
qed

lemma renderFrame_watermark64_layout:
  assumes "watermark_text wc \<noteq> []"
  shows "\<exists>td. renderFrame_watermark64 m canvas wc wx wy = Some td
     \<and> (text_align td, text_posX td) =
         (if wx \<le> 0 then (''left'', 0)
          else if wx \<ge> 100 then (''right'', canvas_width canvas)
          else (''center'', interpolate64 (textWidthOf m td) (canvas_width canvas) (wx)))
     \<and> text_posY td =
         (if wy \<le> 0 then round64 (text_fontSize td / 2)
          else if wy \<ge> 100 then round64 (canvas_height canvas - round64 (text_fontSize td / 2))
          else interpolate64 (text_fontSize td) (canvas_height canvas) (wy))"
  using assms by (simp add: renderFrame_watermark64_def textWidthOf_def interpolate64_def Let_def)

lemma renderFrame_watermark64_cases:
  assumes "watermark_text wc \<noteq> []"
  shows "\<exists>td. renderFrame_watermark64 m canvas wc wx wy = Some td
     \<and> (wx \<le> 0 \<longrightarrow> textCentreX td (textWidthOf m td) = textWidthOf m td / 2)
     \<and> (wx \<ge> 100 \<longrightarrow> textCentreX td (textWidthOf m td) = canvas_width canvas - textWidthOf m td / 2)
     \<and> (wx = 50 \<longrightarrow> \<bar>textCentreX td (textWidthOf m td) - canvas_width canvas / 2\<bar>
            \<le> (\<bar>textWidthOf m td\<bar> + \<bar>canvas_width canvas\<bar> + 1) / 2 ^ 48)
     \<and> (wy \<le> 0 \<longrightarrow> text_posY td = round64 (text_fontSize td / 2))
     \<and> (wy \<ge> 100 \<longrightarrow> text_posY td = round64 (canvas_height canvas - round64 (text_fontSize td / 2)))
     \<and> (wy = 50 \<longrightarrow> \<bar>text_posY td - canvas_height canvas / 2\<bar>
            \<le> (\<bar>text_fontSize td\<bar> + \<bar>canvas_height canvas\<bar> + 1) / 2 ^ 48)"
proof -
  from renderFrame_watermark64_layout[OF assms, of m canvas wx wy]
  obtain td where td: "renderFrame_watermark64 m canvas wc wx wy = Some td"
    and tdx: "(text_align td, text_posX td) =
         (if wx \<le> 0 then (''left'', 0)
          else if wx \<ge> 100 then (''right'', canvas_width canvas)
          else (''center'', interpolate64 (textWidthOf m td) (canvas_width canvas) (wx)))"
    and tdy: "text_posY td =
         (if wy \<le> 0 then round64 (text_fontSize td / 2)
          else if wy \<ge> 100 then round64 (canvas_height canvas - round64 (text_fontSize td / 2))
          else interpolate64 (text_fontSize td) (canvas_height canvas) (wy))"
    by blast
  show ?thesis
    apply (rule exI[of _ td])
    using td anchor64_cases[OF tdx] centre64_cases[OF tdy]
    by (elim conjE) (intro conjI; assumption)
qed

lemma exportImage_title64_layout:
  assumes "title_text tc \<noteq> []"
  shows "\<exists>td. exportImage_title64 m exportCanvas canvas tc = Some td
     \<and> (text_align td, text_posX td) =
         (if pos_x (title_position tc) \<le> 0 then (''left'', 0)
          else if pos_x (title_position tc) \<ge> 100 then (''right'', canvas_width exportCanvas)
          else (''center'', interpolate64 (textWidthOf m td) (canvas_width exportCanvas) (pos_x (title_position tc))))
     \<and> text_posY td =
         (if pos_y (title_position tc) \<le> 0 then round64 (text_fontSize td / 2)
          else if pos_y (title_position tc) \<ge> 100 then round64 (canvas_height exportCanvas - round64 (text_fontSize td / 2))
          else interpolate64 (text_fontSize td) (canvas_height exportCanvas) (pos_y (title_position tc)))"
  using assms by (simp add: exportImage_title64_def textWidthOf_def interpolate64_def Let_def)

lemma exportImage_title64_cases:
  assumes "title_text tc \<noteq> []"
  shows "\<exists>td. exportImage_title64 m exportCanvas canvas tc = Some td
     \<and> (pos_x (title_position tc) \<le> 0 \<longrightarrow> textCentreX td (textWidthOf m td) = textWidthOf m td / 2)
     \<and> (pos_x (title_position tc) \<ge> 100 \<longrightarrow> textCentreX td (textWidthOf m td) = canvas_width exportCanvas - textWidthOf m td / 2)
     \<and> (pos_x (title_position tc) = 50 \<longrightarrow> \<bar>textCentreX td (textWidthOf m td) - canvas_width exportCanvas / 2\<bar>
            \<le> (\<bar>textWidthOf m td\<bar> + \<bar>canvas_width exportCanvas\<bar> + 1) / 2 ^ 48)
     \<and> (pos_y (title_position tc) \<le> 0 \<longrightarrow> text_posY td = round64 (text_fontSize td / 2))
     \<and> (pos_y (title_position tc) \<ge> 100 \<longrightarrow> text_posY td = round64 (canvas_height exportCanvas - round64 (text_fontSize td / 2)))
     \<and> (pos_y (title_position tc) = 50 \<longrightarrow> \<bar>text_posY td - canvas_height exportCanvas / 2\<bar>
            \<le> (\<bar>text_fontSize td\<bar> + \<bar>canvas_height exportCanvas\<bar> + 1) / 2 ^ 48)"
proof -
  from exportImage_title64_layout[OF assms, of m exportCanvas canvas]
  obtain td where td: "exportImage_title64 m exportCanvas canvas tc = Some td"
    and tdx: "(text_align td, text_posX td) =
         (if pos_x (title_position tc) \<le> 0 then (''left'', 0)
          else if pos_x (title_position tc) \<ge> 100 then (''right'', canvas_width exportCanvas)
          else (''center'', interpolate64 (textWidthOf m td) (canvas_width exportCanvas) (pos_x (title_position tc))))"
    and tdy: "text_posY td =
         (if pos_y (title_position tc) \<le> 0 then round64 (text_fontSize td / 2)
          else if pos_y (title_position tc) \<ge> 100 then round64 (canvas_height exportCanvas - round64 (text_fontSize td / 2))
          else interpolate64 (text_fontSize td) (canvas_height exportCanvas) (pos_y (title_position tc)))"
    by blast
  show ?thesis
    apply (rule exI[of _ td])
    using td anchor64_cases[OF tdx] centre64_cases[OF tdy]
    by (elim conjE) (intro conjI; assumption)
qed

lemma exportImage_watermark64_layout:
  assumes "watermark_text wc \<noteq> []"
  shows "\<exists>td. exportImage_watermark64 m exportCanvas canvas wc = Some td
     \<and> (text_align td, text_posX td) =
         (if pos_x (watermark_position wc) \<le> 0 then (''left'', 0)
          else if pos_x (watermark_position wc) \<ge> 100 then (''right'', canvas_width exportCanvas)
          else (''center'', interpolate64 (textWidthOf m td) (canvas_width exportCanvas) (pos_x (watermark_position wc))))
     \<and> text_posY td =
         (if pos_y (watermark_position wc) \<le> 0 then round64 (text_fontSize td / 2)
          else if pos_y (watermark_position wc) \<ge> 100 then round64 (canvas_height exportCanvas - round64 (text_fontSize td / 2))
          else interpolate64 (text_fontSize td) (canvas_height exportCanvas) (pos_y (watermark_position wc)))"
  using assms by (simp add: exportImage_watermark64_def textWidthOf_def interpolate64_def Let_def)

lemma exportImage_watermark64_cases:
  assumes "watermark_text wc \<noteq> []"
  shows "\<exists>td. exportImage_watermark64 m exportCanvas canvas wc = Some td
     \<and> (pos_x (watermark_position wc) \<le> 0 \<longrightarrow> textCentreX td (textWidthOf m td) = textWidthOf m td / 2)
     \<and> (pos_x (watermark_position wc) \<ge> 100 \<longrightarrow> textCentreX td (textWidthOf m td) = canvas_width exportCanvas - textWidthOf m td / 2)
     \<and> (pos_x (watermark_position wc) = 50 \<longrightarrow> \<bar>textCentreX td (textWidthOf m td) - canvas_width exportCanvas / 2\<bar>
            \<le> (\<bar>textWidthOf m td\<bar> + \<bar>canvas_width exportCanvas\<bar> + 1) / 2 ^ 48)
     \<and> (pos_y (watermark_position wc) \<le> 0 \<longrightarrow> text_posY td = round64 (text_fontSize td / 2))
     \<and> (pos_y (watermark_position wc) \<ge> 100 \<longrightarrow> text_posY td = round64 (canvas_height exportCanvas - round64 (text_fontSize td / 2)))
     \<and> (pos_y (watermark_position wc) = 50 \<longrightarrow> \<bar>text_posY td - canvas_height exportCanvas / 2\<bar>
            \<le> (\<bar>text_fontSize td\<bar> + \<bar>canvas_height exportCanvas\<bar> + 1) / 2 ^ 48)"
proof -
  from exportImage_watermark64_layout[OF assms, of m exportCanvas canvas]
  obtain td where td: "exportImage_watermark64 m exportCanvas canvas wc = Some td"
    and tdx: "(text_align td, text_posX td) =
         (if pos_x (watermark_position wc) \<le> 0 then (''left'', 0)
          else if pos_x (watermark_position wc) \<ge> 100 then (''right'', canvas_width exportCanvas)
          else (''center'', interpolate64 (textWidthOf m td) (canvas_width exportCanvas) (pos_x (watermark_position wc))))"
    and tdy: "text_posY td =
         (if pos_y (watermark_position wc) \<le> 0 then round64 (text_fontSize td / 2)
          else if pos_y (watermark_position wc) \<ge> 100 then round64 (canvas_height exportCanvas - round64 (text_fontSize td / 2))
          else interpolate64 (text_fontSize td) (canvas_height exportCanvas) (pos_y (watermark_position wc)))"
    by blast
  show ?thesis
    apply (rule exI[of _ td])
    using td anchor64_cases[OF tdx] centre64_cases[OF tdy]
    by (elim conjE) (intro conjI; assumption)
qed

lemma exportImage_icon64_cases:
  assumes "icon_svg ic \<noteq> []"
  shows "\<exists>il. exportImage_icon64 exportCanvas canvas ic = Some il
     \<and> iconLayoutSize il
         = round64 (icon_size ic * round64 (canvas_width exportCanvas / canvas_width canvas))
     \<and> (pos_x (icon_position ic) \<le> 0 \<longrightarrow> iconPosX il = round64 (iconLayoutSize il / 2))
     \<and> (pos_x (icon_position ic) \<ge> 100 \<longrightarrow>
           iconPosX il = round64 (canvas_width exportCanvas - round64 (iconLayoutSize il / 2)))
     \<and> (pos_x (icon_position ic) = 50 \<longrightarrow> \<bar>iconPosX il - canvas_width exportCanvas / 2\<bar>
            \<le> (\<bar>iconLayoutSize il\<bar> + \<bar>canvas_width exportCanvas\<bar> + 1) / 2 ^ 48)
     \<and> (pos_y (icon_position ic) \<le> 0 \<longrightarrow> iconPosY il = round64 (iconLayoutSize il / 2))
     \<and> (pos_y (icon_position ic) \<ge> 100 \<longrightarrow>
           iconPosY il = round64 (canvas_height exportCanvas - round64 (iconLayoutSize il / 2)))
     \<and> (pos_y (icon_position ic) = 50 \<longrightarrow> \<bar>iconPosY il - canvas_height exportCanvas / 2\<bar>
            \<le> (\<bar>iconLayoutSize il\<bar> + \<bar>canvas_height exportCanvas\<bar> + 1) / 2 ^ 48)"
proof -
  define sz where
    "sz = round64 (icon_size ic * round64 (canvas_width exportCanvas / canvas_width canvas))"
  define il where "il = \<lparr>iconPosX =
      (if pos_x (icon_position ic) \<le> 0 then round64 (sz / 2)
       else if pos_x (icon_position ic) \<ge> 100
         then round64 (canvas_width exportCanvas - round64 (sz / 2))
       else interpolate64 sz (canvas_width exportCanvas) (pos_x (icon_position ic))),
     iconPosY =
      (if pos_y (icon_position ic) \<le> 0 then round64 (sz / 2)
       else if pos_y (icon_position ic) \<ge> 100
         then round64 (canvas_height exportCanvas - round64 (sz / 2))
       else interpolate64 sz (canvas_height exportCanvas) (pos_y (icon_position ic))),
     iconLayoutSize = sz\<rparr>"
  have r: "exportImage_icon64 exportCanvas canvas ic = Some il"
    using assms by (simp add: exportImage_icon64_def il_def sz_def interpolate64_def Let_def)
  have sz: "iconLayoutSize il
      = round64 (icon_size ic * round64 (canvas_width exportCanvas / canvas_width canvas))"
    by (simp add: il_def sz_def)
  have x: "iconPosX il =
      (if pos_x (icon_position ic) \<le> 0 then round64 (iconLayoutSize il / 2)
       else if pos_x (icon_position ic) \<ge> 100
         then round64 (canvas_width exportCanvas - round64 (iconLayoutSize il / 2))
       else interpolate64 (iconLayoutSize il) (canvas_width exportCanvas) (pos_x (icon_position ic)))"
    by (simp add: il_def)
  have y: "iconPosY il =
      (if pos_y (icon_position ic) \<le> 0 then round64 (iconLayoutSize il / 2)
       else if pos_y (icon_position ic) \<ge> 100
         then round64 (canvas_height exportCanvas - round64 (iconLayoutSize il / 2))
       else interpolate64 (iconLayoutSize il) (canvas_height exportCanvas) (pos_y (icon_position ic)))"
    by (simp add: il_def)
  show ?thesis
    apply (rule exI[of _ il])
    using r sz centre64_cases[OF x] centre64_cases[OF y] by (elim conjE) (intro conjI; assumption)
qed

lemma export_icon_centre_1280:
  "exportImage_icon64 \<lparr>canvas_width = 1280, canvas_height = 720\<rparr> \<lparr>canvas_width = 1920, canvas_height = 1080\<rparr>
      \<lparr>icon_svg = ''<svg/>'', icon_size = 200, icon_position = \<lparr>pos_x = 50, pos_y = 0\<rparr>,
       icon_shadowColor = ''#000000'', icon_shadowSize = 10\<rparr>
   = Some \<lparr>iconPosX = 5629499534213119 / 8796093022208,
            iconPosY = 2345624805922133 / 35184372088832,
            iconLayoutSize = 2345624805922133 / 17592186044416\<rparr>"
proof -
  have ratio: "round64 (2 / 3) = 6004799503160661 / 9007199254740992"
    using round64_eval[of "-1" "2 / 3"] by (simp add: roundTiesToEven_def)
  have isz: "round64 (150119987579016525 / 1125899906842624) = 2345624805922133 / 17592186044416"
    using round64_eval[of 7 "150119987579016525 / 1125899906842624"] by (simp add: roundTiesToEven_def)
  have half: "round64 (2345624805922133 / 35184372088832) = 2345624805922133 / 35184372088832"
    using round64_eval[of 6 "2345624805922133 / 35184372088832"] by (simp add: roundTiesToEven_def)
  have mx: "round64 (42690371467782827 / 35184372088832) = 5336296433472853 / 4398046511104"
    using round64_eval[of 10 "42690371467782827 / 35184372088832"] by (simp add: roundTiesToEven_def)
  have diff: "round64 (40344746661860691 / 35184372088832) = 2521546666366293 / 2199023255552"
    using round64_eval[of 10 "40344746661860691 / 35184372088832"] by (simp add: roundTiesToEven_def)
  have prod: "round64 (2521546666366293 / 4398046511104) = 2521546666366293 / 4398046511104"
    using round64_eval[of 9 "2521546666366293 / 4398046511104"] by (simp add: roundTiesToEven_def)
  have pos: "round64 (22517998136852477 / 35184372088832) = 5629499534213119 / 8796093022208"
    using round64_eval[of 9 "22517998136852477 / 35184372088832"] by (simp add: roundTiesToEven_def)
  show ?thesis
    by (simp add: exportImage_icon64_def Let_def ratio isz half mx diff round64_half prod pos)
qed

text \<open>
  Claim C2, as stated, fails at 50 percent on the binary64 numbers of the program. Export
  the 1920 wide preview at the width 1280 with an icon of size 200 at 50 percent. The
  scale \<open>1280 / 1920\<close> rounds, the icon size becomes \<open>133.33333333333331\<close>, and the centre
  of the icon resolves to \<open>5629499534213119 / 2 ^ 43\<close>, which is \<open>639.9999999999999\<close> and
  not half the width, 640.
\<close>

theorem export_centre_inexact_counterexample:
  "map_option iconPosX
     (exportImage_icon64 \<lparr>canvas_width = 1280, canvas_height = 720\<rparr> sampleCanvas
        (sampleIcon\<lparr>icon_position := \<lparr>pos_x = 50, pos_y = 0\<rparr>\<rparr>))
     = Some (5629499534213119 / 8796093022208)
   \<and> (5629499534213119 / 8796093022208 :: real)
       \<noteq> canvas_width \<lparr>canvas_width = 1280, canvas_height = 720\<rparr> / 2"
  using export_icon_centre_1280 by (simp add: sample_defs)

text \<open>
  Claim C2, amended. On the binary64 numbers of the program, in both passes, with \<open>e\<close> the
  extent of the content and \<open>c\<close> the extent of the canvas along the axis: for the icon on
  both axes (\<open>e\<close> the icon size) and for the title and the watermark vertically (\<open>e\<close> the
  font size), a percent at or below 0 resolves the centre to \<open>round64 (e / 2)\<close>, which by
  \<open>round64_halve\<close> is \<open>e / 2\<close> itself for a binary64 extent of magnitude at least
  \<open>2 powi (-1021)\<close>, a percent at or above 100 to \<open>round64 (c - round64 (e / 2))\<close>, and
  the percent 50 to a coordinate within \<open>(\<bar>e\<bar> + \<bar>c\<bar> + 1) / 2 ^ 48\<close> of \<open>c / 2\<close>, which
  need not be \<open>c / 2\<close> itself.
  Horizontally the title and the watermark are placed by an alignment and an anchor, and
  with \<open>e\<close> the measured width of the drawn text the centre of the text is exactly \<open>e / 2\<close>
  at or below 0 percent (left aligned at 0), exactly \<open>c - e / 2\<close> at or above 100 percent
  (right aligned at the width of the canvas), and within \<open>(\<bar>e\<bar> + \<bar>c\<bar> + 1) / 2 ^ 48\<close> of
  \<open>c / 2\<close> at 50 percent (centred on the interpolated coordinate). In the export the
  percents are the configured ones, and the extents are those of the scaled sizes, each
  rounded from the size times the rounded quotient of export width and preview width.
\<close>

theorem layout_edges_and_centre_binary64:
  assumes "icon_svg ic \<noteq> []" and "title_text tc \<noteq> []" and "watermark_text wc \<noteq> []"
  shows "\<exists>il td wd el etd ewd.
       renderFrame_icon64 canvas ic sz ix iy = Some il
     \<and> renderFrame_title64 m canvas tc tx ty = Some td
     \<and> renderFrame_watermark64 m canvas wc wx wy = Some wd
     \<and> exportImage_icon64 exportCanvas canvas ic = Some el
     \<and> exportImage_title64 m exportCanvas canvas tc = Some etd
     \<and> exportImage_watermark64 m exportCanvas canvas wc = Some ewd
     \<and> iconLayoutSize il = sz
     \<and> (ix \<le> 0 \<longrightarrow> iconPosX il = round64 (iconLayoutSize il / 2))
     \<and> (ix \<ge> 100 \<longrightarrow> iconPosX il = round64 (canvas_width canvas - round64 (iconLayoutSize il / 2)))
     \<and> (ix = 50 \<longrightarrow> \<bar>iconPosX il - canvas_width canvas / 2\<bar>
            \<le> (\<bar>iconLayoutSize il\<bar> + \<bar>canvas_width canvas\<bar> + 1) / 2 ^ 48)
     \<and> (iy \<le> 0 \<longrightarrow> iconPosY il = round64 (iconLayoutSize il / 2))
     \<and> (iy \<ge> 100 \<longrightarrow> iconPosY il = round64 (canvas_height canvas - round64 (iconLayoutSize il / 2)))
     \<and> (iy = 50 \<longrightarrow> \<bar>iconPosY il - canvas_height canvas / 2\<bar>
            \<le> (\<bar>iconLayoutSize il\<bar> + \<bar>canvas_height canvas\<bar> + 1) / 2 ^ 48)
     \<and> (tx \<le> 0 \<longrightarrow> textCentreX td (textWidthOf m td) = textWidthOf m td / 2)
     \<and> (tx \<ge> 100 \<longrightarrow> textCentreX td (textWidthOf m td) = canvas_width canvas - textWidthOf m td / 2)
     \<and> (tx = 50 \<longrightarrow> \<bar>textCentreX td (textWidthOf m td) - canvas_width canvas / 2\<bar>
            \<le> (\<bar>textWidthOf m td\<bar> + \<bar>canvas_width canvas\<bar> + 1) / 2 ^ 48)
     \<and> (ty \<le> 0 \<longrightarrow> text_posY td = round64 (text_fontSize td / 2))
     \<and> (ty \<ge> 100 \<longrightarrow> text_posY td = round64 (canvas_height canvas - round64 (text_fontSize td / 2)))
     \<and> (ty = 50 \<longrightarrow> \<bar>text_posY td - canvas_height canvas / 2\<bar>
            \<le> (\<bar>text_fontSize td\<bar> + \<bar>canvas_height canvas\<bar> + 1) / 2 ^ 48)
     \<and> (wx \<le> 0 \<longrightarrow> textCentreX wd (textWidthOf m wd) = textWidthOf m wd / 2)
     \<and> (wx \<ge> 100 \<longrightarrow> textCentreX wd (textWidthOf m wd) = canvas_width canvas - textWidthOf m wd / 2)
     \<and> (wx = 50 \<longrightarrow> \<bar>textCentreX wd (textWidthOf m wd) - canvas_width canvas / 2\<bar>
            \<le> (\<bar>textWidthOf m wd\<bar> + \<bar>canvas_width canvas\<bar> + 1) / 2 ^ 48)
     \<and> (wy \<le> 0 \<longrightarrow> text_posY wd = round64 (text_fontSize wd / 2))
     \<and> (wy \<ge> 100 \<longrightarrow> text_posY wd = round64 (canvas_height canvas - round64 (text_fontSize wd / 2)))
     \<and> (wy = 50 \<longrightarrow> \<bar>text_posY wd - canvas_height canvas / 2\<bar>
            \<le> (\<bar>text_fontSize wd\<bar> + \<bar>canvas_height canvas\<bar> + 1) / 2 ^ 48)
     \<and> iconLayoutSize el
         = round64 (icon_size ic * round64 (canvas_width exportCanvas / canvas_width canvas))
     \<and> (pos_x (icon_position ic) \<le> 0 \<longrightarrow> iconPosX el = round64 (iconLayoutSize el / 2))
     \<and> (pos_x (icon_position ic) \<ge> 100 \<longrightarrow> iconPosX el = round64 (canvas_width exportCanvas - round64 (iconLayoutSize el / 2)))
     \<and> (pos_x (icon_position ic) = 50 \<longrightarrow> \<bar>iconPosX el - canvas_width exportCanvas / 2\<bar>
            \<le> (\<bar>iconLayoutSize el\<bar> + \<bar>canvas_width exportCanvas\<bar> + 1) / 2 ^ 48)
     \<and> (pos_y (icon_position ic) \<le> 0 \<longrightarrow> iconPosY el = round64 (iconLayoutSize el / 2))
     \<and> (pos_y (icon_position ic) \<ge> 100 \<longrightarrow> iconPosY el = round64 (canvas_height exportCanvas - round64 (iconLayoutSize el / 2)))
     \<and> (pos_y (icon_position ic) = 50 \<longrightarrow> \<bar>iconPosY el - canvas_height exportCanvas / 2\<bar>
            \<le> (\<bar>iconLayoutSize el\<bar> + \<bar>canvas_height exportCanvas\<bar> + 1) / 2 ^ 48)
     \<and> (pos_x (title_position tc) \<le> 0 \<longrightarrow> textCentreX etd (textWidthOf m etd) = textWidthOf m etd / 2)
     \<and> (pos_x (title_position tc) \<ge> 100 \<longrightarrow> textCentreX etd (textWidthOf m etd) = canvas_width exportCanvas - textWidthOf m etd / 2)
     \<and> (pos_x (title_position tc) = 50 \<longrightarrow> \<bar>textCentreX etd (textWidthOf m etd) - canvas_width exportCanvas / 2\<bar>
            \<le> (\<bar>textWidthOf m etd\<bar> + \<bar>canvas_width exportCanvas\<bar> + 1) / 2 ^ 48)
     \<and> (pos_y (title_position tc) \<le> 0 \<longrightarrow> text_posY etd = round64 (text_fontSize etd / 2))
     \<and> (pos_y (title_position tc) \<ge> 100 \<longrightarrow> text_posY etd = round64 (canvas_height exportCanvas - round64 (text_fontSize etd / 2)))
     \<and> (pos_y (title_position tc) = 50 \<longrightarrow> \<bar>text_posY etd - canvas_height exportCanvas / 2\<bar>
            \<le> (\<bar>text_fontSize etd\<bar> + \<bar>canvas_height exportCanvas\<bar> + 1) / 2 ^ 48)
     \<and> (pos_x (watermark_position wc) \<le> 0 \<longrightarrow> textCentreX ewd (textWidthOf m ewd) = textWidthOf m ewd / 2)
     \<and> (pos_x (watermark_position wc) \<ge> 100 \<longrightarrow> textCentreX ewd (textWidthOf m ewd) = canvas_width exportCanvas - textWidthOf m ewd / 2)
     \<and> (pos_x (watermark_position wc) = 50 \<longrightarrow> \<bar>textCentreX ewd (textWidthOf m ewd) - canvas_width exportCanvas / 2\<bar>
            \<le> (\<bar>textWidthOf m ewd\<bar> + \<bar>canvas_width exportCanvas\<bar> + 1) / 2 ^ 48)
     \<and> (pos_y (watermark_position wc) \<le> 0 \<longrightarrow> text_posY ewd = round64 (text_fontSize ewd / 2))
     \<and> (pos_y (watermark_position wc) \<ge> 100 \<longrightarrow> text_posY ewd = round64 (canvas_height exportCanvas - round64 (text_fontSize ewd / 2)))
     \<and> (pos_y (watermark_position wc) = 50 \<longrightarrow> \<bar>text_posY ewd - canvas_height exportCanvas / 2\<bar>
            \<le> (\<bar>text_fontSize ewd\<bar> + \<bar>canvas_height exportCanvas\<bar> + 1) / 2 ^ 48)"
proof -
  from renderFrame_icon64_cases[OF assms(1), of canvas sz ix iy]
  obtain il where il: "renderFrame_icon64 canvas ic sz ix iy = Some il
     \<and> iconLayoutSize il = sz
     \<and> (ix \<le> 0 \<longrightarrow> iconPosX il = round64 (iconLayoutSize il / 2))
     \<and> (ix \<ge> 100 \<longrightarrow> iconPosX il = round64 (canvas_width canvas - round64 (iconLayoutSize il / 2)))
     \<and> (ix = 50 \<longrightarrow> \<bar>iconPosX il - canvas_width canvas / 2\<bar>
            \<le> (\<bar>iconLayoutSize il\<bar> + \<bar>canvas_width canvas\<bar> + 1) / 2 ^ 48)
     \<and> (iy \<le> 0 \<longrightarrow> iconPosY il = round64 (iconLayoutSize il / 2))
     \<and> (iy \<ge> 100 \<longrightarrow> iconPosY il = round64 (canvas_height canvas - round64 (iconLayoutSize il / 2)))
     \<and> (iy = 50 \<longrightarrow> \<bar>iconPosY il - canvas_height canvas / 2\<bar>
            \<le> (\<bar>iconLayoutSize il\<bar> + \<bar>canvas_height canvas\<bar> + 1) / 2 ^ 48)" ..
  from renderFrame_title64_cases[OF assms(2), of m canvas tx ty]
  obtain td where td: "renderFrame_title64 m canvas tc tx ty = Some td
     \<and> (tx \<le> 0 \<longrightarrow> textCentreX td (textWidthOf m td) = textWidthOf m td / 2)
     \<and> (tx \<ge> 100 \<longrightarrow> textCentreX td (textWidthOf m td) = canvas_width canvas - textWidthOf m td / 2)
     \<and> (tx = 50 \<longrightarrow> \<bar>textCentreX td (textWidthOf m td) - canvas_width canvas / 2\<bar>
            \<le> (\<bar>textWidthOf m td\<bar> + \<bar>canvas_width canvas\<bar> + 1) / 2 ^ 48)
     \<and> (ty \<le> 0 \<longrightarrow> text_posY td = round64 (text_fontSize td / 2))
     \<and> (ty \<ge> 100 \<longrightarrow> text_posY td = round64 (canvas_height canvas - round64 (text_fontSize td / 2)))
     \<and> (ty = 50 \<longrightarrow> \<bar>text_posY td - canvas_height canvas / 2\<bar>
            \<le> (\<bar>text_fontSize td\<bar> + \<bar>canvas_height canvas\<bar> + 1) / 2 ^ 48)" ..
  from renderFrame_watermark64_cases[OF assms(3), of m canvas wx wy]
  obtain wd where wd: "renderFrame_watermark64 m canvas wc wx wy = Some wd
     \<and> (wx \<le> 0 \<longrightarrow> textCentreX wd (textWidthOf m wd) = textWidthOf m wd / 2)
     \<and> (wx \<ge> 100 \<longrightarrow> textCentreX wd (textWidthOf m wd) = canvas_width canvas - textWidthOf m wd / 2)
     \<and> (wx = 50 \<longrightarrow> \<bar>textCentreX wd (textWidthOf m wd) - canvas_width canvas / 2\<bar>
            \<le> (\<bar>textWidthOf m wd\<bar> + \<bar>canvas_width canvas\<bar> + 1) / 2 ^ 48)
     \<and> (wy \<le> 0 \<longrightarrow> text_posY wd = round64 (text_fontSize wd / 2))
     \<and> (wy \<ge> 100 \<longrightarrow> text_posY wd = round64 (canvas_height canvas - round64 (text_fontSize wd / 2)))
     \<and> (wy = 50 \<longrightarrow> \<bar>text_posY wd - canvas_height canvas / 2\<bar>
            \<le> (\<bar>text_fontSize wd\<bar> + \<bar>canvas_height canvas\<bar> + 1) / 2 ^ 48)" ..
  from exportImage_icon64_cases[OF assms(1), of exportCanvas canvas]
  obtain el where el: "exportImage_icon64 exportCanvas canvas ic = Some el
     \<and> iconLayoutSize el
         = round64 (icon_size ic * round64 (canvas_width exportCanvas / canvas_width canvas))
     \<and> (pos_x (icon_position ic) \<le> 0 \<longrightarrow> iconPosX el = round64 (iconLayoutSize el / 2))
     \<and> (pos_x (icon_position ic) \<ge> 100 \<longrightarrow> iconPosX el = round64 (canvas_width exportCanvas - round64 (iconLayoutSize el / 2)))
     \<and> (pos_x (icon_position ic) = 50 \<longrightarrow> \<bar>iconPosX el - canvas_width exportCanvas / 2\<bar>
            \<le> (\<bar>iconLayoutSize el\<bar> + \<bar>canvas_width exportCanvas\<bar> + 1) / 2 ^ 48)
     \<and> (pos_y (icon_position ic) \<le> 0 \<longrightarrow> iconPosY el = round64 (iconLayoutSize el / 2))
     \<and> (pos_y (icon_position ic) \<ge> 100 \<longrightarrow> iconPosY el = round64 (canvas_height exportCanvas - round64 (iconLayoutSize el / 2)))
     \<and> (pos_y (icon_position ic) = 50 \<longrightarrow> \<bar>iconPosY el - canvas_height exportCanvas / 2\<bar>
            \<le> (\<bar>iconLayoutSize el\<bar> + \<bar>canvas_height exportCanvas\<bar> + 1) / 2 ^ 48)" ..
  from exportImage_title64_cases[OF assms(2), of m exportCanvas canvas]
  obtain etd where etd: "exportImage_title64 m exportCanvas canvas tc = Some etd
     \<and> (pos_x (title_position tc) \<le> 0 \<longrightarrow> textCentreX etd (textWidthOf m etd) = textWidthOf m etd / 2)
     \<and> (pos_x (title_position tc) \<ge> 100 \<longrightarrow> textCentreX etd (textWidthOf m etd) = canvas_width exportCanvas - textWidthOf m etd / 2)
     \<and> (pos_x (title_position tc) = 50 \<longrightarrow> \<bar>textCentreX etd (textWidthOf m etd) - canvas_width exportCanvas / 2\<bar>
            \<le> (\<bar>textWidthOf m etd\<bar> + \<bar>canvas_width exportCanvas\<bar> + 1) / 2 ^ 48)
     \<and> (pos_y (title_position tc) \<le> 0 \<longrightarrow> text_posY etd = round64 (text_fontSize etd / 2))
     \<and> (pos_y (title_position tc) \<ge> 100 \<longrightarrow> text_posY etd = round64 (canvas_height exportCanvas - round64 (text_fontSize etd / 2)))
     \<and> (pos_y (title_position tc) = 50 \<longrightarrow> \<bar>text_posY etd - canvas_height exportCanvas / 2\<bar>
            \<le> (\<bar>text_fontSize etd\<bar> + \<bar>canvas_height exportCanvas\<bar> + 1) / 2 ^ 48)" ..
  from exportImage_watermark64_cases[OF assms(3), of m exportCanvas canvas]
  obtain ewd where ewd: "exportImage_watermark64 m exportCanvas canvas wc = Some ewd
     \<and> (pos_x (watermark_position wc) \<le> 0 \<longrightarrow> textCentreX ewd (textWidthOf m ewd) = textWidthOf m ewd / 2)
     \<and> (pos_x (watermark_position wc) \<ge> 100 \<longrightarrow> textCentreX ewd (textWidthOf m ewd) = canvas_width exportCanvas - textWidthOf m ewd / 2)
     \<and> (pos_x (watermark_position wc) = 50 \<longrightarrow> \<bar>textCentreX ewd (textWidthOf m ewd) - canvas_width exportCanvas / 2\<bar>
            \<le> (\<bar>textWidthOf m ewd\<bar> + \<bar>canvas_width exportCanvas\<bar> + 1) / 2 ^ 48)
     \<and> (pos_y (watermark_position wc) \<le> 0 \<longrightarrow> text_posY ewd = round64 (text_fontSize ewd / 2))
     \<and> (pos_y (watermark_position wc) \<ge> 100 \<longrightarrow> text_posY ewd = round64 (canvas_height exportCanvas - round64 (text_fontSize ewd / 2)))
     \<and> (pos_y (watermark_position wc) = 50 \<longrightarrow> \<bar>text_posY ewd - canvas_height exportCanvas / 2\<bar>
            \<le> (\<bar>text_fontSize ewd\<bar> + \<bar>canvas_height exportCanvas\<bar> + 1) / 2 ^ 48)" ..
  show ?thesis
    apply (rule exI[of _ il], rule exI[of _ td], rule exI[of _ wd])
    apply (rule exI[of _ el], rule exI[of _ etd], rule exI[of _ ewd])
    using il td wd el etd ewd by (elim conjE) (intro conjI; assumption)
qed

theorem layout_edges_and_centre_binary64_witness:
  "icon_svg sampleIcon \<noteq> [] \<and> title_text sampleTitle \<noteq> [] \<and> watermark_text sampleWatermark \<noteq> []
   \<and> renderFrame_icon64 sampleCanvas sampleIcon 200 100 0 =
       Some \<lparr>iconPosX = 1820, iconPosY = 100, iconLayoutSize = 200\<rparr>
   \<and> (\<exists>td. renderFrame_title64 monospaceMeasure sampleCanvas sampleTitle 0 100 = Some td
         \<and> textWidthOf monospaceMeasure td = 300
         \<and> textCentreX td (textWidthOf monospaceMeasure td) = 150
         \<and> text_posY td = 1030)
   \<and> (\<exists>wd. renderFrame_watermark64 monospaceMeasure sampleCanvas sampleWatermark 100 0 = Some wd
         \<and> textWidthOf monospaceMeasure wd = 150
         \<and> textCentreX wd (textWidthOf monospaceMeasure wd) = 1845
         \<and> text_posY wd = 25)
   \<and> map_option iconLayoutSize (exportImage_icon64 sampleExportCanvas sampleCanvas sampleIcon)
       = Some 400
   \<and> map_option iconPosY (exportImage_icon64 sampleExportCanvas sampleCanvas sampleIcon)
       = Some 1960
   \<and> (\<exists>etd. exportImage_title64 monospaceMeasure sampleExportCanvas sampleCanvas sampleTitle
               = Some etd
         \<and> textWidthOf monospaceMeasure etd = 600
         \<and> textCentreX etd (textWidthOf monospaceMeasure etd) = 300
         \<and> text_posY etd = 1080)
   \<and> (\<exists>ewd. exportImage_watermark64 monospaceMeasure sampleExportCanvas sampleCanvas
               sampleWatermark = Some ewd
         \<and> textWidthOf monospaceMeasure ewd = 300
         \<and> textCentreX ewd (textWidthOf monospaceMeasure ewd) = 1920
         \<and> text_posY ewd = 2110)"
  using layout_edges_and_centre_binary64[where ic = "sampleIcon" and tc = sampleTitle
      and wc = sampleWatermark
      and canvas = sampleCanvas and exportCanvas = sampleExportCanvas and m = monospaceMeasure
      and sz = 200 and ix = 100 and iy = 0 and tx = 0 and ty = 100 and wx = 100 and wy = 0]
  by (simp add: sample_defs renderFrame_icon64_def exportImage_icon64_def renderFrame_title64_def
      exportImage_title64_def renderFrame_watermark64_def exportImage_watermark64_def
      monospaceMeasure_def textWidthOf_def textCentreX_def toUpperCase_def
      round64_numeral round64_half Let_def)

end
